theory Spec2Isabelle
  imports Complex_Main
begin

section \<open>Data model (src/models.py)\<close>

text \<open>
  Conventions of the embedding.
  \<^item> A \<^verbatim>\<open>Decimal\<close> is a \<^typ>\<open>real\<close> and its arithmetic is exact: the rounding of the
    default decimal context to 28 significant digits is not modelled.  A \<^verbatim>\<open>float\<close> is a
    \<^typ>\<open>real\<close> as well; where Python distinguishes the two types at run time (a
    \<^verbatim>\<open>Decimal\<close> and a \<^verbatim>\<open>float\<close> cannot be multiplied), the values carry their type
    in the datatype \<open>pynum\<close> below.
  \<^item> A naive UTC \<^verbatim>\<open>datetime\<close> is the number of microseconds since the epoch, a
    \<^verbatim>\<open>date\<close> the number of days since the epoch.
  \<^item> An exception is a value of \<open>py_error\<close>; a function that may raise returns
    \<open>py_error + 'a\<close>.
  \<^item> Python names that start with an underscore lose it
    (\<^verbatim>\<open>_check_risk_limits\<close> is \<open>check_risk_limits\<close>).
\<close>

datatype py_error =
    TypeError | AttributeError | KeyError | ValueError
  | DivisionByZero | InvalidOperation | ZeroDivisionError | VenueError

type_synonym datetime = int
type_synonym date = int

definition date_of :: "datetime \<Rightarrow> date" where
  "date_of t = t div 86400000000"

definition total_seconds :: "int \<Rightarrow> real" where
  "total_seconds delta = real_of_int delta / 1000000"

datatype MarketSide = UP | DOWN | LONG | SHORT

datatype OrderType = MARKET | LIMIT | STOP_LOSS | TAKE_PROFIT

datatype PositionStatus = PENDING | OPEN | PARTIAL | CLOSED | CANCELLED | ERROR

datatype ArbitrageType = SPOT_HEDGE | FUTURES_HEDGE | OPTIONS_HEDGE

text \<open>
  \<^verbatim>\<open>PolymarketMarket\<close> and \<^verbatim>\<open>SpotMarket\<close>, with the fields the detectors and executors
  read (the question text, volumes and open interest are never read by them).
\<close>

record PolymarketMarket =
  market_id :: string
  asset :: string
  target_price :: real
  expiry_time :: datetime
  up_price :: real
  down_price :: real
  up_liquidity :: real
  down_liquidity :: real

definition time_to_expiry_hours :: "datetime \<Rightarrow> PolymarketMarket \<Rightarrow> real" where
  "time_to_expiry_hours now m = total_seconds (expiry_time m - now) / 3600"

record SpotMarket =
  bid :: real
  ask :: real

definition mid_price :: "SpotMarket \<Rightarrow> real" where
  "mid_price s = (bid s + ask s) / 2"

record ArbitrageOpportunity =
  opportunity_id :: string
  arb_type :: ArbitrageType
  polymarket :: PolymarketMarket
  spot_market :: SpotMarket
  polymarket_side :: MarketSide
  polymarket_price :: real
  polymarket_quantity :: real
  hedge_side :: MarketSide
  hedge_price :: real
  hedge_quantity :: real
  expected_profit_usd :: real
  expected_profit_percentage :: real
  breakeven_price :: real
  max_risk_usd :: real
  probability_of_profit :: real
  sharpe_ratio :: "real option"
  detected_at :: datetime
  expires_at :: datetime

text \<open>
  \<^verbatim>\<open>Position\<close>.  The fields whose names it shares with \<^verbatim>\<open>ArbitrageOpportunity\<close> carry
  the prefix \<open>pos_\<close>.
\<close>

record Position =
  position_id :: string
  pos_opportunity_id :: string
  status :: PositionStatus
  polymarket_order_id :: "string option"
  pos_polymarket_side :: MarketSide
  polymarket_entry_price :: "real option"
  pos_polymarket_quantity :: "real option"
  polymarket_fees :: real
  hedge_order_id :: "string option"
  hedge_exchange :: string
  hedge_symbol :: string
  pos_hedge_side :: MarketSide
  hedge_entry_price :: "real option"
  pos_hedge_quantity :: "real option"
  hedge_fees :: real
  stop_loss_price :: "real option"
  take_profit_price :: "real option"
  max_loss_usd :: real
  opened_at :: datetime
  closed_at :: "datetime option"
  pos_expires_at :: datetime
  realized_pnl :: real
  unrealized_pnl :: real

section \<open>Position ledger and risk limits (src/arbitrage/executor.py, hyperliquid_executor.py)\<close>

text \<open>
  The state both executors keep.  Position objects are shared between the dictionary
  \<^verbatim>\<open>active_positions\<close>, the list \<^verbatim>\<open>position_history\<close> and the callers, so they live in
  a store indexed by their \<^verbatim>\<open>position_id\<close>; the dictionary is the list of its keys in
  insertion order and the history is a list of references.
\<close>

record executor_state =
  positions :: "string \<rightharpoonup> Position"
  active_positions :: "string list"
  position_history :: "string list"
  max_concurrent :: int
  max_daily_trades :: int
  daily_trade_count :: int
  last_trade_reset :: date

text \<open>
  \<^verbatim>\<open>_check_risk_limits\<close>, the same code in both executors.  The clock is read twice: once
  in the test (\<open>now1\<close>) and once in the assignment (\<open>now2\<close>).
\<close>

definition check_risk_limits ::
  "datetime \<Rightarrow> datetime \<Rightarrow> 'a executor_state_scheme \<Rightarrow> bool \<times> 'a executor_state_scheme" where
  "check_risk_limits now1 now2 st =
     (let st1 = (if date_of now1 > last_trade_reset st
                 then st\<lparr>daily_trade_count := 0, last_trade_reset := date_of now2\<rparr>
                 else st)
      in if int (length (active_positions st1)) \<ge> max_concurrent st1 then (False, st1)
         else if daily_trade_count st1 \<ge> max_daily_trades st1 then (False, st1)
         else (True, st1))"

text \<open>
  What one call of \<^verbatim>\<open>execute_opportunity\<close> does to the daily counter: the risk check,
  and one increment when a position was opened.  \<open>resets\<close> counts the calls in a run
  whose risk check finds the date advanced, and \<open>increments\<close> the calls that add one to
  the counter.
\<close>

definition counters :: "'a executor_state_scheme \<Rightarrow> int \<times> date" where
  "counters st = (daily_trade_count st, last_trade_reset st)"

datatype execution_event = Execution datetime datetime bool

fun event_dates :: "execution_event \<Rightarrow> date set" where
  "event_dates (Execution now1 now2 opened) = {date_of now1, date_of now2}"

fun event_opened :: "execution_event \<Rightarrow> bool" where
  "event_opened (Execution now1 now2 opened) = opened"

fun counter_step :: "execution_event \<Rightarrow> 'a executor_state_scheme \<Rightarrow> 'a executor_state_scheme" where
  "counter_step (Execution now1 now2 opened) st =
     (case check_risk_limits now1 now2 st of
        (False, st1) \<Rightarrow> st1
      | (True, st1) \<Rightarrow>
          if opened then st1\<lparr>daily_trade_count := daily_trade_count st1 + 1\<rparr> else st1)"

fun counter_run :: "execution_event list \<Rightarrow> 'a executor_state_scheme \<Rightarrow> 'a executor_state_scheme" where
  "counter_run [] st = st"
| "counter_run (e # es) st = counter_run es (counter_step e st)"

fun resets :: "execution_event list \<Rightarrow> 'a executor_state_scheme \<Rightarrow> nat" where
  "resets [] st = 0"
| "resets (Execution now1 now2 opened # es) st =
     (if date_of now1 > last_trade_reset st then 1 else 0)
     + resets es (counter_step (Execution now1 now2 opened) st)"

fun increments :: "execution_event list \<Rightarrow> 'a executor_state_scheme \<Rightarrow> nat" where
  "increments [] st = 0"
| "increments (Execution now1 now2 opened # es) st =
     (if fst (check_risk_limits now1 now2 st) \<and> opened then 1 else 0)
     + increments es (counter_step (Execution now1 now2 opened) st)"

section \<open>Venue answers\<close>

text \<open>
  The venue clients are collaborators outside the engine.  What they answer during one
  call of the engine is given to the model as data: each field of a script is the result
  of one venue request, \<open>Inl\<close> when the request raises.  The arguments of a request
  (order type, limit price, quantity) do not determine the answer and are not recorded.
\<close>

record order_status =
  os_status :: string
  os_filled :: real
  os_price :: real
  os_fees :: real

text \<open>
  One leg of an execution: \<^verbatim>\<open>set_leverage\<close> (hedge leg only), \<^verbatim>\<open>place_order\<close>, the
  status polls that \<^verbatim>\<open>_wait_for_fill\<close> makes before its timeout, the final
  \<^verbatim>\<open>get_order_status\<close>, and \<^verbatim>\<open>cancel_order\<close>.
\<close>

record leg_script =
  set_leverage_r :: "py_error + unit"
  place_order_r :: "py_error + string option"
  polls_r :: "(py_error + order_status) list"
  order_status_r :: "py_error + order_status"
  cancel_order_r :: "py_error + unit"

record rollback_script =
  rb_pm_close_r :: "py_error + unit"
  rb_pm_cancel_r :: "py_error + unit"
  rb_hedge_close_r :: "py_error + unit"
  rb_hedge_cancel_r :: "py_error + unit"

record execution_script =
  pm_leg :: leg_script
  hedge_leg :: leg_script
  rollback :: rollback_script

text \<open>Python truthiness of an optional string and of an optional \<^verbatim>\<open>Decimal\<close>.\<close>

fun truthy_str :: "string option \<Rightarrow> bool" where
  "truthy_str None = False"
| "truthy_str (Some s) = (s \<noteq> [])"

fun truthy_dec :: "real option \<Rightarrow> bool" where
  "truthy_dec None = False"
| "truthy_dec (Some x) = (x \<noteq> 0)"

section \<open>Execution engine for the exchange hedge (src/arbitrage/executor.py)\<close>

datatype ExecutionStrategy = AGGRESSIVE | PASSIVE | ADAPTIVE

record ExchangeClient =
  exchange_name :: string
  has_futures :: bool
  futures_suffix :: string
  taker_fee :: real

definition get_symbol :: "ExchangeClient \<Rightarrow> string \<Rightarrow> string" where
  "get_symbol ex a =
     (if has_futures ex then
        (if exchange_name ex = ''dydx'' then a @ futures_suffix ex
         else if exchange_name ex = ''okx'' then a @ futures_suffix ex
         else a @ ''/'' @ futures_suffix ex)
      else a @ ''/USDT'')"

text \<open>
  The property \<^verbatim>\<open>time_value\<close> of an opportunity is a \<^verbatim>\<open>Decimal\<close>.
\<close>

definition time_value :: "datetime \<Rightarrow> ArbitrageOpportunity \<Rightarrow> real" where
  "time_value now opp =
     (let hours_to_expiry = total_seconds (expires_at opp - now) / 3600
      in if hours_to_expiry \<le> 0 then 0
         else expected_profit_usd opp * (hours_to_expiry / 24))"

text \<open>
  \<^verbatim>\<open>Decimal\<close> has no method \<^verbatim>\<open>total_seconds\<close>: the call raises \<^verbatim>\<open>AttributeError\<close>
  whatever the value.
\<close>

definition decimal_total_seconds :: "real \<Rightarrow> py_error + real" where
  "decimal_total_seconds x = Inl AttributeError"

definition should_use_market_orders ::
  "ExecutionStrategy \<Rightarrow> datetime \<Rightarrow> ArbitrageOpportunity \<Rightarrow> py_error + bool" where
  "should_use_market_orders strategy now opp =
     (case strategy of
        AGGRESSIVE \<Rightarrow> Inr True
      | PASSIVE \<Rightarrow> Inr False
      | ADAPTIVE \<Rightarrow>
          (case decimal_total_seconds (time_value now opp) of
             Inl e \<Rightarrow> Inl e
           | Inr secs \<Rightarrow>
               (let hours_to_expiry = secs / 3600
                in if hours_to_expiry < 2 then Inr True
                   else if expected_profit_percentage opp > 5 then Inr True
                   else Inr False)))"

text \<open>
  \<^verbatim>\<open>_wait_for_fill\<close> polls the order until it is filled or the timeout has passed; an
  exception in a poll is logged and the loop goes on.  The list holds the answers to the
  polls that fall before the timeout.
\<close>

definition poll_filled :: "py_error + order_status \<Rightarrow> bool" where
  "poll_filled r = (case r of Inl e \<Rightarrow> False
                    | Inr s \<Rightarrow> os_status s = ''closed'' \<or> os_filled s > 0)"

definition wait_for_fill :: "(py_error + order_status) list \<Rightarrow> bool" where
  "wait_for_fill polls = list_ex poll_filled polls"

text \<open>
  The two legs.  Every exception inside a leg is caught there and makes the leg return
  \<^verbatim>\<open>False\<close>; what the leg has written to the position before stays written.
\<close>

definition execute_polymarket_leg :: "leg_script \<Rightarrow> Position \<Rightarrow> bool \<Rightarrow> bool \<times> Position" where
  "execute_polymarket_leg v pos use_market_order =
     (case place_order_r v of
        Inl e \<Rightarrow> (False, pos)
      | Inr order_id \<Rightarrow>
          if \<not> truthy_str order_id then (False, pos)
          else
            (let pos1 = pos\<lparr>polymarket_order_id := order_id\<rparr>
             in if wait_for_fill (polls_r v) then
                  (case order_status_r v of
                     Inl e \<Rightarrow> (False, pos1)
                   | Inr s \<Rightarrow>
                       (True, pos1\<lparr>polymarket_entry_price := Some (os_price s),
                                   pos_polymarket_quantity := Some (os_filled s),
                                   polymarket_fees := os_fees s\<rparr>))
                else (False, pos1)))"

definition execute_hedge_leg ::
  "ExchangeClient \<Rightarrow> leg_script \<Rightarrow> Position \<Rightarrow> bool \<Rightarrow> bool \<times> Position" where
  "execute_hedge_leg ex v pos use_market_order =
     (case (if has_futures ex then set_leverage_r v else Inr ()) of
        Inl e \<Rightarrow> (False, pos)
      | Inr u \<Rightarrow>
     (case place_order_r v of
        Inl e \<Rightarrow> (False, pos)
      | Inr order_id \<Rightarrow>
          if \<not> truthy_str order_id then (False, pos)
          else
            (let pos1 = pos\<lparr>hedge_order_id := order_id\<rparr>
             in if wait_for_fill (polls_r v) then
                  (case order_status_r v of
                     Inl e \<Rightarrow> (False, pos1)
                   | Inr s \<Rightarrow>
                       (True, pos1\<lparr>hedge_entry_price := Some (os_price s),
                                   pos_hedge_quantity := Some (os_filled s),
                                   hedge_fees := os_fees s\<rparr>))
                else (False, pos1))))"

text \<open>
  \<^verbatim>\<open>_rollback_position\<close>: a filled leg is closed by an opposite order, an unfilled one is
  cancelled; any exception on the way ends the rollback with status \<^verbatim>\<open>ERROR\<close>.
\<close>

definition rollback_position :: "rollback_script \<Rightarrow> Position \<Rightarrow> Position" where
  "rollback_position rb pos =
     (case (if truthy_str (polymarket_order_id pos)
            then (if truthy_dec (polymarket_entry_price pos) then rb_pm_close_r rb
                  else rb_pm_cancel_r rb)
            else Inr ()) of
        Inl e \<Rightarrow> pos\<lparr>status := ERROR\<rparr>
      | Inr u \<Rightarrow>
          (case (if truthy_str (hedge_order_id pos)
                 then (if truthy_dec (hedge_entry_price pos) then rb_hedge_close_r rb
                       else rb_hedge_cancel_r rb)
                 else Inr ()) of
             Inl e \<Rightarrow> pos\<lparr>status := ERROR\<rparr>
           | Inr u \<Rightarrow> pos\<lparr>status := CANCELLED\<rparr>))"

text \<open>
  Stop loss and take profit.  \<^verbatim>\<open>stop_loss_decimal\<close> is the configured percentage divided
  by 100.  The entry price is optional on the position: arithmetic on \<^verbatim>\<open>None\<close> raises.
\<close>

record TradingConfig =
  MAX_POSITION_SIZE_USD :: real
  MIN_PROFIT_THRESHOLD_USD :: real
  DEFAULT_STOP_LOSS_PERCENT :: real
  DEFAULT_LEVERAGE :: int
  MAX_LEVERAGE :: int
  FUNDING_RATE_THRESHOLD :: real

definition stop_loss_decimal :: "TradingConfig \<Rightarrow> real" where
  "stop_loss_decimal cfg = DEFAULT_STOP_LOSS_PERCENT cfg / 100"

definition calculate_stop_loss ::
  "TradingConfig \<Rightarrow> real option \<Rightarrow> MarketSide \<Rightarrow> py_error + real" where
  "calculate_stop_loss cfg entry_price side =
     (case entry_price of
        None \<Rightarrow> Inl TypeError
      | Some e \<Rightarrow>
          if side = LONG then Inr (e * (1 - stop_loss_decimal cfg))
          else Inr (e * (1 + stop_loss_decimal cfg)))"

definition calculate_take_profit ::
  "real option \<Rightarrow> MarketSide \<Rightarrow> real \<Rightarrow> py_error + real" where
  "calculate_take_profit entry_price side target =
     (case entry_price of
        None \<Rightarrow> Inl TypeError
      | Some e \<Rightarrow>
          if side = LONG then Inr (e + (target - e) * (1/2))
          else Inr (e - (e - target) * (1/2)))"

definition new_position ::
  "string \<Rightarrow> datetime \<Rightarrow> string \<Rightarrow> string \<Rightarrow> ArbitrageOpportunity \<Rightarrow> Position" where
  "new_position pid now exchange symbol opp =
     \<lparr>position_id = pid,
      pos_opportunity_id = opportunity_id opp,
      status = PENDING,
      polymarket_order_id = None,
      pos_polymarket_side = polymarket_side opp,
      polymarket_entry_price = None,
      pos_polymarket_quantity = None,
      polymarket_fees = 0,
      hedge_order_id = None,
      hedge_exchange = exchange,
      hedge_symbol = symbol,
      pos_hedge_side = hedge_side opp,
      hedge_entry_price = None,
      pos_hedge_quantity = None,
      hedge_fees = 0,
      stop_loss_price = None,
      take_profit_price = None,
      max_loss_usd = max_risk_usd opp,
      opened_at = now,
      closed_at = None,
      pos_expires_at = expires_at opp,
      realized_pnl = 0,
      unrealized_pnl = 0\<rparr>"

text \<open>
  The log line written after a position is opened formats both quantities and both entry
  prices with a numeric format; formatting \<^verbatim>\<open>None\<close> raises \<^verbatim>\<open>TypeError\<close>.
\<close>

definition log_opened_ok :: "Position \<Rightarrow> bool" where
  "log_opened_ok pos \<longleftrightarrow>
     pos_polymarket_quantity pos \<noteq> None \<and> polymarket_entry_price pos \<noteq> None \<and>
     pos_hedge_quantity pos \<noteq> None \<and> hedge_entry_price pos \<noteq> None"

text \<open>Writing a position object back into the store, and the dictionary operations.\<close>

definition store_position ::
  "string \<Rightarrow> Position \<Rightarrow> 'a executor_state_scheme \<Rightarrow> 'a executor_state_scheme" where
  "store_position pid pos st = st\<lparr>positions := (positions st)(pid \<mapsto> pos)\<rparr>"

definition register_active :: "string \<Rightarrow> 'a executor_state_scheme \<Rightarrow> 'a executor_state_scheme" where
  "register_active pid st =
     (if pid \<in> set (active_positions st) then st
      else st\<lparr>active_positions := active_positions st @ [pid]\<rparr>)"

text \<open>
  \<^verbatim>\<open>execute_opportunity\<close>.  \<open>pid\<close> is the fresh identifier of the new position;
  \<open>now1\<close> and \<open>now2\<close> are the clock readings of the risk check, \<open>now\<close> the later ones.
  The result is the identifier of the returned position, or \<open>None\<close>.  The position object
  is written to the store in every case in which it was created.  The two legs run as
  concurrent tasks that write to different fields of the position; the model runs them one
  after the other.  \<open>opened_position\<close> and \<open>finish_execution\<close> are the part of the function
  that follows the legs.
\<close>

definition opened_position ::
  "TradingConfig \<Rightarrow> ArbitrageOpportunity \<Rightarrow> Position \<Rightarrow> py_error + Position" where
  "opened_position cfg opp pos =
     (case calculate_stop_loss cfg (hedge_entry_price pos) (pos_hedge_side pos) of
        Inl e \<Rightarrow> Inl e
      | Inr sl \<Rightarrow>
          (case calculate_take_profit (hedge_entry_price pos) (pos_hedge_side pos)
                  (breakeven_price opp) of
             Inl e \<Rightarrow> Inl e
           | Inr tp \<Rightarrow>
               Inr (pos\<lparr>stop_loss_price := Some sl, take_profit_price := Some tp,
                        status := OPEN\<rparr>)))"

definition finish_execution ::
  "TradingConfig \<Rightarrow> rollback_script \<Rightarrow> string \<Rightarrow> ArbitrageOpportunity \<Rightarrow>
   'a executor_state_scheme \<Rightarrow> bool \<Rightarrow> bool \<Rightarrow> Position \<Rightarrow>
   string option \<times> 'a executor_state_scheme" where
  "finish_execution cfg rb pid opp st1 pm_success hedge_success p2 =
     (if \<not> pm_success \<or> \<not> hedge_success
      then (None, store_position pid (rollback_position rb p2) st1)
      else
        (case opened_position cfg opp p2 of
           Inl e \<Rightarrow> (None, store_position pid (rollback_position rb p2) st1)
         | Inr p3 \<Rightarrow>
             (let st2 = (register_active pid (store_position pid p3 st1))
                          \<lparr>daily_trade_count := daily_trade_count st1 + 1\<rparr>
              in if log_opened_ok p3 then (Some pid, st2)
                 else (None, store_position pid (rollback_position rb p3) st2))))"

definition execute_opportunity ::
  "TradingConfig \<Rightarrow> ExchangeClient \<Rightarrow> ExecutionStrategy \<Rightarrow> execution_script \<Rightarrow>
   datetime \<Rightarrow> datetime \<Rightarrow> datetime \<Rightarrow> string \<Rightarrow> ArbitrageOpportunity \<Rightarrow>
   'a executor_state_scheme \<Rightarrow> string option \<times> 'a executor_state_scheme" where
  "execute_opportunity cfg ex strategy v now1 now2 now pid opp st =
     (case check_risk_limits now1 now2 st of
        (False, st1) \<Rightarrow> (None, st1)
      | (True, st1) \<Rightarrow>
          (let position = new_position pid now (exchange_name ex)
                            (get_symbol ex (asset (polymarket opp))) opp
           in case should_use_market_orders strategy now opp of
                Inl e \<Rightarrow> (None, store_position pid (rollback_position (rollback v) position) st1)
              | Inr use_market \<Rightarrow>
                  (let (pm_success, p1) =
                         execute_polymarket_leg (pm_leg v) position use_market;
                       (hedge_success, p2) =
                         execute_hedge_leg ex (hedge_leg v) p1 use_market
                   in finish_execution cfg (rollback v) pid opp st1
                        pm_success hedge_success p2)))"

text \<open>
  \<^verbatim>\<open>close_position\<close>.  The argument is the position object, here its identifier in the
  store; \<open>place_r\<close> is the answer of the venue to the closing request.  Deleting a key that
  the dictionary does not hold raises \<^verbatim>\<open>KeyError\<close>; comparing \<^verbatim>\<open>None\<close> with a number
  raises \<^verbatim>\<open>TypeError\<close>.  \<open>close_position_body\<close> is the \<^verbatim>\<open>try\<close> block: it returns the
  exception that ended it, if any, with the state reached.  The handler sets the status to
  \<^verbatim>\<open>ERROR\<close>.  The Hyperliquid engine has the same function, with
  \<^verbatim>\<open>hyperliquid.close_position\<close> as the closing request.
\<close>

definition set_status ::
  "string \<Rightarrow> PositionStatus \<Rightarrow> 'a executor_state_scheme \<Rightarrow> 'a executor_state_scheme" where
  "set_status pid s st =
     (case positions st pid of
        None \<Rightarrow> st
      | Some pos \<Rightarrow> store_position pid (pos\<lparr>status := s\<rparr>) st)"

definition close_position_body ::
  "py_error + unit \<Rightarrow> datetime \<Rightarrow> string \<Rightarrow> Position \<Rightarrow> 'a executor_state_scheme \<Rightarrow>
   (py_error + unit) \<times> 'a executor_state_scheme" where
  "close_position_body place_r now pid pos st =
     (case pos_hedge_quantity pos of
        None \<Rightarrow> (Inl TypeError, st)
      | Some q \<Rightarrow>
          (case (if q > 0 then place_r else Inr ()) of
             Inl e \<Rightarrow> (Inl e, st)
           | Inr u \<Rightarrow>
               (let pos1 = pos\<lparr>status := CLOSED, closed_at := Some now\<rparr>;
                    st1 = (store_position pid pos1 st)
                            \<lparr>position_history := position_history st @ [pid]\<rparr>
                in if pid \<in> set (active_positions st1)
                   then (Inr (),
                         st1\<lparr>active_positions := removeAll pid (active_positions st1)\<rparr>)
                   else (Inl KeyError, st1))))"

definition close_position ::
  "py_error + unit \<Rightarrow> datetime \<Rightarrow> string \<Rightarrow> 'a executor_state_scheme \<Rightarrow> 'a executor_state_scheme" where
  "close_position place_r now pid st =
     (case positions st pid of
        None \<Rightarrow> st
      | Some pos \<Rightarrow>
          (case close_position_body place_r now pid pos st of
             (Inl e, st1) \<Rightarrow> set_status pid ERROR st1
           | (Inr u, st1) \<Rightarrow> st1))"

section \<open>Execution engine for the Hyperliquid hedge (src/arbitrage/hyperliquid_executor.py)\<close>

datatype HLExecutionStrategy = HL_AGGRESSIVE | HL_PASSIVE | HL_ADAPTIVE | HL_TWAP

text \<open>The execution plan, a dictionary with fixed keys in the source.\<close>

record execution_plan =
  use_market_orders :: bool
  polymarket_chunks :: nat
  hyperliquid_chunks :: nat
  leverage :: int
  post_only :: bool
  time_limit :: int

definition create_execution_plan ::
  "TradingConfig \<Rightarrow> HLExecutionStrategy \<Rightarrow> datetime \<Rightarrow> ArbitrageOpportunity \<Rightarrow> execution_plan" where
  "create_execution_plan cfg strategy now opp =
     (let plan = \<lparr>use_market_orders = False, polymarket_chunks = 1, hyperliquid_chunks = 1,
                  leverage = DEFAULT_LEVERAGE cfg, post_only = False, time_limit = 60\<rparr>;
          hours_to_expiry = total_seconds (expires_at opp - now) / 3600
      in if strategy = HL_AGGRESSIVE \<or> hours_to_expiry < 2
         then plan\<lparr>use_market_orders := True, time_limit := 30\<rparr>
         else if strategy = HL_PASSIVE
         then plan\<lparr>use_market_orders := False, post_only := True, time_limit := 120\<rparr>
         else if strategy = HL_TWAP
         then (let plan1 = (if polymarket_quantity opp * polymarket_price opp > 1000
                            then plan\<lparr>polymarket_chunks := 3\<rparr> else plan)
               in if hedge_quantity opp * hedge_price opp > 5000
                  then plan1\<lparr>hyperliquid_chunks := 5\<rparr> else plan1)
         else if hours_to_expiry < 4
         then plan\<lparr>use_market_orders := True\<rparr>
         else if expected_profit_percentage opp > 5
         then plan\<lparr>use_market_orders := True,
                   leverage := min (MAX_LEVERAGE cfg) (DEFAULT_LEVERAGE cfg + 2)\<rparr>
         else plan)"

text \<open>
  \<^verbatim>\<open>_pre_execution_checks\<close> runs before the \<^verbatim>\<open>try\<close> block of \<^verbatim>\<open>execute_opportunity\<close>, so
  an exception in it leaves the engine.  The funding rate comes from a dictionary lookup
  with a default and cannot raise.  The exposure sum multiplies the optional quantity and
  entry price of every active position on the asset: \<^verbatim>\<open>None\<close> there raises.
\<close>

definition startswith :: "string \<Rightarrow> string \<Rightarrow> bool" where
  "startswith s pre \<longleftrightarrow> take (length pre) s = pre"

definition active_values :: "'a executor_state_scheme \<Rightarrow> Position list" where
  "active_values st = List.map_filter (positions st) (active_positions st)"

fun exposure_sum :: "string \<Rightarrow> Position list \<Rightarrow> py_error + real" where
  "exposure_sum a [] = Inr 0"
| "exposure_sum a (p # ps) =
     (if startswith (hedge_symbol p) a then
        (case (pos_hedge_quantity p, hedge_entry_price p) of
           (Some q, Some e) \<Rightarrow>
             (case exposure_sum a ps of Inl err \<Rightarrow> Inl err | Inr rest \<Rightarrow> Inr (q * e + rest))
         | _ \<Rightarrow> Inl TypeError)
      else exposure_sum a ps)"

definition pre_execution_checks ::
  "TradingConfig \<Rightarrow> real \<Rightarrow> datetime \<Rightarrow> datetime \<Rightarrow> ArbitrageOpportunity \<Rightarrow>
   'a executor_state_scheme \<Rightarrow> (py_error + bool) \<times> 'a executor_state_scheme" where
  "pre_execution_checks cfg funding_rate now1 now2 opp st =
     (case check_risk_limits now1 now2 st of
        (False, st1) \<Rightarrow> (Inr False, st1)
      | (True, st1) \<Rightarrow>
          if \<bar>funding_rate\<bar> > FUNDING_RATE_THRESHOLD cfg * 2 then (Inr False, st1)
          else
            (case exposure_sum (asset (polymarket opp)) (active_values st1) of
               Inl e \<Rightarrow> (Inl e, st1)
             | Inr existing_exposure \<Rightarrow>
                 if existing_exposure > MAX_POSITION_SIZE_USD cfg * 2 then (Inr False, st1)
                 else (Inr True, st1)))"

text \<open>
  The answers of the venues during one Hyperliquid execution.  The two legs of the
  parallel path are tasks awaited under one deadline; a task still pending at the deadline
  is cancelled, either while it places its order or while it waits after the order was
  placed.
\<close>

datatype cancel_point = WhilePlacing | WhileWaiting

record hl_position =
  coin :: string
  size_hl :: real
  entry_price :: real

record hl_execution_script =
  hl_set_leverage_r :: "py_error + unit"
  hl_pm_leg :: leg_script
  hl_pm_cancelled :: "cancel_point option"
  hl_hedge_place_r :: "py_error + string option"
  hl_get_positions_r :: "py_error + hl_position list"
  hl_hedge_cancelled :: "cancel_point option"
  tw_pm_chunk_r :: "nat \<Rightarrow> py_error + string option"
  tw_hl_chunk_r :: "nat \<Rightarrow> py_error + string option"
  hl_rollback :: rollback_script

definition hl_poll_filled :: "py_error + order_status \<Rightarrow> bool" where
  "hl_poll_filled r = (case r of Inl e \<Rightarrow> False | Inr s \<Rightarrow> os_filled s > 0)"

definition hl_wait_for_fill :: "(py_error + order_status) list \<Rightarrow> bool" where
  "hl_wait_for_fill polls = list_ex hl_poll_filled polls"

text \<open>
  A leg returns whether its task was done at the deadline, its result, and the position
  as the task left it.
\<close>

definition hl_execute_polymarket_leg ::
  "leg_script \<Rightarrow> cancel_point option \<Rightarrow> Position \<Rightarrow> bool \<times> bool \<times> Position" where
  "hl_execute_polymarket_leg v cancelled pos =
     (if cancelled = Some WhilePlacing then (False, False, pos)
      else
        (case place_order_r v of
           Inl e \<Rightarrow> (True, False, pos)
         | Inr order_id \<Rightarrow>
             if \<not> truthy_str order_id then (True, False, pos)
             else
               (let pos1 = pos\<lparr>polymarket_order_id := order_id\<rparr>
                in if cancelled = Some WhileWaiting then (False, False, pos1)
                   else if hl_wait_for_fill (polls_r v) then
                     (case order_status_r v of
                        Inl e \<Rightarrow> (True, False, pos1)
                      | Inr s \<Rightarrow>
                          (True, True,
                           pos1\<lparr>polymarket_entry_price := Some (os_price s),
                                pos_polymarket_quantity := Some (os_filled s),
                                polymarket_fees := os_fees s\<rparr>))
                   else (True, False, pos1))))"

definition hyperliquid_taker_fee :: real where
  "hyperliquid_taker_fee = 3 / 10000"

definition hl_execute_hyperliquid_leg ::
  "hl_execution_script \<Rightarrow> string \<Rightarrow> Position \<Rightarrow> bool \<times> bool \<times> Position" where
  "hl_execute_hyperliquid_leg v a pos =
     (if hl_hedge_cancelled v = Some WhilePlacing then (False, False, pos)
      else
        (case hl_hedge_place_r v of
           Inl e \<Rightarrow> (True, False, pos)
         | Inr order_id \<Rightarrow>
             if \<not> truthy_str order_id then (True, False, pos)
             else
               (let pos1 = pos\<lparr>hedge_order_id := order_id\<rparr>
                in if hl_hedge_cancelled v = Some WhileWaiting then (False, False, pos1)
                   else
                     (case hl_get_positions_r v of
                        Inl e \<Rightarrow> (True, False, pos1)
                      | Inr ps \<Rightarrow>
                          (case find (\<lambda>p. coin p = a) ps of
                             None \<Rightarrow> (True, False, pos1)
                           | Some p \<Rightarrow>
                               (True, True,
                                pos1\<lparr>hedge_entry_price := Some (entry_price p),
                                     pos_hedge_quantity := Some \<bar>size_hl p\<bar>,
                                     hedge_fees :=
                                       hyperliquid_taker_fee * \<bar>size_hl p\<bar> * entry_price p\<rparr>))))))"

text \<open>
  \<^verbatim>\<open>_execute_parallel\<close>.  The two tasks write to different fields of the position, so the
  model runs them one after the other.
\<close>

definition execute_parallel ::
  "hl_execution_script \<Rightarrow> ArbitrageOpportunity \<Rightarrow> Position \<Rightarrow> bool \<times> Position" where
  "execute_parallel v opp pos =
     (case hl_set_leverage_r v of
        Inl e \<Rightarrow> (False, pos)
      | Inr u \<Rightarrow>
          (let (pm_done, pm_result, p1) =
                 hl_execute_polymarket_leg (hl_pm_leg v) (hl_pm_cancelled v) pos;
               (hl_done, hl_result, p2) =
                 hl_execute_hyperliquid_leg v (asset (polymarket opp)) p1;
               pm_success = (pm_done \<and> pm_result);
               hl_success = (hl_done \<and> hl_result)
           in (pm_success \<and> hl_success, p2)))"

text \<open>
  \<^verbatim>\<open>_execute_twap\<close>.  A chunk counts as filled when its order was accepted.  An exception
  in any request, or a division by zero, ends the function with \<^verbatim>\<open>False\<close>.
\<close>

definition chunk_raises :: "(nat \<Rightarrow> py_error + string option) \<Rightarrow> nat \<Rightarrow> bool" where
  "chunk_raises r n = list_ex (\<lambda>i. isl (r i)) [0..<n]"

definition chunks_placed :: "(nat \<Rightarrow> py_error + string option) \<Rightarrow> nat \<Rightarrow> nat" where
  "chunks_placed r n =
     length (filter (\<lambda>i. case r i of Inl e \<Rightarrow> False | Inr oid \<Rightarrow> truthy_str oid) [0..<n])"

definition execute_twap ::
  "hl_execution_script \<Rightarrow> ArbitrageOpportunity \<Rightarrow> execution_plan \<Rightarrow> Position \<Rightarrow> bool \<times> Position" where
  "execute_twap v opp plan pos =
     (case hl_set_leverage_r v of
        Inl e \<Rightarrow> (False, pos)
      | Inr u \<Rightarrow>
          if polymarket_chunks plan = 0 \<or> hyperliquid_chunks plan = 0 then (False, pos)
          else if chunk_raises (tw_pm_chunk_r v) (polymarket_chunks plan)
                  \<or> chunk_raises (tw_hl_chunk_r v) (hyperliquid_chunks plan)
          then (False, pos)
          else
            (let pm_chunk_size = polymarket_quantity opp / real (polymarket_chunks plan);
                 hl_chunk_size = hedge_quantity opp / real (hyperliquid_chunks plan);
                 pm_filled = real (chunks_placed (tw_pm_chunk_r v) (polymarket_chunks plan))
                               * pm_chunk_size;
                 hl_filled = real (chunks_placed (tw_hl_chunk_r v) (hyperliquid_chunks plan))
                               * hl_chunk_size;
                 pos1 = pos\<lparr>pos_polymarket_quantity := Some pm_filled,
                            pos_hedge_quantity := Some hl_filled\<rparr>
             in if polymarket_quantity opp = 0 \<or> hedge_quantity opp = 0 then (False, pos1)
                else (pm_filled / polymarket_quantity opp > 8/10
                      \<and> hl_filled / hedge_quantity opp > 8/10, pos1)))"

text \<open>
  \<^verbatim>\<open>_set_risk_parameters\<close> catches its own exceptions: with no entry price on the position
  (or a leverage of zero) nothing is set.
\<close>

definition set_risk_parameters :: "TradingConfig \<Rightarrow> ArbitrageOpportunity \<Rightarrow> Position \<Rightarrow> Position" where
  "set_risk_parameters cfg opp pos =
     (if DEFAULT_LEVERAGE cfg = 0 then pos
      else
        (let adjusted_stop_pct = stop_loss_decimal cfg / real_of_int (DEFAULT_LEVERAGE cfg)
         in case hedge_entry_price pos of
              None \<Rightarrow> pos
            | Some e \<Rightarrow>
                pos\<lparr>stop_loss_price :=
                      Some (if pos_hedge_side pos = LONG then e * (1 - adjusted_stop_pct)
                            else e * (1 + adjusted_stop_pct)),
                    take_profit_price := Some (breakeven_price opp * (95/100))\<rparr>))"

definition hl_rollback_position :: "rollback_script \<Rightarrow> Position \<Rightarrow> Position" where
  "hl_rollback_position rb pos =
     (case (if truthy_dec (pos_polymarket_quantity pos) \<and> the (pos_polymarket_quantity pos) > 0
            then rb_pm_close_r rb else Inr ()) of
        Inl e \<Rightarrow> pos\<lparr>status := ERROR\<rparr>
      | Inr u \<Rightarrow>
          (case (if truthy_dec (pos_hedge_quantity pos) \<and> the (pos_hedge_quantity pos) > 0
                 then rb_hedge_close_r rb else Inr ()) of
             Inl e \<Rightarrow> pos\<lparr>status := ERROR\<rparr>
           | Inr u \<Rightarrow> pos\<lparr>status := CANCELLED\<rparr>))"

text \<open>
  \<^verbatim>\<open>execute_opportunity\<close> of the Hyperliquid engine; \<open>hl_finish_execution\<close> is the part
  that follows the legs.  The execution metrics (times and slippage) are not modelled.
\<close>

definition hl_finish_execution ::
  "TradingConfig \<Rightarrow> rollback_script \<Rightarrow> string \<Rightarrow> ArbitrageOpportunity \<Rightarrow>
   'a executor_state_scheme \<Rightarrow> bool \<Rightarrow> Position \<Rightarrow>
   (py_error + string option) \<times> 'a executor_state_scheme" where
  "hl_finish_execution cfg rb pid opp st1 success p1 =
     (if \<not> success
      then (Inr None, store_position pid (hl_rollback_position rb p1) st1)
      else
        (let p2 = (set_risk_parameters cfg opp p1)\<lparr>status := OPEN\<rparr>;
             st2 = (register_active pid (store_position pid p2 st1))
                     \<lparr>daily_trade_count := daily_trade_count st1 + 1\<rparr>
         in if log_opened_ok p2 then (Inr (Some pid), st2)
            else (Inr None, store_position pid (hl_rollback_position rb p2) st2)))"

definition hl_execute_opportunity ::
  "TradingConfig \<Rightarrow> HLExecutionStrategy \<Rightarrow> hl_execution_script \<Rightarrow> real \<Rightarrow>
   datetime \<Rightarrow> datetime \<Rightarrow> datetime \<Rightarrow> string \<Rightarrow> ArbitrageOpportunity \<Rightarrow>
   'a executor_state_scheme \<Rightarrow> (py_error + string option) \<times> 'a executor_state_scheme" where
  "hl_execute_opportunity cfg strategy v funding_rate now1 now2 now pid opp st =
     (case pre_execution_checks cfg funding_rate now1 now2 opp st of
        (Inl e, st1) \<Rightarrow> (Inl e, st1)
      | (Inr False, st1) \<Rightarrow> (Inr None, st1)
      | (Inr True, st1) \<Rightarrow>
          (let position = new_position pid now ''hyperliquid''
                            (asset (polymarket opp) @ ''-USD-PERP'') opp;
               exec_plan = create_execution_plan cfg strategy now opp;
               (success, p1) =
                 (if strategy = HL_TWAP then execute_twap v opp exec_plan position
                  else execute_parallel v opp position)
           in hl_finish_execution cfg (hl_rollback v) pid opp st1 success p1))"

section \<open>Closing requests of the venue clients (src/exchanges)\<close>

text \<open>
  The request by which \<^verbatim>\<open>close_position\<close> closes the hedge, as the clients make it.
  \<^verbatim>\<open>place_order\<close> of both clients runs in a \<^verbatim>\<open>try\<close> block that catches every
  exception: it returns the identifier of the order, or \<^verbatim>\<open>None\<close> when the venue refused
  the order or the request failed; \<open>sent\<close> is what the venue did with the order.
  \<^verbatim>\<open>get_positions\<close> of the Hyperliquid client returns the empty list in place of an
  exception, and \<^verbatim>\<open>close_position\<close> of that client places a closing order for each
  position in the coin until one is accepted, and returns whether one was.  The engines
  await the request and drop its value, so that every answer of the venue reaches
  \<^verbatim>\<open>close_position\<close> of the engine as a call that returned.
\<close>

definition client_place_order :: "py_error + string \<Rightarrow> string option" where
  "client_place_order sent = (case sent of Inl e \<Rightarrow> None | Inr order_id \<Rightarrow> Some order_id)"

definition client_get_positions :: "py_error + hl_position list \<Rightarrow> hl_position list" where
  "client_get_positions account = (case account of Inl e \<Rightarrow> [] | Inr ps \<Rightarrow> ps)"

fun close_matching :: "string \<Rightarrow> (hl_position \<Rightarrow> py_error + string) \<Rightarrow> hl_position list \<Rightarrow> bool" where
  "close_matching a sent [] = False"
| "close_matching a sent (p # ps) =
     (if coin p = a \<and> size_hl p \<noteq> 0 \<and> truthy_str (client_place_order (sent p)) then True
      else close_matching a sent ps)"

definition client_close_position ::
  "py_error + hl_position list \<Rightarrow> (hl_position \<Rightarrow> py_error + string) \<Rightarrow> string \<Rightarrow> bool" where
  "client_close_position account sent a = close_matching a sent (client_get_positions account)"

definition exchange_close_request :: "py_error + string \<Rightarrow> py_error + unit" where
  "exchange_close_request sent =
     (case client_place_order sent of None \<Rightarrow> Inr () | Some order_id \<Rightarrow> Inr ())"

definition hyperliquid_close_request ::
  "py_error + hl_position list \<Rightarrow> (hl_position \<Rightarrow> py_error + string) \<Rightarrow> string \<Rightarrow>
   py_error + unit" where
  "hyperliquid_close_request account sent a =
     (if client_close_position account sent a then Inr () else Inr ())"

section \<open>Position monitor (monitor_positions of both engines)\<close>

text \<open>
  One pass of the monitor loop over a snapshot of the active positions.  The answers of
  the venue and the clock readings of a pass are indexed by the position they concern and,
  for a closing request, by its reason.  An exception inside the pass ends it (the loop
  logs it, sleeps and starts the next pass).
\<close>

datatype close_reason = Expired | StopLoss | TakeProfit | HighFunding

record monitor_script =
  mon_now :: "string \<Rightarrow> datetime"
  mon_market_data_r :: "string \<Rightarrow> py_error + SpotMarket option"
  mon_funding_rate :: "string \<Rightarrow> real"
  mon_close_r :: "string \<Rightarrow> close_reason \<Rightarrow> py_error + unit"
  mon_close_now :: "string \<Rightarrow> close_reason \<Rightarrow> datetime"

definition update_position ::
  "string \<Rightarrow> (Position \<Rightarrow> Position) \<Rightarrow> 'a executor_state_scheme \<Rightarrow> 'a executor_state_scheme" where
  "update_position pid f st =
     (case positions st pid of
        None \<Rightarrow> st
      | Some pos \<Rightarrow> store_position pid (f pos) st)"

definition monitor_close ::
  "monitor_script \<Rightarrow> close_reason \<Rightarrow> string \<Rightarrow> 'a executor_state_scheme \<Rightarrow> 'a executor_state_scheme" where
  "monitor_close v reason pid st =
     close_position (mon_close_r v pid reason) (mon_close_now v pid reason) pid st"

definition hedge_pnl :: "MarketSide \<Rightarrow> real \<Rightarrow> real \<Rightarrow> real \<Rightarrow> real" where
  "hedge_pnl side q entry current_price =
     (if side = LONG then q * (current_price - entry) else q * (entry - current_price))"

definition stop_loss_hit :: "MarketSide \<Rightarrow> real \<Rightarrow> real \<Rightarrow> bool" where
  "stop_loss_hit side current_price sl =
     (if side = LONG then current_price \<le> sl else current_price \<ge> sl)"

definition take_profit_hit :: "MarketSide \<Rightarrow> real \<Rightarrow> real \<Rightarrow> bool" where
  "take_profit_hit side current_price tp =
     (if side = LONG then current_price \<ge> tp else current_price \<le> tp)"

text \<open>
  The body of the loop of the exchange engine for one position: the profit is stored
  first, then the stop loss and the take profit are tested one after the other.
\<close>

definition monitor_position ::
  "monitor_script \<Rightarrow> string \<Rightarrow> 'a executor_state_scheme \<Rightarrow>
   (py_error + unit) \<times> 'a executor_state_scheme" where
  "monitor_position v pid st =
     (case positions st pid of
        None \<Rightarrow> (Inr (), st)
      | Some position \<Rightarrow>
          if status position \<noteq> OPEN then (Inr (), st)
          else if mon_now v pid \<ge> pos_expires_at position
          then (Inr (), monitor_close v Expired pid st)
          else
            (case mon_market_data_r v pid of
               Inl e \<Rightarrow> (Inl e, st)
             | Inr None \<Rightarrow> (Inr (), st)
             | Inr (Some market_data) \<Rightarrow>
                 (let current_price = mid_price market_data
                  in case (pos_hedge_quantity position, hedge_entry_price position) of
                       (Some q, Some entry) \<Rightarrow>
                         (let pnl = hedge_pnl (pos_hedge_side position) q entry current_price;
                              st1 = update_position pid (\<lambda>p. p\<lparr>unrealized_pnl := pnl\<rparr>) st
                          in case stop_loss_price position of
                               None \<Rightarrow> (Inl TypeError, st1)
                             | Some sl \<Rightarrow>
                                 (let st2 = (if stop_loss_hit (pos_hedge_side position)
                                                  current_price sl
                                             then monitor_close v StopLoss pid st1 else st1)
                                  in case take_profit_price position of
                                       None \<Rightarrow> (Inl TypeError, st2)
                                     | Some tp \<Rightarrow>
                                         (Inr (),
                                          if take_profit_hit (pos_hedge_side position)
                                               current_price tp
                                          then monitor_close v TakeProfit pid st2
                                          else st2)))
                     | _ \<Rightarrow> (Inl TypeError, st))))"

text \<open>
  The body of the loop of the Hyperliquid engine: the take profit is tested only when the
  stop loss was not hit, the profit is stored after the tests, and a funding rate beyond
  three times the threshold closes the position.
\<close>

definition hl_monitor_position ::
  "TradingConfig \<Rightarrow> monitor_script \<Rightarrow> string \<Rightarrow> 'a executor_state_scheme \<Rightarrow>
   (py_error + unit) \<times> 'a executor_state_scheme" where
  "hl_monitor_position cfg v pid st =
     (case positions st pid of
        None \<Rightarrow> (Inr (), st)
      | Some position \<Rightarrow>
          if status position \<noteq> OPEN then (Inr (), st)
          else if mon_now v pid \<ge> pos_expires_at position
          then (Inr (), monitor_close v Expired pid st)
          else
            (case mon_market_data_r v pid of
               Inl e \<Rightarrow> (Inl e, st)
             | Inr None \<Rightarrow> (Inr (), st)
             | Inr (Some market) \<Rightarrow>
                 (let current_price = mid_price market
                  in case (pos_hedge_quantity position, hedge_entry_price position) of
                       (Some q, Some entry) \<Rightarrow>
                         (let pnl = hedge_pnl (pos_hedge_side position) q entry current_price
                          in case stop_loss_price position of
                               None \<Rightarrow> (Inl TypeError, st)
                             | Some sl \<Rightarrow>
                                 (case (if stop_loss_hit (pos_hedge_side position)
                                             current_price sl
                                        then Inr (monitor_close v StopLoss pid st)
                                        else
                                          (case take_profit_price position of
                                             None \<Rightarrow> Inl TypeError
                                           | Some tp \<Rightarrow>
                                               Inr (if take_profit_hit (pos_hedge_side position)
                                                         current_price tp
                                                    then monitor_close v TakeProfit pid st
                                                    else st))) of
                                    Inl e \<Rightarrow> (Inl e, st)
                                  | Inr st1 \<Rightarrow>
                                      (let st2 = update_position pid
                                                   (\<lambda>p. p\<lparr>unrealized_pnl := pnl\<rparr>) st1
                                       in (Inr (),
                                           if \<bar>mon_funding_rate v pid\<bar>
                                                > FUNDING_RATE_THRESHOLD cfg * 3
                                           then monitor_close v HighFunding pid st2
                                           else st2))))
                     | _ \<Rightarrow> (Inl TypeError, st))))"

fun monitor_loop ::
  "(string \<Rightarrow> 'a executor_state_scheme \<Rightarrow> (py_error + unit) \<times> 'a executor_state_scheme) \<Rightarrow>
   string list \<Rightarrow> 'a executor_state_scheme \<Rightarrow> 'a executor_state_scheme" where
  "monitor_loop step [] st = st"
| "monitor_loop step (pid # pids) st =
     (case step pid st of
        (Inl e, st1) \<Rightarrow> st1
      | (Inr u, st1) \<Rightarrow> monitor_loop step pids st1)"

definition monitor_pass ::
  "monitor_script \<Rightarrow> 'a executor_state_scheme \<Rightarrow> 'a executor_state_scheme" where
  "monitor_pass v st = monitor_loop (monitor_position v) (active_positions st) st"

definition hl_monitor_pass ::
  "TradingConfig \<Rightarrow> monitor_script \<Rightarrow> 'a executor_state_scheme \<Rightarrow> 'a executor_state_scheme" where
  "hl_monitor_pass cfg v st = monitor_loop (hl_monitor_position cfg v) (active_positions st) st"

text \<open>
  The operations by which the engines themselves change the ledger: a risk-limit check, an
  execution, a monitor pass.  \<open>creates op pid\<close> says that the operation is an execution
  whose new position has the identifier \<open>pid\<close>.
\<close>

datatype engine_op =
    RiskCheck datetime datetime
  | ExchangeExecute TradingConfig ExchangeClient ExecutionStrategy execution_script
      datetime datetime datetime string ArbitrageOpportunity
  | HyperliquidExecute TradingConfig HLExecutionStrategy hl_execution_script real
      datetime datetime datetime string ArbitrageOpportunity
  | ExchangeMonitor monitor_script
  | HyperliquidMonitor TradingConfig monitor_script

fun creates :: "engine_op \<Rightarrow> string \<Rightarrow> bool" where
  "creates (ExchangeExecute cfg ex strategy v now1 now2 now new_id opp) pid = (new_id = pid)"
| "creates (HyperliquidExecute cfg strategy v fr now1 now2 now new_id opp) pid = (new_id = pid)"
| "creates op pid = False"

fun run_op :: "engine_op \<Rightarrow> executor_state \<Rightarrow> executor_state" where
  "run_op (RiskCheck now1 now2) st = snd (check_risk_limits now1 now2 st)"
| "run_op (ExchangeExecute cfg ex strategy v now1 now2 now new_id opp) st =
     snd (execute_opportunity cfg ex strategy v now1 now2 now new_id opp st)"
| "run_op (HyperliquidExecute cfg strategy v fr now1 now2 now new_id opp) st =
     snd (hl_execute_opportunity cfg strategy v fr now1 now2 now new_id opp st)"
| "run_op (ExchangeMonitor v) st = monitor_pass v st"
| "run_op (HyperliquidMonitor cfg v) st = hl_monitor_pass cfg v st"

fun run_ops :: "engine_op list \<Rightarrow> executor_state \<Rightarrow> executor_state" where
  "run_ops [] st = st"
| "run_ops (op # ops) st = run_ops ops (run_op op st)"

text \<open>
  The identifiers of new positions are fresh: no execution of the run creates a position
  under an identifier that is in the active-position set at that moment.
\<close>

fun fresh_ids :: "engine_op list \<Rightarrow> executor_state \<Rightarrow> bool" where
  "fresh_ids [] st = True"
| "fresh_ids (op # ops) st =
     (list_all (\<lambda>pid. \<not> creates op pid) (active_positions st) \<and> fresh_ids ops (run_op op st))"

section \<open>Python arithmetic\<close>

text \<open>
  Sequencing of computations that may raise: the first exception ends the computation.
\<close>

definition try_bind :: "py_error + 'a \<Rightarrow> ('a \<Rightarrow> py_error + 'b) \<Rightarrow> py_error + 'b" where
  "try_bind r f = (case r of Inl e \<Rightarrow> Inl e | Inr x \<Rightarrow> f x)"

text \<open>
  Division and square root of \<^verbatim>\<open>Decimal\<close> values.  In the default context a division by
  zero raises \<^verbatim>\<open>DivisionByZero\<close> (\<^verbatim>\<open>InvalidOperation\<close> for 0/0), and the square root of
  a negative number raises \<^verbatim>\<open>InvalidOperation\<close>.
\<close>

definition dec_div :: "real \<Rightarrow> real \<Rightarrow> py_error + real" where
  "dec_div a b =
     (if b = 0 then (if a = 0 then Inl InvalidOperation else Inl DivisionByZero)
      else Inr (a / b))"

definition dec_sqrt :: "real \<Rightarrow> py_error + real" where
  "dec_sqrt a = (if a < 0 then Inl InvalidOperation else Inr (sqrt a))"

text \<open>
  Numbers that carry their Python type.  Arithmetic between a \<^verbatim>\<open>Decimal\<close> and a
  \<^verbatim>\<open>float\<close> raises \<^verbatim>\<open>TypeError\<close>; an \<^verbatim>\<open>int\<close> combines with both.  Comparisons
  between the three types are allowed.
\<close>

datatype pynum = PyInt int | PyFloat real | PyDecimal real

fun py_value :: "pynum \<Rightarrow> real" where
  "py_value (PyInt i) = real_of_int i"
| "py_value (PyFloat x) = x"
| "py_value (PyDecimal x) = x"

fun py_mul :: "pynum \<Rightarrow> pynum \<Rightarrow> py_error + pynum" where
  "py_mul (PyDecimal a) (PyFloat b) = Inl TypeError"
| "py_mul (PyFloat a) (PyDecimal b) = Inl TypeError"
| "py_mul (PyDecimal a) (PyDecimal b) = Inr (PyDecimal (a * b))"
| "py_mul (PyDecimal a) (PyInt b) = Inr (PyDecimal (a * real_of_int b))"
| "py_mul (PyInt a) (PyDecimal b) = Inr (PyDecimal (real_of_int a * b))"
| "py_mul (PyFloat a) (PyFloat b) = Inr (PyFloat (a * b))"
| "py_mul (PyFloat a) (PyInt b) = Inr (PyFloat (a * real_of_int b))"
| "py_mul (PyInt a) (PyFloat b) = Inr (PyFloat (real_of_int a * b))"
| "py_mul (PyInt a) (PyInt b) = Inr (PyInt (a * b))"

fun py_add :: "pynum \<Rightarrow> pynum \<Rightarrow> py_error + pynum" where
  "py_add (PyDecimal a) (PyFloat b) = Inl TypeError"
| "py_add (PyFloat a) (PyDecimal b) = Inl TypeError"
| "py_add (PyDecimal a) (PyDecimal b) = Inr (PyDecimal (a + b))"
| "py_add (PyDecimal a) (PyInt b) = Inr (PyDecimal (a + real_of_int b))"
| "py_add (PyInt a) (PyDecimal b) = Inr (PyDecimal (real_of_int a + b))"
| "py_add (PyFloat a) (PyFloat b) = Inr (PyFloat (a + b))"
| "py_add (PyFloat a) (PyInt b) = Inr (PyFloat (a + real_of_int b))"
| "py_add (PyInt a) (PyFloat b) = Inr (PyFloat (real_of_int a + b))"
| "py_add (PyInt a) (PyInt b) = Inr (PyInt (a + b))"

fun py_sub :: "pynum \<Rightarrow> pynum \<Rightarrow> py_error + pynum" where
  "py_sub (PyDecimal a) (PyFloat b) = Inl TypeError"
| "py_sub (PyFloat a) (PyDecimal b) = Inl TypeError"
| "py_sub (PyDecimal a) (PyDecimal b) = Inr (PyDecimal (a - b))"
| "py_sub (PyDecimal a) (PyInt b) = Inr (PyDecimal (a - real_of_int b))"
| "py_sub (PyInt a) (PyDecimal b) = Inr (PyDecimal (real_of_int a - b))"
| "py_sub (PyFloat a) (PyFloat b) = Inr (PyFloat (a - b))"
| "py_sub (PyFloat a) (PyInt b) = Inr (PyFloat (a - real_of_int b))"
| "py_sub (PyInt a) (PyFloat b) = Inr (PyFloat (real_of_int a - b))"
| "py_sub (PyInt a) (PyInt b) = Inr (PyInt (a - b))"

text \<open>True division; on \<^verbatim>\<open>float\<close> and \<^verbatim>\<open>int\<close> a zero divisor raises too.\<close>

fun py_div :: "pynum \<Rightarrow> pynum \<Rightarrow> py_error + pynum" where
  "py_div (PyDecimal a) (PyFloat b) = Inl TypeError"
| "py_div (PyFloat a) (PyDecimal b) = Inl TypeError"
| "py_div (PyDecimal a) (PyDecimal b) = try_bind (dec_div a b) (\<lambda>q. Inr (PyDecimal q))"
| "py_div (PyDecimal a) (PyInt b) =
     try_bind (dec_div a (real_of_int b)) (\<lambda>q. Inr (PyDecimal q))"
| "py_div (PyInt a) (PyDecimal b) =
     try_bind (dec_div (real_of_int a) b) (\<lambda>q. Inr (PyDecimal q))"
| "py_div (PyFloat a) (PyFloat b) =
     (if b = 0 then Inl ZeroDivisionError else Inr (PyFloat (a / b)))"
| "py_div (PyFloat a) (PyInt b) =
     (if b = 0 then Inl ZeroDivisionError else Inr (PyFloat (a / real_of_int b)))"
| "py_div (PyInt a) (PyFloat b) =
     (if b = 0 then Inl ZeroDivisionError else Inr (PyFloat (real_of_int a / b)))"
| "py_div (PyInt a) (PyInt b) =
     (if b = 0 then Inl ZeroDivisionError
      else Inr (PyFloat (real_of_int a / real_of_int b)))"

text \<open>
  The built-in \<^verbatim>\<open>min\<close> and \<^verbatim>\<open>max\<close> of two arguments return the first one unless the
  second is strictly smaller (larger); the result keeps the type of the argument it is.
\<close>

definition py_min :: "pynum \<Rightarrow> pynum \<Rightarrow> pynum" where
  "py_min a b = (if py_value b < py_value a then b else a)"

definition py_max :: "pynum \<Rightarrow> pynum \<Rightarrow> pynum" where
  "py_max a b = (if py_value b > py_value a then b else a)"

text \<open>
  \<^verbatim>\<open>scipy.stats.norm.cdf\<close> is the distribution function of the standard normal
  distribution, here by its power series
  \<open>\<Phi>(z) = 1/2 + (1/\<surd>(2\<pi>)) \<Sum>n. (-1)\<^sup>n z\<^bsup>2n+1\<^esup> / (2\<^sup>n n! (2n+1))\<close>.
\<close>

definition norm_cdf :: "real \<Rightarrow> real" where
  "norm_cdf z =
     1/2 + (1 / sqrt (2 * pi))
           * (\<Sum>n. (- 1) ^ n * z ^ (2 * n + 1) / (2 ^ n * fact n * real (2 * n + 1)))"

section \<open>Detector for the exchange hedge (src/arbitrage/detector.py)\<close>

text \<open>
  \<^verbatim>\<open>_calculate_probability_of_profit\<close>.  All arithmetic is on \<^verbatim>\<open>Decimal\<close>; the z-score is
  converted to \<^verbatim>\<open>float\<close> for the distribution function and the result back.  The body
  can raise; the function catches every exception and returns 0.4.
\<close>

definition calculate_probability_of_profit_body ::
  "real \<Rightarrow> real \<Rightarrow> real \<Rightarrow> MarketSide \<Rightarrow> py_error + real" where
  "calculate_probability_of_profit_body current_price target hours_to_expiry side =
     (let daily_volatility = 3/100;
          time_in_days = hours_to_expiry / 24
      in try_bind (dec_sqrt time_in_days) (\<lambda>root.
         let period_std = daily_volatility * root
         in try_bind (dec_div (target - current_price) current_price) (\<lambda>price_return.
            try_bind (dec_div price_return period_std) (\<lambda>z_score.
            let probability = (if side = DOWN then norm_cdf z_score else 1 - norm_cdf z_score);
                time_adjustment = min (1/10) (hours_to_expiry / 240);
                probability1 = probability * (1 + time_adjustment)
            in Inr (max 0 (min 1 probability1))))))"

definition calculate_probability_of_profit ::
  "real \<Rightarrow> real \<Rightarrow> real \<Rightarrow> MarketSide \<Rightarrow> real" where
  "calculate_probability_of_profit current_price target hours_to_expiry side =
     (case calculate_probability_of_profit_body current_price target hours_to_expiry side of
        Inl e \<Rightarrow> 4/10
      | Inr p \<Rightarrow> p)"

text \<open>\<^verbatim>\<open>_calculate_sharpe_ratio\<close>; every exception gives 0.\<close>

definition calculate_sharpe_ratio :: "real \<Rightarrow> real \<Rightarrow> real \<Rightarrow> real" where
  "calculate_sharpe_ratio expected_profit max_risk hours_to_expiry =
     (if max_risk = 0 then 0
      else
        (case try_bind (dec_div (365 * 24) (max 1 hours_to_expiry)) (\<lambda>periods_per_year.
              try_bind (dec_sqrt periods_per_year) (\<lambda>root.
              let annualized_return = expected_profit * periods_per_year;
                  annualized_std = max_risk * root;
                  risk_free_rate = 5/100
              in dec_div (annualized_return - risk_free_rate) annualized_std)) of
           Inl e \<Rightarrow> 0
         | Inr sharpe \<Rightarrow> sharpe))"

text \<open>
  The field validator of \<^verbatim>\<open>ArbitrageOpportunity\<close>: a profit percentage below -100 raises.
\<close>

definition validate_profit_percentage :: "real \<Rightarrow> py_error + real" where
  "validate_profit_percentage v = (if v < - 100 then Inl ValueError else Inr v)"

text \<open>
  \<^verbatim>\<open>_analyze_market_pair\<close>.  \<open>now\<close> is the clock reading of \<^verbatim>\<open>time_to_expiry_hours\<close> (also
  used for \<^verbatim>\<open>detected_at\<close>), \<open>uuid\<close> the fresh identifier.  The body can raise; the
  function catches every exception and returns \<^verbatim>\<open>None\<close>.
\<close>

definition analyze_market_pair_body ::
  "TradingConfig \<Rightarrow> ExchangeClient \<Rightarrow> datetime \<Rightarrow> string \<Rightarrow> PolymarketMarket \<Rightarrow> SpotMarket \<Rightarrow>
   py_error + ArbitrageOpportunity option" where
  "analyze_market_pair_body cfg ex now uuid pm_market spot =
     (let current_price = mid_price spot;
          target = target_price pm_market;
          hours_to_expiry = time_to_expiry_hours now pm_market
      in if hours_to_expiry \<le> 0 then Inr None
         else
           try_bind (dec_div \<bar>current_price - target\<bar> current_price) (\<lambda>distance.
           let price_distance_pct = distance * 100;
               pm_side = (if current_price < target then DOWN else UP);
               pm_price = (if current_price < target then down_price pm_market
                           else up_price pm_market);
               hedge = (if current_price < target then LONG else SHORT);
               breakeven = target
           in if pm_price > 85/100 then Inr None
              else
                (let pm_position_value =
                       min (MAX_POSITION_SIZE_USD cfg * (1/2))
                           (if pm_side = UP then up_liquidity pm_market
                            else down_liquidity pm_market)
                 in try_bind (dec_div pm_position_value pm_price) (\<lambda>pm_quantity.
                    let hedge_value = pm_quantity * (1 - pm_price)
                    in try_bind (dec_div hedge_value current_price) (\<lambda>hedge_qty.
                       let pm_profit = pm_quantity * (1 - pm_price);
                           hedge_pnl_at_target =
                             (if hedge = LONG then hedge_qty * (target - current_price)
                              else hedge_qty * (current_price - target));
                           win_profit = pm_profit - \<bar>hedge_pnl_at_target\<bar> * (1/2);
                           pm_loss = pm_quantity * pm_price;
                           max_risk = pm_position_value;
                           prob_profit = calculate_probability_of_profit
                                           current_price target hours_to_expiry pm_side;
                           expected_profit0 =
                             (prob_profit * win_profit) - ((1 - prob_profit) * pm_loss);
                           total_fees = pm_position_value * (2/1000)
                                        + hedge_value * taker_fee ex * 2;
                           expected_profit = expected_profit0 - total_fees
                       in if expected_profit < MIN_PROFIT_THRESHOLD_USD cfg then Inr None
                          else
                            (let total_capital = pm_position_value + hedge_value
                             in try_bind (dec_div expected_profit total_capital) (\<lambda>ratio.
                                try_bind (validate_profit_percentage (ratio * 100))
                                  (\<lambda>profit_percentage.
                                Inr (Some
                                  \<lparr>opportunity_id = uuid,
                                   arb_type = (if has_futures ex then FUTURES_HEDGE
                                               else SPOT_HEDGE),
                                   polymarket = pm_market,
                                   spot_market = spot,
                                   polymarket_side = pm_side,
                                   polymarket_price = pm_price,
                                   polymarket_quantity = pm_quantity,
                                   hedge_side = hedge,
                                   hedge_price = current_price,
                                   hedge_quantity = hedge_qty,
                                   expected_profit_usd = expected_profit,
                                   expected_profit_percentage = profit_percentage,
                                   breakeven_price = breakeven,
                                   max_risk_usd = max_risk,
                                   probability_of_profit = prob_profit,
                                   sharpe_ratio =
                                     Some (calculate_sharpe_ratio expected_profit max_risk
                                             hours_to_expiry),
                                   detected_at = now,
                                   expires_at = expiry_time pm_market\<rparr>)))))))))"

definition analyze_market_pair ::
  "TradingConfig \<Rightarrow> ExchangeClient \<Rightarrow> datetime \<Rightarrow> string \<Rightarrow> PolymarketMarket \<Rightarrow> SpotMarket \<Rightarrow>
   ArbitrageOpportunity option" where
  "analyze_market_pair cfg ex now uuid pm_market spot =
     (case analyze_market_pair_body cfg ex now uuid pm_market spot of
        Inl e \<Rightarrow> None
      | Inr r \<Rightarrow> r)"

text \<open>
  \<^verbatim>\<open>scan_for_opportunities\<close>.  The two fetches of an asset are venue requests; an exception
  in either is logged and the asset is skipped, as is an asset with no market or no quote.
  The clock reading and the fresh identifier of the \<open>k\<close>-th analysis of the scan are
  \<open>clock k\<close> and \<open>uuid4 k\<close>.
\<close>

record scan_env =
  clock :: "nat \<Rightarrow> datetime"
  uuid4 :: "nat \<Rightarrow> string"
  get_markets_by_asset :: "string \<Rightarrow> py_error + PolymarketMarket list"
  get_market_data :: "string \<Rightarrow> py_error + SpotMarket option"
  get_funding_rate :: "string \<Rightarrow> real"

fun analyze_markets ::
  "TradingConfig \<Rightarrow> ExchangeClient \<Rightarrow> scan_env \<Rightarrow> nat \<Rightarrow> PolymarketMarket list \<Rightarrow> SpotMarket \<Rightarrow>
   ArbitrageOpportunity list" where
  "analyze_markets cfg ex env k [] spot = []"
| "analyze_markets cfg ex env k (pm_market # ms) spot =
     (case analyze_market_pair cfg ex (clock env k) (uuid4 env k) pm_market spot of
        None \<Rightarrow> analyze_markets cfg ex env (Suc k) ms spot
      | Some opportunity \<Rightarrow> opportunity # analyze_markets cfg ex env (Suc k) ms spot)"

fun scan_assets ::
  "TradingConfig \<Rightarrow> ExchangeClient \<Rightarrow> scan_env \<Rightarrow> nat \<Rightarrow> string list \<Rightarrow>
   ArbitrageOpportunity list" where
  "scan_assets cfg ex env k [] = []"
| "scan_assets cfg ex env k (a # assets) =
     (case get_markets_by_asset env a of
        Inl e \<Rightarrow> scan_assets cfg ex env k assets
      | Inr polymarkets \<Rightarrow>
          if polymarkets = [] then scan_assets cfg ex env k assets
          else
            (case get_market_data env a of
               Inl e \<Rightarrow> scan_assets cfg ex env k assets
             | Inr None \<Rightarrow> scan_assets cfg ex env k assets
             | Inr (Some spot) \<Rightarrow>
                 analyze_markets cfg ex env k polymarkets spot
                 @ scan_assets cfg ex env (k + length polymarkets) assets))"

text \<open>
  \<^verbatim>\<open>list.sort(key=f, reverse=True)\<close>: descending by the key, and stable (elements with
  equal keys keep their order).
\<close>

definition sort_reverse :: "('a \<Rightarrow> real) \<Rightarrow> 'a list \<Rightarrow> 'a list" where
  "sort_reverse f xs = rev (sort_key f (rev xs))"

definition scan_for_opportunities ::
  "TradingConfig \<Rightarrow> ExchangeClient \<Rightarrow> scan_env \<Rightarrow> string list \<Rightarrow> ArbitrageOpportunity list" where
  "scan_for_opportunities cfg ex env assets =
     sort_reverse expected_profit_usd (scan_assets cfg ex env 0 assets)"

text \<open>
  \<^verbatim>\<open>validate_opportunity\<close>.  The result carries, next to the verdict and the warnings, the
  list of venue requests made, in order.  A warning is a message template with its number;
  \<open>Raised\<close> is the text of a caught exception.
\<close>

datatype venue_call =
    GetMarketData string | GetFundingRate string | GetPolymarketOrderBook string
  | GetHedgeOrderBook string | GetPolymarketBalance | GetHedgeBalance

datatype warning =
    MarketHasExpired | CannotFetchMarketData | PriceHasMoved real
  | HighFundingRate real | InsufficientPolymarketLiquidity real
  | InsufficientHedgeLiquidity real | InsufficientPolymarketBalance real
  | InsufficientHedgeBalance real | Raised py_error

record order_book =
  bids :: "(real \<times> real) list"
  asks :: "(real \<times> real) list"

record validation_script =
  v_market_data_r :: "py_error + SpotMarket option"
  v_funding_rate_r :: real
  v_pm_book_r :: "py_error + order_book"
  v_hedge_book_r :: "py_error + order_book"
  v_pm_balance_r :: "py_error + real"
  v_hedge_balance_r :: "py_error + real"

definition book_quantity :: "(real \<times> real) list \<Rightarrow> real" where
  "book_quantity levels = sum_list (map snd levels)"

definition validate_opportunity ::
  "validation_script \<Rightarrow> datetime \<Rightarrow> ArbitrageOpportunity \<Rightarrow> bool \<times> warning list \<times> venue_call list" where
  "validate_opportunity v now opp =
     (let a = asset (polymarket opp)
      in if expires_at opp \<le> now then (False, [MarketHasExpired], [])
         else
           (case v_market_data_r v of
              Inl e \<Rightarrow> (False, [Raised e], [GetMarketData a])
            | Inr None \<Rightarrow> (False, [CannotFetchMarketData], [GetMarketData a])
            | Inr (Some current_spot) \<Rightarrow>
           (case dec_div \<bar>mid_price current_spot - hedge_price opp\<bar> (hedge_price opp) of
              Inl e \<Rightarrow> (False, [Raised e], [GetMarketData a])
            | Inr ratio \<Rightarrow>
           (let price_change_pct = ratio * 100;
                warnings1 = (if price_change_pct > 2 then [PriceHasMoved price_change_pct]
                             else []);
                calls2 = [GetMarketData a, GetPolymarketOrderBook (market_id (polymarket opp))]
            in case v_pm_book_r v of
                 Inl e \<Rightarrow> (False, [Raised e], calls2)
               | Inr pm_book \<Rightarrow>
           (let available_liquidity =
                  (if polymarket_side opp = UP then book_quantity (asks pm_book)
                   else book_quantity (bids pm_book));
                warnings2 =
                  warnings1 @ (if available_liquidity < polymarket_quantity opp
                               then [InsufficientPolymarketLiquidity available_liquidity]
                               else []);
                calls3 = calls2 @ [GetPolymarketBalance]
            in case v_pm_balance_r v of
                 Inl e \<Rightarrow> (False, [Raised e], calls3)
               | Inr pm_balance \<Rightarrow>
           (let calls4 = calls3 @ [GetHedgeBalance]
            in case v_hedge_balance_r v of
                 Inl e \<Rightarrow> (False, [Raised e], calls4)
               | Inr usdt_balance \<Rightarrow>
           (let required_pm_capital = polymarket_quantity opp * polymarket_price opp;
                required_hedge_capital = hedge_quantity opp * hedge_price opp
            in if pm_balance < required_pm_capital
               then (False, [InsufficientPolymarketBalance pm_balance], calls4)
               else if usdt_balance < required_hedge_capital
               then (False, [InsufficientHedgeBalance usdt_balance], calls4)
               else
                 (let is_valid =
                        (length warnings2 = 0
                         \<or> (length warnings2 = 1
                            \<and> (case hd warnings2 of PriceHasMoved x \<Rightarrow> True | _ \<Rightarrow> False)))
                  in (is_valid, warnings2, calls4)))))))))"

section \<open>Detector for the Hyperliquid hedge (src/arbitrage/hyperliquid_detector.py)\<close>

definition determine_strategy ::
  "real \<Rightarrow> real \<Rightarrow> PolymarketMarket \<Rightarrow> real \<Rightarrow> py_error + (MarketSide \<times> MarketSide) option" where
  "determine_strategy current_price target pm_market funding_rate =
     try_bind (dec_div (current_price - target) target) (\<lambda>ratio.
     let price_diff_pct = ratio * 100;
         funding_bias = (funding_rate > 0)
     in if \<bar>price_diff_pct\<bar> < 1 then Inr None
        else if current_price < target then
          (if funding_bias then
             (if down_price pm_market < 6/10 then Inr (Some (DOWN, LONG)) else Inr None)
           else Inr (Some (DOWN, LONG)))
        else
          (if funding_bias then Inr (Some (UP, SHORT))
           else (if up_price pm_market < 6/10 then Inr (Some (UP, SHORT)) else Inr None)))"

text \<open>
  \<^verbatim>\<open>_calculate_position_sizes\<close> and \<^verbatim>\<open>_calculate_expected_profit\<close> catch their exceptions
  and return \<^verbatim>\<open>None\<close>.
\<close>

definition calculate_position_sizes_body ::
  "TradingConfig \<Rightarrow> PolymarketMarket \<Rightarrow> SpotMarket \<Rightarrow> MarketSide \<Rightarrow> real \<Rightarrow> real \<Rightarrow>
   py_error + real \<times> real" where
  "calculate_position_sizes_body cfg pm_market hl_market pm_side pm_price funding_cost_pct =
     (let pm_liquidity = (if pm_side = UP then up_liquidity pm_market
                          else down_liquidity pm_market);
          max_pm_value = min (MAX_POSITION_SIZE_USD cfg * (4/10)) (pm_liquidity * (1/10))
      in try_bind (dec_div max_pm_value pm_price) (\<lambda>pm_quantity.
         let lev = DEFAULT_LEVERAGE cfg;
             funding_adjustment = 1 + funding_cost_pct;
             hedge_value = pm_quantity * (1 - pm_price) * funding_adjustment
         in try_bind (dec_div hedge_value (real_of_int lev)) (\<lambda>hedge_capital_required.
            try_bind
              (if hedge_capital_required > MAX_POSITION_SIZE_USD cfg * (6/10)
               then try_bind (dec_div (MAX_POSITION_SIZE_USD cfg * (6/10))
                                hedge_capital_required)
                      (\<lambda>scale_factor. Inr (pm_quantity * scale_factor,
                                          hedge_value * scale_factor))
               else Inr (pm_quantity, hedge_value))
              (\<lambda>(pm_quantity1, hedge_value1).
                 try_bind (dec_div hedge_value1 (mid_price hl_market)) (\<lambda>hedge_qty.
                 Inr (pm_quantity1, hedge_qty))))))"

definition calculate_position_sizes ::
  "TradingConfig \<Rightarrow> PolymarketMarket \<Rightarrow> SpotMarket \<Rightarrow> MarketSide \<Rightarrow> real \<Rightarrow> real \<Rightarrow>
   (real \<times> real) option" where
  "calculate_position_sizes cfg pm_market hl_market pm_side pm_price funding_cost_pct =
     (case calculate_position_sizes_body cfg pm_market hl_market pm_side pm_price
             funding_cost_pct of
        Inl e \<Rightarrow> None
      | Inr r \<Rightarrow> Some r)"

text \<open>
  \<^verbatim>\<open>_estimate_win_probability\<close>.  The prices are \<^verbatim>\<open>Decimal\<close>, the hours a \<^verbatim>\<open>float\<close>:
  \<^verbatim>\<open>min(1, hours / 48)\<close> is the \<^verbatim>\<open>int\<close> 1 from 48 hours on and a \<^verbatim>\<open>float\<close> below.
\<close>

definition estimate_win_probability :: "real \<Rightarrow> real \<Rightarrow> real \<Rightarrow> MarketSide \<Rightarrow> py_error + real" where
  "estimate_win_probability current target hours side =
     try_bind (dec_div \<bar>current - target\<bar> current) (\<lambda>distance_pct.
     let time_factor = py_min (PyInt 1) (PyFloat (hours / 48))
     in try_bind (py_mul (PyDecimal distance_pct) time_factor) (\<lambda>product.
        try_bind (py_add (PyDecimal (5/10)) product) (\<lambda>base_prob.
        Inr (py_value (py_min (PyDecimal (85/100)) base_prob)))))"

definition calculate_expected_profit_body ::
  "real \<Rightarrow> real \<Rightarrow> real \<Rightarrow> real \<Rightarrow> real \<Rightarrow> MarketSide \<Rightarrow> real \<Rightarrow> real \<Rightarrow>
   py_error + real \<times> real \<times> real" where
  "calculate_expected_profit_body pm_quantity pm_price hedge_qty current_price target hedge
     funding_cost_pct hours_to_expiry =
     (let pm_win_profit = pm_quantity * (1 - pm_price);
          hedge_pnl_at_target =
            (if hedge = LONG then hedge_qty * (target - current_price)
             else hedge_qty * (current_price - target));
          funding_cost0 = hedge_qty * current_price * \<bar>funding_cost_pct\<bar>;
          funding_cost = (if hedge = SHORT \<and> funding_cost_pct > 0 then - funding_cost0
                          else funding_cost0);
          win_profit = pm_win_profit + hedge_pnl_at_target - funding_cost;
          pm_loss = pm_quantity * pm_price;
          max_risk = pm_quantity * pm_price + funding_cost
      in try_bind (dec_div pm_loss hedge_qty) (\<lambda>offset.
         let breakeven = (if hedge = LONG then current_price + offset
                          else current_price - offset)
         in try_bind (estimate_win_probability current_price target hours_to_expiry hedge)
              (\<lambda>prob.
                 let expected_profit = (prob * win_profit) - ((1 - prob) * pm_loss)
                 in Inr (expected_profit, max_risk, breakeven))))"

definition calculate_expected_profit ::
  "real \<Rightarrow> real \<Rightarrow> real \<Rightarrow> real \<Rightarrow> real \<Rightarrow> MarketSide \<Rightarrow> real \<Rightarrow> real \<Rightarrow>
   (real \<times> real \<times> real) option" where
  "calculate_expected_profit pm_quantity pm_price hedge_qty current_price target hedge
     funding_cost_pct hours_to_expiry =
     (case calculate_expected_profit_body pm_quantity pm_price hedge_qty current_price target
             hedge funding_cost_pct hours_to_expiry of
        Inl e \<Rightarrow> None
      | Inr r \<Rightarrow> Some r)"

definition calculate_total_fees :: "real \<Rightarrow> real \<Rightarrow> real" where
  "calculate_total_fees pm_value hedge_value =
     pm_value * (2/1000) + hedge_value * hyperliquid_taker_fee * 2"

definition get_implied_volatility :: "real \<Rightarrow> real \<Rightarrow> real" where
  "get_implied_volatility price hours =
     (if price > 50000 then 6/10 else if price > 2000 then 75/100 else 9/10)"

text \<open>
  \<^verbatim>\<open>_calculate_probability_with_funding\<close>.  The drift is a \<^verbatim>\<open>Decimal\<close> (the funding rate
  is one), the time in years a \<^verbatim>\<open>float\<close> (the hours are one), the volatility a
  \<^verbatim>\<open>float\<close>.  The body can raise; the function catches every exception and returns 0.4.
\<close>

definition calculate_probability_with_funding_body ::
  "real \<Rightarrow> real \<Rightarrow> real \<Rightarrow> MarketSide \<Rightarrow> real \<Rightarrow> py_error + real" where
  "calculate_probability_with_funding_body current_price target hours_to_expiry side
     funding_rate =
     (let volatility = PyFloat (get_implied_volatility current_price hours_to_expiry);
          drift = PyDecimal (- funding_rate * 8 * 365);
          time_years = PyFloat (hours_to_expiry / (24 * 365))
      in try_bind (py_mul drift time_years) (\<lambda>expected_return.
         try_bind (py_add (PyInt 1) expected_return) (\<lambda>growth.
         try_bind (py_div (PyDecimal target) growth) (\<lambda>adjusted_target.
         try_bind (py_sub adjusted_target (PyDecimal current_price)) (\<lambda>difference.
         try_bind (py_div difference (PyDecimal current_price)) (\<lambda>price_return.
         try_bind (py_mul volatility (PyFloat (sqrt (py_value time_years)))) (\<lambda>std_dev.
         try_bind (py_div price_return std_dev) (\<lambda>z_score.
         let probability = (if side = DOWN then norm_cdf (py_value z_score)
                            else 1 - norm_cdf (py_value z_score));
             time_bonus = min (15/100) (hours_to_expiry / 168);
             probability1 = probability * (1 + time_bonus)
         in Inr (max 0 (min 1 probability1))))))))))"

definition calculate_probability_with_funding ::
  "real \<Rightarrow> real \<Rightarrow> real \<Rightarrow> MarketSide \<Rightarrow> real \<Rightarrow> real" where
  "calculate_probability_with_funding current_price target hours_to_expiry side funding_rate =
     (case calculate_probability_with_funding_body current_price target hours_to_expiry side
             funding_rate of
        Inl e \<Rightarrow> 4/10
      | Inr p \<Rightarrow> p)"

definition calculate_sharpe_with_funding :: "real \<Rightarrow> real \<Rightarrow> real \<Rightarrow> real \<Rightarrow> real" where
  "calculate_sharpe_with_funding expected_profit max_risk hours funding_rate =
     (if max_risk = 0 then 0
      else
        (case try_bind (dec_div (365 * 24) (max 1 hours)) (\<lambda>periods_per_year.
              try_bind (dec_sqrt periods_per_year) (\<lambda>root.
              let annualized_return = expected_profit * periods_per_year;
                  vol_adjustment = 1 - \<bar>funding_rate\<bar> * 10;
                  annualized_std = max_risk * root * vol_adjustment;
                  risk_free = 5/100
              in dec_div (annualized_return - risk_free) annualized_std)) of
           Inl e \<Rightarrow> 0
         | Inr sharpe \<Rightarrow> sharpe))"

text \<open>\<^verbatim>\<open>_analyze_market_pair\<close> of the Hyperliquid detector.\<close>

definition hl_analyze_market_pair_body ::
  "TradingConfig \<Rightarrow> datetime \<Rightarrow> string \<Rightarrow> PolymarketMarket \<Rightarrow> SpotMarket \<Rightarrow> real \<Rightarrow>
   py_error + ArbitrageOpportunity option" where
  "hl_analyze_market_pair_body cfg now uuid pm_market hl_market funding_rate =
     (let current_price = mid_price hl_market;
          target = target_price pm_market;
          hours_to_expiry = time_to_expiry_hours now pm_market
      in if hours_to_expiry \<le> 0 then Inr None
         else
           (let funding_periods = \<lfloor>hours_to_expiry / 8\<rfloor>;
                funding_cost_pct = funding_rate * real_of_int funding_periods
            in if funding_cost_pct < - FUNDING_RATE_THRESHOLD cfg then Inr None
               else
                 try_bind (determine_strategy current_price target pm_market funding_rate)
                   (\<lambda>strategy.
                 case strategy of
                   None \<Rightarrow> Inr None
                 | Some (pm_side, hedge) \<Rightarrow>
                 (let pm_price = (if pm_side = UP then up_price pm_market
                                  else down_price pm_market)
                  in if pm_price > 90/100 then Inr None
                     else
                       (case calculate_position_sizes cfg pm_market hl_market pm_side pm_price
                               funding_cost_pct of
                          None \<Rightarrow> Inr None
                        | Some (pm_quantity, hedge_qty) \<Rightarrow>
                       (case calculate_expected_profit pm_quantity pm_price hedge_qty
                               current_price target hedge funding_cost_pct hours_to_expiry of
                          None \<Rightarrow> Inr None
                        | Some (expected_profit0, max_risk, breakeven) \<Rightarrow>
                       (let total_fees = calculate_total_fees (pm_quantity * pm_price)
                                           (hedge_qty * current_price);
                            expected_profit = expected_profit0 - total_fees
                        in if expected_profit < MIN_PROFIT_THRESHOLD_USD cfg then Inr None
                           else
                             (let prob_profit = calculate_probability_with_funding
                                                  current_price target hours_to_expiry pm_side
                                                  funding_rate
                              in try_bind (dec_div (hedge_qty * current_price)
                                             (real_of_int (DEFAULT_LEVERAGE cfg)))
                                   (\<lambda>hedge_capital.
                                 let total_capital = (pm_quantity * pm_price) + hedge_capital
                                 in try_bind (dec_div expected_profit total_capital) (\<lambda>ratio.
                                    try_bind (validate_profit_percentage (ratio * 100))
                                      (\<lambda>profit_percentage.
                                    Inr (Some
                                      \<lparr>opportunity_id = uuid,
                                       arb_type = FUTURES_HEDGE,
                                       polymarket = pm_market,
                                       spot_market = hl_market,
                                       polymarket_side = pm_side,
                                       polymarket_price = pm_price,
                                       polymarket_quantity = pm_quantity,
                                       hedge_side = hedge,
                                       hedge_price = current_price,
                                       hedge_quantity = hedge_qty,
                                       expected_profit_usd = expected_profit,
                                       expected_profit_percentage = profit_percentage,
                                       breakeven_price = breakeven,
                                       max_risk_usd = max_risk,
                                       probability_of_profit = prob_profit,
                                       sharpe_ratio =
                                         Some (calculate_sharpe_with_funding expected_profit
                                                 max_risk hours_to_expiry funding_rate),
                                       detected_at = now,
                                       expires_at = expiry_time pm_market\<rparr>))))))))))))"

definition hl_analyze_market_pair ::
  "TradingConfig \<Rightarrow> datetime \<Rightarrow> string \<Rightarrow> PolymarketMarket \<Rightarrow> SpotMarket \<Rightarrow> real \<Rightarrow>
   ArbitrageOpportunity option" where
  "hl_analyze_market_pair cfg now uuid pm_market hl_market funding_rate =
     (case hl_analyze_market_pair_body cfg now uuid pm_market hl_market funding_rate of
        Inl e \<Rightarrow> None
      | Inr r \<Rightarrow> r)"

fun hl_analyze_markets ::
  "TradingConfig \<Rightarrow> scan_env \<Rightarrow> nat \<Rightarrow> PolymarketMarket list \<Rightarrow> SpotMarket \<Rightarrow> real \<Rightarrow>
   ArbitrageOpportunity list" where
  "hl_analyze_markets cfg env k [] hl_market funding_rate = []"
| "hl_analyze_markets cfg env k (pm_market # ms) hl_market funding_rate =
     (case hl_analyze_market_pair cfg (clock env k) (uuid4 env k) pm_market hl_market
             funding_rate of
        None \<Rightarrow> hl_analyze_markets cfg env (Suc k) ms hl_market funding_rate
      | Some opportunity \<Rightarrow>
          opportunity # hl_analyze_markets cfg env (Suc k) ms hl_market funding_rate)"

fun hl_scan_assets ::
  "TradingConfig \<Rightarrow> scan_env \<Rightarrow> nat \<Rightarrow> string list \<Rightarrow> ArbitrageOpportunity list" where
  "hl_scan_assets cfg env k [] = []"
| "hl_scan_assets cfg env k (a # assets) =
     (case get_markets_by_asset env a of
        Inl e \<Rightarrow> hl_scan_assets cfg env k assets
      | Inr polymarkets \<Rightarrow>
          if polymarkets = [] then hl_scan_assets cfg env k assets
          else
            (case get_market_data env a of
               Inl e \<Rightarrow> hl_scan_assets cfg env k assets
             | Inr None \<Rightarrow> hl_scan_assets cfg env k assets
             | Inr (Some hl_market) \<Rightarrow>
                 hl_analyze_markets cfg env k polymarkets hl_market (get_funding_rate env a)
                 @ hl_scan_assets cfg env (k + length polymarkets) assets))"

definition ranking_key :: "ArbitrageOpportunity \<Rightarrow> real" where
  "ranking_key x = expected_profit_usd x * probability_of_profit x"

definition hl_scan_for_opportunities ::
  "TradingConfig \<Rightarrow> scan_env \<Rightarrow> string list \<Rightarrow> ArbitrageOpportunity list" where
  "hl_scan_for_opportunities cfg env assets =
     sort_reverse ranking_key (hl_scan_assets cfg env 0 assets)"

text \<open>\<^verbatim>\<open>validate_opportunity\<close> of the Hyperliquid detector.\<close>

definition critical_warning :: "warning \<Rightarrow> bool" where
  "critical_warning w =
     (case w of
        HighFundingRate x \<Rightarrow> True
      | InsufficientPolymarketLiquidity x \<Rightarrow> True
      | InsufficientHedgeLiquidity x \<Rightarrow> True
      | _ \<Rightarrow> False)"

definition hl_validate_opportunity ::
  "TradingConfig \<Rightarrow> validation_script \<Rightarrow> datetime \<Rightarrow> ArbitrageOpportunity \<Rightarrow>
   bool \<times> warning list \<times> venue_call list" where
  "hl_validate_opportunity cfg v now opp =
     (let a = asset (polymarket opp)
      in if expires_at opp \<le> now then (False, [MarketHasExpired], [])
         else
           (case v_market_data_r v of
              Inl e \<Rightarrow> (False, [Raised e], [GetMarketData a])
            | Inr None \<Rightarrow> (False, [CannotFetchMarketData], [GetMarketData a])
            | Inr (Some current_hl) \<Rightarrow>
           (case dec_div \<bar>mid_price current_hl - hedge_price opp\<bar> (hedge_price opp) of
              Inl e \<Rightarrow> (False, [Raised e], [GetMarketData a])
            | Inr ratio \<Rightarrow>
           (let price_change_pct = ratio * 100;
                warnings1 = (if price_change_pct > 1 then [PriceHasMoved price_change_pct]
                             else []);
                current_funding = v_funding_rate_r v;
                warnings2 =
                  warnings1 @ (if \<bar>current_funding\<bar> > FUNDING_RATE_THRESHOLD cfg
                               then [HighFundingRate current_funding] else []);
                calls3 = [GetMarketData a, GetFundingRate a,
                          GetPolymarketOrderBook (market_id (polymarket opp))]
            in case v_pm_book_r v of
                 Inl e \<Rightarrow> (False, [Raised e], calls3)
               | Inr pm_book \<Rightarrow>
           (let available_liquidity =
                  (if polymarket_side opp = UP then book_quantity (asks pm_book)
                   else book_quantity (bids pm_book));
                warnings3 =
                  warnings2 @ (if available_liquidity < polymarket_quantity opp * (8/10)
                               then [InsufficientPolymarketLiquidity available_liquidity]
                               else []);
                calls4 = calls3 @ [GetHedgeOrderBook a]
            in case v_hedge_book_r v of
                 Inl e \<Rightarrow> (False, [Raised e], calls4)
               | Inr hl_book \<Rightarrow>
           (let hl_liquidity =
                  (if hedge_side opp = LONG then book_quantity (take 5 (asks hl_book))
                   else book_quantity (take 5 (bids hl_book)));
                warnings4 =
                  warnings3 @ (if hl_liquidity < hedge_quantity opp
                               then [InsufficientHedgeLiquidity hl_liquidity] else []);
                calls5 = calls4 @ [GetPolymarketBalance]
            in case v_pm_balance_r v of
                 Inl e \<Rightarrow> (False, [Raised e], calls5)
               | Inr pm_balance \<Rightarrow>
           (let calls6 = calls5 @ [GetHedgeBalance]
            in case v_hedge_balance_r v of
                 Inl e \<Rightarrow> (False, [Raised e], calls6)
               | Inr hl_balance \<Rightarrow>
           (case dec_div (hedge_quantity opp * hedge_price opp)
                   (real_of_int (DEFAULT_LEVERAGE cfg)) of
              Inl e \<Rightarrow> (False, [Raised e], calls6)
            | Inr required_hl \<Rightarrow>
           (let required_pm = polymarket_quantity opp * polymarket_price opp
            in if pm_balance < required_pm
               then (False, [InsufficientPolymarketBalance pm_balance], calls6)
               else if hl_balance < required_hl
               then (False, [InsufficientHedgeBalance hl_balance], calls6)
               else
                 (let critical_warnings = filter critical_warning warnings4;
                      is_valid = (length critical_warnings = 0)
                  in (is_valid, warnings4, calls6)))))))))))"

section \<open>Properties named in the theorems\<close>

text \<open>A list is in descending order of a key.\<close>

definition descending :: "('a \<Rightarrow> real) \<Rightarrow> 'a list \<Rightarrow> bool" where
  "descending f xs = sorted_wrt (\<lambda>a b. f a \<ge> f b) xs"

text \<open>A price lies strictly between two others, whichever of the two is the larger.\<close>

definition strictly_between :: "real \<Rightarrow> real \<Rightarrow> real \<Rightarrow> bool" where
  "strictly_between a x b \<longleftrightarrow> (a < x \<and> x < b) \<or> (b < x \<and> x < a)"

text \<open>
  The expected-value formula, with the quantities of the computation read off an emitted
  opportunity: the win-scenario profit, the loss-scenario loss and the estimated fees of
  each detector (for the Hyperliquid detector they depend on the funding cost over the
  holding period as well).
\<close>

definition expected_value :: "real \<Rightarrow> real \<Rightarrow> real \<Rightarrow> real \<Rightarrow> real" where
  "expected_value probability win_profit loss fees =
     probability * win_profit - (1 - probability) * loss - fees"

definition loss_scenario :: "ArbitrageOpportunity \<Rightarrow> real" where
  "loss_scenario opp = polymarket_quantity opp * polymarket_price opp"

definition hedge_pnl_at_target :: "ArbitrageOpportunity \<Rightarrow> real" where
  "hedge_pnl_at_target opp =
     (if hedge_side opp = LONG
      then hedge_quantity opp * (target_price (polymarket opp) - hedge_price opp)
      else hedge_quantity opp * (hedge_price opp - target_price (polymarket opp)))"

definition win_scenario_profit :: "ArbitrageOpportunity \<Rightarrow> real" where
  "win_scenario_profit opp =
     polymarket_quantity opp * (1 - polymarket_price opp)
     - \<bar>hedge_pnl_at_target opp\<bar> * (1/2)"

definition estimated_fees :: "ExchangeClient \<Rightarrow> ArbitrageOpportunity \<Rightarrow> real" where
  "estimated_fees ex opp =
     max_risk_usd opp * (2/1000)
     + polymarket_quantity opp * (1 - polymarket_price opp) * taker_fee ex * 2"

definition hl_funding_cost :: "real \<Rightarrow> ArbitrageOpportunity \<Rightarrow> real" where
  "hl_funding_cost funding_cost_pct opp =
     (if hedge_side opp = SHORT \<and> funding_cost_pct > 0
      then - (hedge_quantity opp * hedge_price opp * \<bar>funding_cost_pct\<bar>)
      else hedge_quantity opp * hedge_price opp * \<bar>funding_cost_pct\<bar>)"

definition hl_win_scenario_profit :: "real \<Rightarrow> ArbitrageOpportunity \<Rightarrow> real" where
  "hl_win_scenario_profit funding_cost_pct opp =
     polymarket_quantity opp * (1 - polymarket_price opp)
     + hedge_pnl_at_target opp - hl_funding_cost funding_cost_pct opp"

definition hl_estimated_fees :: "ArbitrageOpportunity \<Rightarrow> real" where
  "hl_estimated_fees opp =
     calculate_total_fees (polymarket_quantity opp * polymarket_price opp)
       (hedge_quantity opp * hedge_price opp)"

text \<open>
  A position object is held: it is the object stored under the identifier, and the
  identifier is a key of the active-position set.
\<close>

definition held :: "string \<Rightarrow> Position \<Rightarrow> 'a executor_state_scheme \<Rightarrow> bool" where
  "held pid p st \<longleftrightarrow> positions st pid = Some p \<and> pid \<in> set (active_positions st)"

text \<open>
  Every position in the active-position set is in the store and has a hedge quantity.
\<close>

definition quantity_known :: "'a executor_state_scheme \<Rightarrow> string \<Rightarrow> bool" where
  "quantity_known st pid =
     (case positions st pid of None \<Rightarrow> False | Some pos \<Rightarrow> pos_hedge_quantity pos \<noteq> None)"

definition quantities_known :: "'a executor_state_scheme \<Rightarrow> bool" where
  "quantities_known st = list_all (quantity_known st) (active_positions st)"

section \<open>Example data\<close>

text \<open>
  The configuration with the defaults of src/config.py, the Binance entry of the exchange
  table, and an engine state with no positions, the default limits, a given reset date and
  a given counter.  The clock reading \<open>now0\<close> is 2025-11-03 00:00:00 UTC, day 20395.
\<close>

definition default_config :: TradingConfig where
  "default_config =
     \<lparr>MAX_POSITION_SIZE_USD = 5000, MIN_PROFIT_THRESHOLD_USD = 50,
      DEFAULT_STOP_LOSS_PERCENT = 2, DEFAULT_LEVERAGE = 5, MAX_LEVERAGE = 10,
      FUNDING_RATE_THRESHOLD = 1/100\<rparr>"

definition binance :: ExchangeClient where
  "binance = \<lparr>exchange_name = ''binance'', has_futures = True, futures_suffix = ''USDT'',
              taker_fee = 4/10000\<rparr>"

definition example_state :: "date \<Rightarrow> int \<Rightarrow> executor_state" where
  "example_state d n =
     \<lparr>positions = Map.empty, active_positions = [], position_history = [],
      max_concurrent = 5, max_daily_trades = 20, daily_trade_count = n,
      last_trade_reset = d\<rparr>"

definition now0 :: datetime where
  "now0 = 1762128000000000"

text \<open>A quote with mid price 100000.\<close>

definition example_quote :: SpotMarket where
  "example_quote = \<lparr>bid = 99990, ask = 100010\<rparr>"

text \<open>
  A contract on BTC above 99005 that expires 72 hours after \<open>now0\<close>.  The quote is 1.005%
  above the target when the distance is taken relative to the target, and 0.995% when it
  is taken relative to the quote.
\<close>

definition near_market :: PolymarketMarket where
  "near_market =
     \<lparr>market_id = ''btc-above-99005'', asset = ''BTC'', target_price = 99005,
      expiry_time = now0 + 259200000000, up_price = 2/10, down_price = 75/100,
      up_liquidity = 100000, down_liquidity = 100000\<rparr>"

text \<open>
  The opportunity that the Hyperliquid detector emits for \<open>near_market\<close>, the quote above
  and a funding rate of 0.
\<close>

definition near_opportunity :: ArbitrageOpportunity where
  "near_opportunity =
     \<lparr>opportunity_id = ''opp-0'',
      arb_type = FUTURES_HEDGE,
      polymarket = near_market,
      spot_market = example_quote,
      polymarket_side = UP,
      polymarket_price = 2/10,
      polymarket_quantity = 10000,
      hedge_side = SHORT,
      hedge_price = 100000,
      hedge_quantity = 8/100,
      expected_profit_usd = 313129202/100000,
      expected_profit_percentage = 313129202/100000 / 3600 * 100,
      breakeven_price = 75000,
      max_risk_usd = 2000,
      probability_of_profit = 4/10,
      sharpe_ratio = Some (calculate_sharpe_with_funding (313129202/100000) 2000 72 0),
      detected_at = now0,
      expires_at = now0 + 259200000000\<rparr>"

text \<open>
  Two contracts on BTC at 100000, the mid price of the quote, that differ in liquidity and
  expiry (2.4 hours and 24 hours after \<open>now0\<close>), and a venue that lists both.
\<close>

definition market_a :: PolymarketMarket where
  "market_a =
     \<lparr>market_id = ''btc-above-100000-a'', asset = ''BTC'', target_price = 100000,
      expiry_time = now0 + 8640000000, up_price = 25/100, down_price = 70/100,
      up_liquidity = 1200, down_liquidity = 1200\<rparr>"

definition market_b :: PolymarketMarket where
  "market_b =
     \<lparr>market_id = ''btc-above-100000-b'', asset = ''BTC'', target_price = 100000,
      expiry_time = now0 + 86400000000, up_price = 25/100, down_price = 70/100,
      up_liquidity = 1000, down_liquidity = 1000\<rparr>"

definition example_env :: scan_env where
  "example_env =
     \<lparr>clock = (\<lambda>k. now0),
      uuid4 = (\<lambda>k. ''opp-'' @ replicate k CHR ''i''),
      get_markets_by_asset = (\<lambda>a. if a = ''BTC'' then Inr [market_a, market_b] else Inr []),
      get_market_data = (\<lambda>a. if a = ''BTC'' then Inr (Some example_quote) else Inr None),
      get_funding_rate = (\<lambda>a. 0)\<rparr>"

text \<open>
  Venue answers: an order that fills at a given price and quantity, an order the venue
  refuses, a rollback in which no request raises, and a Hyperliquid execution in which
  both legs fill at the prices the opportunity assumed.
\<close>

definition filled_status :: "real \<Rightarrow> real \<Rightarrow> order_status" where
  "filled_status price qty =
     \<lparr>os_status = ''closed'', os_filled = qty, os_price = price, os_fees = 0\<rparr>"

definition filled_leg :: "real \<Rightarrow> real \<Rightarrow> leg_script" where
  "filled_leg price qty =
     \<lparr>set_leverage_r = Inr (), place_order_r = Inr (Some ''order-1''),
      polls_r = [Inr (filled_status price qty)],
      order_status_r = Inr (filled_status price qty), cancel_order_r = Inr ()\<rparr>"

definition refused_leg :: leg_script where
  "refused_leg =
     \<lparr>set_leverage_r = Inr (), place_order_r = Inr None, polls_r = [],
      order_status_r = Inl VenueError, cancel_order_r = Inr ()\<rparr>"

definition quiet_rollback :: rollback_script where
  "quiet_rollback =
     \<lparr>rb_pm_close_r = Inr (), rb_pm_cancel_r = Inr (), rb_hedge_close_r = Inr (),
      rb_hedge_cancel_r = Inr ()\<rparr>"

definition hedge_refused_script :: execution_script where
  "hedge_refused_script =
     \<lparr>pm_leg = filled_leg (2/10) 10000, hedge_leg = refused_leg, rollback = quiet_rollback\<rparr>"

definition hl_filled_script :: hl_execution_script where
  "hl_filled_script =
     \<lparr>hl_set_leverage_r = Inr (),
      hl_pm_leg = filled_leg (2/10) 10000,
      hl_pm_cancelled = None,
      hl_hedge_place_r = Inr (Some ''order-2''),
      hl_get_positions_r = Inr [\<lparr>coin = ''BTC'', size_hl = - (8/100), entry_price = 100000\<rparr>],
      hl_hedge_cancelled = None,
      tw_pm_chunk_r = (\<lambda>i. Inr (Some ''chunk'')),
      tw_hl_chunk_r = (\<lambda>i. Inr (Some ''chunk'')),
      hl_rollback = quiet_rollback\<rparr>"

definition hl_hedge_refused_script :: hl_execution_script where
  "hl_hedge_refused_script = hl_filled_script\<lparr>hl_hedge_place_r := Inr None\<rparr>"

text \<open>
  A second Hyperliquid execution, made while the position \<open>near_position\<close> of the first
  one is open.  The venue accepts the hedge order, which rests in the book and fills
  nothing: the account shows what it showed after the first execution, the short of 0.08
  BTC that belongs to \<open>near_position\<close>.
\<close>

definition resting_hedge_script :: hl_execution_script where
  "resting_hedge_script = hl_filled_script\<lparr>hl_hedge_place_r := Inr (Some ''order-3'')\<rparr>"

text \<open>
  The opportunities that the exchange detector emits for \<open>market_a\<close> and \<open>market_b\<close>.
\<close>

definition opportunity_a :: ArbitrageOpportunity where
  "opportunity_a =
     \<lparr>opportunity_id = ''opp-'',
      arb_type = FUTURES_HEDGE,
      polymarket = market_a,
      spot_market = example_quote,
      polymarket_side = UP,
      polymarket_price = 25/100,
      polymarket_quantity = 4800,
      hedge_side = SHORT,
      hedge_price = 100000,
      hedge_quantity = 36/1000,
      expected_profit_usd = 121872/100,
      expected_profit_percentage = 2539/100,
      breakeven_price = 100000,
      max_risk_usd = 1200,
      probability_of_profit = 505/1000,
      sharpe_ratio = Some (calculate_sharpe_ratio (121872/100) 1200 (24/10)),
      detected_at = now0,
      expires_at = now0 + 8640000000\<rparr>"

definition opportunity_b :: ArbitrageOpportunity where
  "opportunity_b =
     \<lparr>opportunity_id = ''opp-i'',
      arb_type = FUTURES_HEDGE,
      polymarket = market_b,
      spot_market = example_quote,
      polymarket_side = UP,
      polymarket_price = 25/100,
      polymarket_quantity = 4000,
      hedge_side = SHORT,
      hedge_price = 100000,
      hedge_quantity = 3/100,
      expected_profit_usd = 11956/10,
      expected_profit_percentage = 2989/100,
      breakeven_price = 100000,
      max_risk_usd = 1000,
      probability_of_profit = 55/100,
      sharpe_ratio = Some (calculate_sharpe_ratio (11956/10) 1000 24),
      detected_at = now0,
      expires_at = now0 + 86400000000\<rparr>"

text \<open>
  An opportunity with an expected profit of 3 percent, and the position that the
  Hyperliquid engine opens for \<open>near_opportunity\<close> when both legs fill at the assumed
  prices.
\<close>

definition modest_opportunity :: ArbitrageOpportunity where
  "modest_opportunity =
     near_opportunity\<lparr>expected_profit_usd := 108, expected_profit_percentage := 3\<rparr>"

definition near_position :: Position where
  "near_position =
     \<lparr>position_id = ''pos-1'',
      pos_opportunity_id = ''opp-0'',
      status = OPEN,
      polymarket_order_id = Some ''order-1'',
      pos_polymarket_side = UP,
      polymarket_entry_price = Some (2/10),
      pos_polymarket_quantity = Some 10000,
      polymarket_fees = 0,
      hedge_order_id = Some ''order-2'',
      hedge_exchange = ''hyperliquid'',
      hedge_symbol = ''BTC-USD-PERP'',
      pos_hedge_side = SHORT,
      hedge_entry_price = Some 100000,
      pos_hedge_quantity = Some (8/100),
      hedge_fees = 24/10,
      stop_loss_price = Some 100400,
      take_profit_price = Some 71250,
      max_loss_usd = 2000,
      opened_at = now0,
      closed_at = None,
      pos_expires_at = now0 + 259200000000,
      realized_pnl = 0,
      unrealized_pnl = 0\<rparr>"

definition open_state :: executor_state where
  "open_state =
     (example_state 20395 0)
       \<lparr>positions := [''pos-1'' \<mapsto> near_position], active_positions := [''pos-1''],
        daily_trade_count := 1\<rparr>"

text \<open>
  Venue answers under which a validation passes all its checks, and the state after
  \<open>near_position\<close> was closed once, and twice.
\<close>

definition example_validation_script :: validation_script where
  "example_validation_script =
     \<lparr>v_market_data_r = Inr (Some example_quote), v_funding_rate_r = 0,
      v_pm_book_r = Inr \<lparr>bids = [], asks = [(2/10, 20000)]\<rparr>,
      v_hedge_book_r = Inr \<lparr>bids = [(99990, 1)], asks = [(100010, 1)]\<rparr>,
      v_pm_balance_r = Inr 5000, v_hedge_balance_r = Inr 5000\<rparr>"

definition closed_state :: executor_state where
  "closed_state = close_position (Inr ()) (now0 + 60000000) ''pos-1'' open_state"

definition closed_twice_state :: executor_state where
  "closed_twice_state = close_position (Inr ()) (now0 + 120000000) ''pos-1'' closed_state"

text \<open>
  The ledger with one more position object, rolled back after its hedge order was refused:
  it has no hedge quantity and was never registered as active.
\<close>

definition rolled_back_position :: Position where
  "rolled_back_position =
     near_position\<lparr>position_id := ''pos-0'', status := CANCELLED, hedge_order_id := None,
                    hedge_entry_price := None, pos_hedge_quantity := None, hedge_fees := 0,
                    stop_loss_price := None, take_profit_price := None\<rparr>"

definition rolled_back_state :: executor_state where
  "rolled_back_state = store_position ''pos-0'' rolled_back_position open_state"

definition example_account :: "hl_position list" where
  "example_account = [\<lparr>coin = ''BTC'', size_hl = - (8/100), entry_price = 100000\<rparr>]"

text \<open>A monitor pass in which every quote is the example quote and no request raises.\<close>

definition example_monitor_script :: monitor_script where
  "example_monitor_script =
     \<lparr>mon_now = (\<lambda>pid. now0 + 3600000000),
      mon_market_data_r = (\<lambda>pid. Inr (Some example_quote)),
      mon_funding_rate = (\<lambda>pid. 0),
      mon_close_r = (\<lambda>pid reason. Inr ()),
      mon_close_now = (\<lambda>pid reason. now0 + 3600000000)\<rparr>"

section \<open>Theorems\<close>

subsection \<open>Ledger bookkeeping\<close>

lemma store_position_fields [simp]:
  "daily_trade_count (store_position pid p st) = daily_trade_count st"
  "last_trade_reset (store_position pid p st) = last_trade_reset st"
  "active_positions (store_position pid p st) = active_positions st"
  "position_history (store_position pid p st) = position_history st"
  "max_concurrent (store_position pid p st) = max_concurrent st"
  "max_daily_trades (store_position pid p st) = max_daily_trades st"
  "positions (store_position pid p st) = (positions st)(pid \<mapsto> p)"
  by (simp_all add: store_position_def)

lemma register_active_fields [simp]:
  "daily_trade_count (register_active pid st) = daily_trade_count st"
  "last_trade_reset (register_active pid st) = last_trade_reset st"
  "positions (register_active pid st) = positions st"
  "position_history (register_active pid st) = position_history st"
  "max_concurrent (register_active pid st) = max_concurrent st"
  "max_daily_trades (register_active pid st) = max_daily_trades st"
  by (simp_all add: register_active_def)

lemma register_active_keys [simp]:
  "set (active_positions (register_active pid st)) = insert pid (set (active_positions st))"
  by (auto simp: register_active_def)

subsection \<open>The daily trade counter\<close>

lemma check_risk_limits_same_day:
  "date_of now1 \<le> last_trade_reset st \<Longrightarrow>
   daily_trade_count (snd (check_risk_limits now1 now2 st)) = daily_trade_count st \<and>
   last_trade_reset (snd (check_risk_limits now1 now2 st)) = last_trade_reset st"
  by (simp add: check_risk_limits_def Let_def)

lemma check_risk_limits_advance:
  "last_trade_reset st < date_of now1 \<Longrightarrow>
   daily_trade_count (snd (check_risk_limits now1 now2 st)) = 0 \<and>
   last_trade_reset (snd (check_risk_limits now1 now2 st)) = date_of now2"
  by (simp add: check_risk_limits_def Let_def)

text \<open>
  Both engines touch the counter and its reset date only as \<open>counter_step\<close> does: through
  the risk check, and by one increment when a position is registered.
\<close>

lemma finish_execution_counters:
  "counters (snd (finish_execution cfg rb pid opp st1 a b p)) = counters st1
   \<or> counters (snd (finish_execution cfg rb pid opp st1 a b p))
        = (daily_trade_count st1 + 1, last_trade_reset st1)"
  by (simp add: finish_execution_def counters_def Let_def split: sum.split)

lemma hl_finish_execution_counters:
  "counters (snd (hl_finish_execution cfg rb pid opp st1 a p)) = counters st1
   \<or> counters (snd (hl_finish_execution cfg rb pid opp st1 a p))
        = (daily_trade_count st1 + 1, last_trade_reset st1)"
  by (simp add: hl_finish_execution_def counters_def Let_def)

lemma pre_execution_checks_state:
  "snd (pre_execution_checks cfg fr now1 now2 opp st) = snd (check_risk_limits now1 now2 st)"
  by (simp add: pre_execution_checks_def split: prod.split bool.split sum.split)

lemma pre_execution_checks_passed:
  "pre_execution_checks cfg fr now1 now2 opp st = (Inr True, st1) \<Longrightarrow>
   check_risk_limits now1 now2 st = (True, st1)"
  by (simp add: pre_execution_checks_def split: prod.splits bool.splits sum.splits if_splits)

lemma execute_opportunity_counter:
  assumes c: "check_risk_limits now1 now2 st = (ok, st1)"
  shows "counters (snd (execute_opportunity cfg ex strategy v now1 now2 now pid opp st))
           = counters st1
       \<or> (ok \<and> counters (snd (execute_opportunity cfg ex strategy v now1 now2 now pid opp st))
           = (daily_trade_count st1 + 1, last_trade_reset st1))"
proof (cases ok)
  case False
  then show ?thesis using c by (simp add: execute_opportunity_def)
next
  case True
  show ?thesis
  proof (cases "should_use_market_orders strategy now opp")
    case (Inl e)
    then show ?thesis using c True by (simp add: execute_opportunity_def Let_def counters_def)
  next
    case (Inr m)
    then show ?thesis using c True
      by (simp add: execute_opportunity_def Let_def split: prod.split)
         (use finish_execution_counters in blast)
  qed
qed

lemma hl_execute_opportunity_counter:
  assumes c: "check_risk_limits now1 now2 st = (ok, st1)"
  shows "counters (snd (hl_execute_opportunity cfg strategy v fr now1 now2 now pid opp st))
           = counters st1
       \<or> (ok \<and> counters (snd (hl_execute_opportunity cfg strategy v fr now1 now2 now pid opp st))
           = (daily_trade_count st1 + 1, last_trade_reset st1))"
proof -
  obtain r st' where p: "pre_execution_checks cfg fr now1 now2 opp st = (r, st')"
    by (cases "pre_execution_checks cfg fr now1 now2 opp st")
  have st': "st' = st1" using pre_execution_checks_state [of cfg fr now1 now2 opp st] p c by simp
  show ?thesis
  proof (cases "r = Inr True")
    case False
    then show ?thesis using p st'
      by (cases r) (auto simp: hl_execute_opportunity_def)
  next
    case True
    then have ok using pre_execution_checks_passed p c by fastforce
    then show ?thesis using True p st'
      by (simp add: hl_execute_opportunity_def Let_def split: prod.split)
         (use hl_finish_execution_counters in blast)
  qed
qed

lemma counter_step_counters:
  assumes c: "check_risk_limits now1 now2 st = (ok, st1)"
  shows "counters (counter_step (Execution now1 now2 False) st) = counters st1"
    and "ok \<Longrightarrow> counters (counter_step (Execution now1 now2 True) st)
                  = (daily_trade_count st1 + 1, last_trade_reset st1)"
  by (cases ok; simp add: c counters_def)+

lemma execute_opportunity_is_counter_step:
  "\<exists>opened. counters (snd (execute_opportunity cfg ex strategy v now1 now2 now pid opp st))
             = counters (counter_step (Execution now1 now2 opened) st)"
proof -
  obtain ok st1 where c: "check_risk_limits now1 now2 st = (ok, st1)"
    by (cases "check_risk_limits now1 now2 st")
  from execute_opportunity_counter [OF c, of cfg ex strategy v now pid opp] show ?thesis
  proof
    assume "counters (snd (execute_opportunity cfg ex strategy v now1 now2 now pid opp st))
              = counters st1"
    then show ?thesis using counter_step_counters(1) [OF c] by (intro exI [of _ False]) simp
  next
    assume "ok \<and> counters (snd (execute_opportunity cfg ex strategy v now1 now2 now pid opp st))
              = (daily_trade_count st1 + 1, last_trade_reset st1)"
    then show ?thesis using counter_step_counters(2) [OF c] by (intro exI [of _ True]) simp
  qed
qed

lemma hl_execute_opportunity_is_counter_step:
  "\<exists>opened. counters (snd (hl_execute_opportunity cfg strategy v fr now1 now2 now pid opp st))
             = counters (counter_step (Execution now1 now2 opened) st)"
proof -
  obtain ok st1 where c: "check_risk_limits now1 now2 st = (ok, st1)"
    by (cases "check_risk_limits now1 now2 st")
  from hl_execute_opportunity_counter [OF c, of cfg strategy v fr now pid opp] show ?thesis
  proof
    assume "counters (snd (hl_execute_opportunity cfg strategy v fr now1 now2 now pid opp st))
              = counters st1"
    then show ?thesis using counter_step_counters(1) [OF c] by (intro exI [of _ False]) simp
  next
    assume "ok \<and> counters (snd (hl_execute_opportunity cfg strategy v fr now1 now2 now pid opp st))
              = (daily_trade_count st1 + 1, last_trade_reset st1)"
    then show ?thesis using counter_step_counters(2) [OF c] by (intro exI [of _ True]) simp
  qed
qed

lemma counter_step_same_day:
  assumes "event_dates e = {d}" and "last_trade_reset st = d"
  shows "last_trade_reset (counter_step e st) = d \<and>
         daily_trade_count st \<le> daily_trade_count (counter_step e st)"
  using assms
  by (cases e) (auto simp: check_risk_limits_def Let_def split: if_splits)

lemma counter_step_advance:
  assumes "event_dates e = {d}" and "last_trade_reset st < d"
  shows "last_trade_reset (counter_step e st) = d \<and>
         0 \<le> daily_trade_count (counter_step e st)"
  using assms
  by (cases e) (auto simp: check_risk_limits_def Let_def split: if_splits)

lemma counter_run_same_day:
  assumes "\<forall>e\<in>set es. event_dates e = {d}" and "last_trade_reset st = d"
  shows "resets es st = 0 \<and> last_trade_reset (counter_run es st) = d \<and>
         daily_trade_count st \<le> daily_trade_count (counter_run es st)"
  using assms
proof (induction es arbitrary: st)
  case Nil
  then show ?case by simp
next
  case (Cons e es)
  obtain now1 now2 opened where e: "e = Execution now1 now2 opened" by (cases e)
  from Cons.prems have ed: "event_dates e = {d}" by simp
  have step: "last_trade_reset (counter_step e st) = d"
    and mono: "daily_trade_count st \<le> daily_trade_count (counter_step e st)"
    using counter_step_same_day [OF ed Cons.prems(2)] by simp_all
  have rest: "resets es (counter_step e st) = 0 \<and>
      last_trade_reset (counter_run es (counter_step e st)) = d \<and>
      daily_trade_count (counter_step e st)
        \<le> daily_trade_count (counter_run es (counter_step e st))"
    using Cons.IH [OF _ step] Cons.prems(1) by simp
  have nores: "\<not> last_trade_reset st < date_of now1"
    using ed Cons.prems(2) e by auto
  show ?case using rest mono nores e by simp
qed

lemma counter_step_count_same_day:
  assumes "date_of now1 \<le> last_trade_reset st"
  shows "daily_trade_count (counter_step (Execution now1 now2 opened) st)
           = daily_trade_count st
             + (if fst (check_risk_limits now1 now2 st) \<and> opened then 1 else 0)"
  using assms by (simp add: check_risk_limits_def Let_def)

lemma counter_step_count_advance:
  assumes "last_trade_reset st < date_of now1"
  shows "daily_trade_count (counter_step (Execution now1 now2 opened) st)
           = (if fst (check_risk_limits now1 now2 st) \<and> opened then 1 else 0)"
  using assms by (simp add: check_risk_limits_def Let_def)

lemma counter_run_count_same_day:
  assumes "\<forall>e\<in>set es. event_dates e = {d}" and "last_trade_reset st = d"
  shows "daily_trade_count (counter_run es st) = daily_trade_count st + int (increments es st)"
  using assms
proof (induction es arbitrary: st)
  case Nil
  then show ?case by simp
next
  case (Cons e es)
  obtain now1 now2 opened where e: "e = Execution now1 now2 opened" by (cases e)
  from Cons.prems have ed: "event_dates e = {d}" by simp
  have d1: "date_of now1 \<le> last_trade_reset st" using ed Cons.prems(2) e by auto
  have step: "last_trade_reset (counter_step e st) = d"
    using counter_step_same_day [OF ed Cons.prems(2)] by simp
  have rest: "daily_trade_count (counter_run es (counter_step e st))
                = daily_trade_count (counter_step e st) + int (increments es (counter_step e st))"
    using Cons.IH [OF _ step] Cons.prems(1) by simp
  show ?case
    using rest counter_step_count_same_day [OF d1, of now2 opened] e by simp
qed

text \<open>
  C8.  A risk-limit check made when the date of the clock has advanced past the last reset
  date sets the counter to zero and stores the date; a check made on the last reset date
  or before leaves the counter and the date as they are.  Take any run of executions (each
  with its risk-limit check) whose clock readings all fall on one UTC date \<open>d\<close>.  If the
  date has advanced past the last reset date, the first check of the run is the only one
  that resets: the reset date becomes \<open>d\<close>, and the counter at the end of the run is the
  number of positions the run opened, whatever it was before.  If \<open>d\<close> is the last reset
  date already, no check or execution of the run resets the counter: at the end it is its
  old value plus the number of positions the run opened, however many executions there
  are.
\<close>

theorem daily_counter_reset_once:
  assumes "\<forall>e\<in>set es. event_dates e = {d}"
  shows "(last_trade_reset st < d \<and> es \<noteq> [] \<longrightarrow>
            resets es st = 1 \<and> last_trade_reset (counter_run es st) = d \<and>
            daily_trade_count (counter_run es st) = int (increments es st))
       \<and> (last_trade_reset st = d \<longrightarrow>
            resets es st = 0 \<and> last_trade_reset (counter_run es st) = d \<and>
            daily_trade_count (counter_run es st)
              = daily_trade_count st + int (increments es st))
       \<and> (last_trade_reset st < date_of now1 \<longrightarrow>
            daily_trade_count (snd (check_risk_limits now1 now2 st)) = 0 \<and>
            last_trade_reset (snd (check_risk_limits now1 now2 st)) = date_of now2)
       \<and> (date_of now1 \<le> last_trade_reset st \<longrightarrow>
            daily_trade_count (snd (check_risk_limits now1 now2 st)) = daily_trade_count st \<and>
            last_trade_reset (snd (check_risk_limits now1 now2 st)) = last_trade_reset st)"
proof (intro conjI impI)
  assume adv: "last_trade_reset st < d \<and> es \<noteq> []"
  then obtain e es' where es: "es = e # es'" by (cases es) auto
  obtain t1 t2 opened where e: "e = Execution t1 t2 opened" by (cases e)
  from assms es have ed: "event_dates e = {d}"
    and rest: "\<forall>e\<in>set es'. event_dates e = {d}"
    by simp_all
  from adv have lt: "last_trade_reset st < d" by simp
  have step: "last_trade_reset (counter_step e st) = d"
    using counter_step_advance [OF ed lt] by simp
  have first: "last_trade_reset st < date_of t1" using ed lt e by auto
  have r: "resets es' (counter_step e st) = 0 \<and>
      last_trade_reset (counter_run es' (counter_step e st)) = d"
    using counter_run_same_day [OF rest step] by simp
  have c: "daily_trade_count (counter_run es' (counter_step e st))
             = daily_trade_count (counter_step e st) + int (increments es' (counter_step e st))"
    by (rule counter_run_count_same_day [OF rest step])
  show "resets es st = 1" using r first es e by simp
  show "last_trade_reset (counter_run es st) = d" using r es by simp
  show "daily_trade_count (counter_run es st) = int (increments es st)"
    using c counter_step_count_advance [OF first, of t2 opened] es e by simp
next
  assume same: "last_trade_reset st = d"
  show "resets es st = 0" using counter_run_same_day [OF assms same] by simp
  show "last_trade_reset (counter_run es st) = d"
    using counter_run_same_day [OF assms same] by simp
  show "daily_trade_count (counter_run es st) = daily_trade_count st + int (increments es st)"
    by (rule counter_run_count_same_day [OF assms same])
next
  assume "last_trade_reset st < date_of now1"
  then show "daily_trade_count (snd (check_risk_limits now1 now2 st)) = 0"
    and "last_trade_reset (snd (check_risk_limits now1 now2 st)) = date_of now2"
    using check_risk_limits_advance [of st now1 now2] by simp_all
next
  assume "date_of now1 \<le> last_trade_reset st"
  then show "daily_trade_count (snd (check_risk_limits now1 now2 st)) = daily_trade_count st"
    and "last_trade_reset (snd (check_risk_limits now1 now2 st)) = last_trade_reset st"
    using check_risk_limits_same_day [of now1 st now2] by simp_all
qed

theorem daily_counter_reset_once_witness:
  "resets [Execution 86400000000 86400000001 True, Execution 86400000500 86400000501 True,
           Execution 90000000000 90000000001 False] (example_state 0 7) = 1
   \<and> last_trade_reset (counter_run
        [Execution 86400000000 86400000001 True, Execution 86400000500 86400000501 True,
         Execution 90000000000 90000000001 False] (example_state 0 7)) = 1
   \<and> daily_trade_count (counter_run
        [Execution 86400000000 86400000001 True, Execution 86400000500 86400000501 True,
         Execution 90000000000 90000000001 False] (example_state 0 7)) = 2
   \<and> daily_trade_count (snd (check_risk_limits 86400000000 86400000001 (example_state 0 7)))
       = 0
   \<and> resets [Execution 86400000000 86400000001 True, Execution 86400000500 86400000501 True,
              Execution 90000000000 90000000001 False] (example_state 1 7) = 0
   \<and> daily_trade_count (counter_run
        [Execution 86400000000 86400000001 True, Execution 86400000500 86400000501 True,
         Execution 90000000000 90000000001 False] (example_state 1 7)) = 9
   \<and> daily_trade_count (snd (check_risk_limits 86400000000 86400000001 (example_state 1 7)))
       = 7"
proof -
  let ?es = "[Execution 86400000000 86400000001 True, Execution 86400000500 86400000501 True,
              Execution 90000000000 90000000001 False]"
  have d: "\<forall>e\<in>set ?es. event_dates e = {1}"
    by (simp add: date_of_def)
  have l: "last_trade_reset (example_state 0 7) < 1"
    and e: "last_trade_reset (example_state 1 7) = 1"
    and c: "daily_trade_count (example_state 1 7) = 7"
    and a: "last_trade_reset (example_state 0 7) < date_of 86400000000"
    and b: "date_of 86400000000 \<le> last_trade_reset (example_state 1 7)"
    by (simp_all add: example_state_def date_of_def)
  have i0: "increments ?es (example_state 0 7) = 2"
    by (simp add: check_risk_limits_def Let_def example_state_def date_of_def)
  have i1: "increments ?es (example_state 1 7) = 2"
    by (simp add: check_risk_limits_def Let_def example_state_def date_of_def)
  from daily_counter_reset_once [OF d, of "example_state 0 7" 86400000000 86400000001]
       daily_counter_reset_once [OF d, of "example_state 1 7" 86400000000 86400000001]
       l e c a b i0 i1
  show ?thesis by simp
qed

subsection \<open>The example data, evaluated\<close>

lemma config_fields:
  "MAX_POSITION_SIZE_USD default_config = 5000" "MIN_PROFIT_THRESHOLD_USD default_config = 50"
  "DEFAULT_STOP_LOSS_PERCENT default_config = 2" "DEFAULT_LEVERAGE default_config = 5"
  "MAX_LEVERAGE default_config = 10" "FUNDING_RATE_THRESHOLD default_config = 1/100"
  by (simp_all add: default_config_def)

lemma binance_fields:
  "taker_fee binance = 1/2500" "has_futures binance"
  by (simp_all add: binance_def)

lemma date_now0: "date_of now0 = 20395"
  by (simp add: date_of_def now0_def)

lemma quote_mid: "mid_price example_quote = 100000"
  by (simp add: mid_price_def example_quote_def)

lemma near_fields:
  "target_price near_market = 99005" "up_price near_market = 1/5"
  "expiry_time near_market = now0 + 259200000000"
  by (simp_all add: near_market_def)

lemma near_hours: "time_to_expiry_hours now0 near_market = 72"
  by (simp add: time_to_expiry_hours_def total_seconds_def near_market_def)

lemma near_opp_fields:
  "asset (polymarket near_opportunity) = ''BTC''"
  "breakeven_price near_opportunity = 75000"
  "expires_at near_opportunity = now0 + 259200000000"
  "expected_profit_percentage near_opportunity = 156564601 / 1800000"
  "opportunity_id near_opportunity = ''opp-0''"
  "polymarket_side near_opportunity = UP" "hedge_side near_opportunity = SHORT"
  "max_risk_usd near_opportunity = 2000"
  by (simp_all add: near_opportunity_def near_market_def)

lemma market_a_fields:
  "target_price market_a = 100000" "up_price market_a = 1/4" "up_liquidity market_a = 1200"
  "expiry_time market_a = now0 + 8640000000"
  "time_to_expiry_hours now0 market_a = 12/5"
  by (simp_all add: market_a_def time_to_expiry_hours_def total_seconds_def)

lemma market_b_fields:
  "target_price market_b = 100000" "up_price market_b = 1/4" "up_liquidity market_b = 1000"
  "expiry_time market_b = now0 + 86400000000"
  "time_to_expiry_hours now0 market_b = 24"
  by (simp_all add: market_b_def time_to_expiry_hours_def total_seconds_def)

lemma env_fields:
  "clock example_env k = now0"
  "uuid4 example_env 0 = ''opp-''" "uuid4 example_env (Suc 0) = ''opp-i''"
  "get_markets_by_asset example_env ''BTC'' = Inr [market_a, market_b]"
  "get_market_data example_env ''BTC'' = Inr (Some example_quote)"
  by (simp_all add: example_env_def)

lemma example_check:
  "check_risk_limits now0 now0 (example_state 20395 0) = (True, example_state 20395 0)"
  by (simp add: check_risk_limits_def date_now0 example_state_def)

lemma example_pre_checks:
  "pre_execution_checks default_config 0 now0 now0 near_opportunity (example_state 20395 0)
     = (Inr True, example_state 20395 0)"
  by (simp add: pre_execution_checks_def example_check config_fields active_values_def)
     (simp add: example_state_def List.map_filter_simps(2) config_fields)

lemma open_state_fields:
  "positions open_state ''pos-1'' = Some near_position"
  "active_positions open_state = [''pos-1'']" "position_history open_state = []"
  by (simp_all add: open_state_def example_state_def)

lemma near_position_quantity: "pos_hedge_quantity near_position = Some (2/25)"
  by (simp add: near_position_def)

subsection \<open>Probability of profit\<close>

text \<open>
  The Hyperliquid computation multiplies the drift, a \<^verbatim>\<open>Decimal\<close>, by the time in years, a
  \<^verbatim>\<open>float\<close>: it raises \<^verbatim>\<open>TypeError\<close> on every input, so the function always returns the
  fallback.
\<close>

lemma norm_cdf_zero: "norm_cdf 0 = 1/2"
  by (simp add: norm_cdf_def)

lemma probability_with_funding_body_raises:
  "calculate_probability_with_funding_body current_price target hours side funding_rate
     = Inl TypeError"
  by (simp add: calculate_probability_with_funding_body_def try_bind_def Let_def)

lemma probability_with_funding_is_fallback:
  "calculate_probability_with_funding current_price target hours side funding_rate = 4/10"
  by (simp add: calculate_probability_with_funding_def probability_with_funding_body_raises)

lemma probability_at_target:
  "0 < hours \<Longrightarrow> current \<noteq> 0 \<Longrightarrow>
   calculate_probability_of_profit current current hours UP
     = max 0 (min 1 (1/2 * (1 + min (1/10) (hours / 240))))"
  by (simp add: calculate_probability_of_profit_def calculate_probability_of_profit_body_def
        try_bind_def dec_div_def dec_sqrt_def Let_def norm_cdf_zero)

lemma probability_a: "calculate_probability_of_profit 100000 100000 (12/5) UP = 101/200"
  by (simp add: probability_at_target)

lemma probability_b: "calculate_probability_of_profit 100000 100000 24 UP = 11/20"
  by (simp add: probability_at_target)

text \<open>
  C6.  For every current price, target price, number of hours and side, both probability
  functions return a value between 0 and 1, and when the computation inside raises they
  return 0.4.
\<close>

theorem probability_in_unit_interval:
  "(0 \<le> calculate_probability_of_profit current_price target hours side
    \<and> calculate_probability_of_profit current_price target hours side \<le> 1)
   \<and> (isl (calculate_probability_of_profit_body current_price target hours side)
        \<longrightarrow> calculate_probability_of_profit current_price target hours side = 4/10)
   \<and> (0 \<le> calculate_probability_with_funding current_price target hours side funding_rate
    \<and> calculate_probability_with_funding current_price target hours side funding_rate \<le> 1)
   \<and> (isl (calculate_probability_with_funding_body current_price target hours side
              funding_rate)
        \<longrightarrow> calculate_probability_with_funding current_price target hours side funding_rate
              = 4/10)"
proof -
  have body: "0 \<le> p \<and> p \<le> 1"
    if r: "calculate_probability_of_profit_body current_price target hours side = Inr p" for p
  proof (cases "dec_sqrt (hours / 24)")
    case (Inl e)
    then show ?thesis using r
      by (simp add: calculate_probability_of_profit_body_def try_bind_def Let_def)
  next
    case root: (Inr root)
    show ?thesis
    proof (cases "dec_div (target - current_price) current_price")
      case (Inl e)
      then show ?thesis using r root
        by (simp add: calculate_probability_of_profit_body_def try_bind_def Let_def)
    next
      case pr: (Inr price_return)
      show ?thesis
      proof (cases "dec_div price_return (3 / 100 * root)")
        case (Inl e)
        then show ?thesis using r root pr
          by (simp add: calculate_probability_of_profit_body_def try_bind_def Let_def)
      next
        case (Inr z)
        then have "p = max 0 (min 1 ((if side = DOWN then norm_cdf z else 1 - norm_cdf z)
                                      * (1 + min (1/10) (hours / 240))))"
          using r root pr
          by (simp add: calculate_probability_of_profit_body_def try_bind_def Let_def)
        then show ?thesis by simp
      qed
    qed
  qed
  have a: "0 \<le> calculate_probability_of_profit current_price target hours side
    \<and> calculate_probability_of_profit current_price target hours side \<le> 1"
    using body
    by (cases "calculate_probability_of_profit_body current_price target hours side")
       (simp_all add: calculate_probability_of_profit_def)
  have b: "isl (calculate_probability_of_profit_body current_price target hours side)
        \<longrightarrow> calculate_probability_of_profit current_price target hours side = 4/10"
    by (cases "calculate_probability_of_profit_body current_price target hours side")
       (simp_all add: calculate_probability_of_profit_def)
  have c: "calculate_probability_with_funding current_price target hours side funding_rate
             = 4/10"
    by (rule probability_with_funding_is_fallback)
  show ?thesis using a b c by simp
qed

theorem probability_in_unit_interval_witness:
  "isl (calculate_probability_of_profit_body 0 100000 24 UP)
   \<and> calculate_probability_of_profit 0 100000 24 UP = 4/10
   \<and> isl (calculate_probability_with_funding_body 100000 99005 72 UP 0)
   \<and> calculate_probability_with_funding 100000 99005 72 UP 0 = 4/10"
proof -
  have f1: "isl (calculate_probability_of_profit_body 0 100000 24 UP)"
    by (simp add: calculate_probability_of_profit_body_def try_bind_def dec_sqrt_def
          dec_div_def Let_def)
  have f2: "isl (calculate_probability_with_funding_body 100000 99005 72 UP 0)"
    by (simp add: probability_with_funding_body_raises)
  show ?thesis
    using f1 f2 probability_in_unit_interval [of 0 100000 24 UP]
      probability_in_unit_interval [of 100000 99005 72 UP 0]
    by simp
qed

subsection \<open>Ranking of the scan\<close>

lemma sort_reverse_descending: "descending f (sort_reverse f xs)"
proof -
  have "sorted (map f (sort_key f (rev xs)))" by (rule sorted_sort_key)
  then have "sorted_wrt (\<lambda>x y. f x \<le> f y) (sort_key f (rev xs))" by (simp only: sorted_map)
  then show ?thesis by (simp add: descending_def sort_reverse_def sorted_wrt_rev)
qed

lemma sort_reverse_set:
  "set (sort_reverse f xs) = set xs \<and> length (sort_reverse f xs) = length xs"
  by (simp add: sort_reverse_def)

lemma emitted_a:
  "analyze_market_pair default_config binance now0 ''opp-'' market_a example_quote
     = Some opportunity_a"
  unfolding analyze_market_pair_def analyze_market_pair_body_def
  by (simp add: quote_mid config_fields binance_fields market_a_fields probability_a
        Let_def try_bind_def dec_div_def validate_profit_percentage_def opportunity_a_def)

lemma emitted_b:
  "analyze_market_pair default_config binance now0 ''opp-i'' market_b example_quote
     = Some opportunity_b"
  unfolding analyze_market_pair_def analyze_market_pair_body_def
  by (simp add: quote_mid config_fields binance_fields market_b_fields probability_b
        Let_def try_bind_def dec_div_def validate_profit_percentage_def opportunity_b_def)

lemma scanned:
  "scan_assets default_config binance example_env 0 [''BTC''] = [opportunity_a, opportunity_b]"
  by (simp add: env_fields emitted_a emitted_b)

lemma keys:
  "expected_profit_usd opportunity_a = 121872/100" "expected_profit_usd opportunity_b = 11956/10"
  "probability_of_profit opportunity_a = 505/1000" "probability_of_profit opportunity_b = 55/100"
  by (simp_all add: opportunity_a_def opportunity_b_def)

text \<open>
  C2, as the code has it.  The list returned by the scan of the Hyperliquid detector is in
  descending order of expected profit times probability of profit; the list returned by
  the scan of the exchange detector is in descending order of the expected profit alone.
\<close>

theorem scans_sorted:
  "descending ranking_key (hl_scan_for_opportunities cfg env assets)
   \<and> descending expected_profit_usd (scan_for_opportunities cfg ex env assets)"
  by (simp add: hl_scan_for_opportunities_def scan_for_opportunities_def
        sort_reverse_descending)

text \<open>
  C2 as stated fails for the exchange detector: for the two contracts of \<open>example_env\<close>
  its scan returns \<open>opportunity_a\<close> before \<open>opportunity_b\<close>, with products 615.4536 and
  657.58.
\<close>

theorem scan_not_sorted_by_product_counterexample:
  "scan_for_opportunities default_config binance example_env [''BTC'']
     = [opportunity_a, opportunity_b]
   \<and> \<not> descending ranking_key [opportunity_a, opportunity_b]"
  unfolding scan_for_opportunities_def scanned
  by (simp add: sort_reverse_def keys descending_def ranking_key_def)

subsection \<open>Validation\<close>

lemma validate_expired:
  "expires_at opp \<le> now \<Longrightarrow>
   validate_opportunity v now opp = (False, [MarketHasExpired], [])"
  by (simp add: validate_opportunity_def Let_def)

lemma hl_validate_expired:
  "expires_at opp \<le> now \<Longrightarrow>
   hl_validate_opportunity cfg v now opp = (False, [MarketHasExpired], [])"
  unfolding hl_validate_opportunity_def
  by (simp only: Let_def if_True)

text \<open>
  C7.  An opportunity whose expiry is not after the clock reading of the validation is
  rejected by both detectors with the single reason "Market has expired", and no venue
  request is made.
\<close>

theorem expired_opportunity_rejected_without_calls:
  "expires_at opp \<le> now \<Longrightarrow>
   validate_opportunity v now opp = (False, [MarketHasExpired], [])
   \<and> hl_validate_opportunity cfg v now opp = (False, [MarketHasExpired], [])"
  by (intro conjI validate_expired hl_validate_expired)

theorem expired_opportunity_rejected_without_calls_witness:
  "expires_at near_opportunity \<le> now0 + 259200000001
   \<and> validate_opportunity example_validation_script (now0 + 259200000001) near_opportunity
       = (False, [MarketHasExpired], [])
   \<and> hl_validate_opportunity default_config example_validation_script (now0 + 259200000001)
         near_opportunity = (False, [MarketHasExpired], [])"
proof -
  have e: "expires_at near_opportunity \<le> now0 + 259200000001"
    by (simp add: near_opp_fields)
  from expired_opportunity_rejected_without_calls
         [OF e, of example_validation_script default_config] e
  show ?thesis by (intro conjI) (erule conjE, assumption)+
qed

subsection \<open>Detection near the target\<close>

lemma near_strategy:
  "determine_strategy 100000 99005 near_market 0 = Inr (Some (UP, SHORT))"
  by (simp add: determine_strategy_def try_bind_def dec_div_def Let_def near_market_def)

lemma near_sizes:
  "calculate_position_sizes default_config near_market example_quote UP (1/5) 0
     = Some (10000, 2/25)"
  by (simp add: calculate_position_sizes_def calculate_position_sizes_body_def try_bind_def
        dec_div_def Let_def near_market_def default_config_def quote_mid)

lemma near_estimate:
  "estimate_win_probability 100000 99005 72 SHORT = Inr (50995/100000)"
  by (simp add: estimate_win_probability_def try_bind_def dec_div_def Let_def py_min_def)

lemma near_profit:
  "calculate_expected_profit 10000 (1/5) (2/25) 100000 99005 SHORT 0 72
     = Some (314009202/100000, 2000, 75000)"
  by (simp add: calculate_expected_profit_def calculate_expected_profit_body_def try_bind_def
        dec_div_def Let_def near_estimate)

lemma near_emitted:
  "hl_analyze_market_pair default_config now0 ''opp-0'' near_market example_quote 0
     = Some near_opportunity"
  unfolding hl_analyze_market_pair_def hl_analyze_market_pair_body_def
  by (simp add: near_hours quote_mid near_fields near_strategy near_sizes near_profit
        probability_with_funding_is_fallback Let_def try_bind_def dec_div_def
        calculate_total_fees_def hyperliquid_taker_fee_def validate_profit_percentage_def
        near_opportunity_def config_fields)

lemma determine_strategy_near:
  assumes "\<bar>current_price - target\<bar> * 100 < \<bar>target\<bar>"
  shows "determine_strategy current_price target pm_market funding_rate = Inr None"
proof -
  have t: "target \<noteq> 0" using assms by auto
  then have tp: "0 < \<bar>target\<bar>" by simp
  have "\<bar>(current_price - target) / target * 100\<bar>
          = \<bar>current_price - target\<bar> * 100 / \<bar>target\<bar>"
    by (simp only: abs_mult abs_divide abs_numeral times_divide_eq_left)
  also have "\<dots> < 1" using assms tp by (simp only: divide_less_eq_1_pos)
  finally have near: "\<bar>(current_price - target) / target * 100\<bar> < 1" .
  have dd: "dec_div (current_price - target) target = Inr ((current_price - target) / target)"
    using t by (simp add: dec_div_def)
  show ?thesis
    unfolding determine_strategy_def dd try_bind_def Let_def
    using near by simp
qed

text \<open>
  C9, as the code has it.  The Hyperliquid detector emits no opportunity for a contract
  whose hedge mid price is within 1 percent of the target price, the distance being taken
  relative to the target price.
\<close>

theorem hl_near_target_rejected:
  "\<bar>mid_price hl_market - target_price pm_market\<bar> * 100 < \<bar>target_price pm_market\<bar> \<Longrightarrow>
   hl_analyze_market_pair cfg now uuid pm_market hl_market funding_rate = None"
proof -
  assume a: "\<bar>mid_price hl_market - target_price pm_market\<bar> * 100 < \<bar>target_price pm_market\<bar>"
  have ds: "determine_strategy (mid_price hl_market) (target_price pm_market) pm_market
              funding_rate = Inr None"
    by (rule determine_strategy_near [OF a])
  show ?thesis
    unfolding hl_analyze_market_pair_def hl_analyze_market_pair_body_def Let_def ds
    by (simp add: try_bind_def)
qed

theorem hl_near_target_rejected_witness:
  "\<bar>mid_price example_quote - target_price market_a\<bar> * 100 < \<bar>target_price market_a\<bar>
   \<and> hl_analyze_market_pair default_config now0 ''opp-0'' market_a example_quote 0 = None"
proof -
  have h: "\<bar>mid_price example_quote - target_price market_a\<bar> * 100
             < \<bar>target_price market_a\<bar>"
    by (simp add: quote_mid market_a_fields)
  from hl_near_target_rejected [OF h, of default_config now0 "''opp-0''" 0] h
  show ?thesis by (intro conjI)
qed

text \<open>
  C9 as stated fails: for \<open>near_market\<close> the quote is within 1 percent of the target when
  the distance is taken relative to the quote, as the claim does, and the Hyperliquid
  detector emits \<open>near_opportunity\<close>.
\<close>

theorem near_quote_emitted_counterexample:
  "0 < time_to_expiry_hours now0 near_market
   \<and> \<bar>mid_price example_quote - target_price near_market\<bar> / mid_price example_quote < 1/100
   \<and> hl_analyze_market_pair default_config now0 ''opp-0'' near_market example_quote 0
       = Some near_opportunity"
  by (simp add: near_hours quote_mid near_fields near_emitted)

text \<open>
  The exchange detector computes the distance to the target and never tests it: it emits
  \<open>opportunity_a\<close> for a quote that equals the target.
\<close>

lemma exchange_detector_emits_at_target:
  "mid_price example_quote = target_price market_a
   \<and> analyze_market_pair default_config binance now0 ''opp-'' market_a example_quote
       = Some opportunity_a"
  by (simp add: quote_mid market_a_fields emitted_a)

subsection \<open>Expected profit and the stored probability\<close>

text \<open>
  C1 at a concrete detection.  The Hyperliquid detector emits \<open>near_opportunity\<close> with
  probability of profit 0.4 and expected profit 3131.29202.  The formula of the claim gives
  2023.04 with the stored probability; the expected profit was computed with the estimate
  0.50995 of \<^verbatim>\<open>_estimate_win_probability\<close> instead.
\<close>

theorem hl_expected_profit_not_from_stored_probability:
  "hl_analyze_market_pair default_config now0 ''opp-0'' near_market example_quote 0
     = Some near_opportunity
   \<and> probability_of_profit near_opportunity = 4/10
   \<and> expected_profit_usd near_opportunity = 313129202/100000
   \<and> expected_value (probability_of_profit near_opportunity)
         (hl_win_scenario_profit 0 near_opportunity) (loss_scenario near_opportunity)
         (hl_estimated_fees near_opportunity) = 202304/100
   \<and> estimate_win_probability 100000 99005 72 SHORT = Inr (50995/100000)
   \<and> expected_value (50995/100000)
         (hl_win_scenario_profit 0 near_opportunity) (loss_scenario near_opportunity)
         (hl_estimated_fees near_opportunity) = 313129202/100000"
  by (simp add: near_emitted near_estimate)
     (simp add: near_opportunity_def near_market_def expected_value_def
        hl_win_scenario_profit_def hl_funding_cost_def hedge_pnl_at_target_def
        loss_scenario_def hl_estimated_fees_def calculate_total_fees_def
        hyperliquid_taker_fee_def)

text \<open>
  In general: the exchange detector computes the expected profit with the probability it
  stores; the Hyperliquid detector computes it with the estimate of
  \<^verbatim>\<open>_estimate_win_probability\<close> and stores 0.4.
\<close>

lemma exchange_expected_profit_formula:
  assumes "analyze_market_pair cfg ex now uuid pm_market spot = Some opp"
  shows "expected_profit_usd opp
           = expected_value (probability_of_profit opp) (win_scenario_profit opp)
               (loss_scenario opp) (estimated_fees ex opp)"
proof -
  from assms have b: "analyze_market_pair_body cfg ex now uuid pm_market spot = Inr (Some opp)"
    by (simp add: analyze_market_pair_def split: sum.splits)
  show ?thesis
    using b
    unfolding analyze_market_pair_body_def Let_def try_bind_def
    by (auto split: if_splits sum.splits
          simp: expected_value_def win_scenario_profit_def loss_scenario_def
                estimated_fees_def hedge_pnl_at_target_def)
qed

lemma hl_expected_profit_formula:
  assumes "hl_analyze_market_pair cfg now uuid pm_market hl_market funding_rate = Some opp"
  shows "\<exists>p. estimate_win_probability (hedge_price opp) (target_price (polymarket opp))
               (time_to_expiry_hours now pm_market) (hedge_side opp) = Inr p
           \<and> expected_profit_usd opp
               = expected_value p
                   (hl_win_scenario_profit
                      (funding_rate * real_of_int \<lfloor>time_to_expiry_hours now pm_market / 8\<rfloor>)
                      opp)
                   (loss_scenario opp) (hl_estimated_fees opp)
           \<and> probability_of_profit opp = 4/10"
proof -
  from assms have b:
    "hl_analyze_market_pair_body cfg now uuid pm_market hl_market funding_rate = Inr (Some opp)"
    by (simp add: hl_analyze_market_pair_def split: sum.splits)
  show ?thesis
    using b
    unfolding hl_analyze_market_pair_body_def Let_def try_bind_def
      calculate_expected_profit_def calculate_expected_profit_body_def
    by (auto split: if_splits sum.splits option.splits prod.splits
          simp: expected_value_def hl_win_scenario_profit_def loss_scenario_def
                hl_estimated_fees_def hedge_pnl_at_target_def hl_funding_cost_def
                probability_with_funding_is_fallback Let_def try_bind_def)
qed

subsection \<open>Execution\<close>

lemma rollback_position_status:
  "status (rollback_position rb pos) = CANCELLED \<or> status (rollback_position rb pos) = ERROR"
  by (simp add: rollback_position_def split: sum.split)

lemma hl_rollback_position_status:
  "status (hl_rollback_position rb pos) = CANCELLED
   \<or> status (hl_rollback_position rb pos) = ERROR"
  by (simp add: hl_rollback_position_def split: sum.split)

lemma execute_parallel_leg_failure:
  assumes "hl_execute_polymarket_leg (hl_pm_leg v) (hl_pm_cancelled v) pos = (pm_done, pm_result, p1)"
    and "hl_execute_hyperliquid_leg v (asset (polymarket opp)) p1 = (hl_done, hl_result, p2)"
    and "\<not> (pm_done \<and> pm_result) \<or> \<not> (hl_done \<and> hl_result)"
  shows "fst (execute_parallel v opp pos) = False"
  using assms by (auto simp: execute_parallel_def split: sum.split)

lemma chunks_placed_le: "chunks_placed r n \<le> n"
  unfolding chunks_placed_def
  by (metis diff_zero length_filter_le length_upt)

lemma execute_twap_chunk_failure:
  assumes "chunks_placed (tw_pm_chunk_r v) (polymarket_chunks plan) < polymarket_chunks plan
           \<or> chunks_placed (tw_hl_chunk_r v) (hyperliquid_chunks plan) < hyperliquid_chunks plan"
    and "polymarket_chunks plan \<le> 5" and "hyperliquid_chunks plan \<le> 5"
    and "0 < polymarket_quantity opp" and "0 < hedge_quantity opp"
  shows "fst (execute_twap v opp plan pos) = False"
proof -
  have frac: "real k * (q / real n) / q \<le> 8/10" if "k < n" "n \<le> 5" "0 < q" for k n :: nat and q :: real
  proof -
    have "real k * (q / real n) / q = real k / real n" using that by simp
    also have "\<dots> \<le> 8/10"
    proof -
      have "n \<noteq> 0" using that by auto
      have "10 * k \<le> 8 * n" using that by (cases n; cases k) auto
      then have "10 * real k \<le> 8 * real n" by (metis of_nat_le_iff of_nat_mult of_nat_numeral)
      then show ?thesis using \<open>n \<noteq> 0\<close> by (simp add: field_simps)
    qed
    finally show ?thesis .
  qed
  show ?thesis
    using assms frac [of "chunks_placed (tw_pm_chunk_r v) (polymarket_chunks plan)" "polymarket_chunks plan" "polymarket_quantity opp"]
      frac [of "chunks_placed (tw_hl_chunk_r v) (hyperliquid_chunks plan)" "hyperliquid_chunks plan" "hedge_quantity opp"]
    by (auto simp: execute_twap_def Let_def split: sum.split)
qed

text \<open>
  When the risk checks have passed and a leg of the exchange engine returns \<^verbatim>\<open>False\<close>,
  or the legs of the Hyperliquid engine do not both return \<^verbatim>\<open>True\<close>,
  \<^verbatim>\<open>execute_opportunity\<close> returns \<^verbatim>\<open>None\<close>, and the position it leaves in the store is
  the one the rollback produced, with status \<^verbatim>\<open>CANCELLED\<close> or \<^verbatim>\<open>ERROR\<close>.  The hedge leg
  of the exchange engine returns \<^verbatim>\<open>True\<close> only when a poll of its own order showed it
  filled.
\<close>

lemma unsuccessful_legs_are_rolled_back:
  "(check_risk_limits now1 now2 st = (True, st1) \<and>
    should_use_market_orders strategy now opp = Inr m \<and>
    execute_polymarket_leg (pm_leg v)
      (new_position pid now (exchange_name ex) (get_symbol ex (asset (polymarket opp))) opp) m
      = (pm_success, p1) \<and>
    execute_hedge_leg ex (hedge_leg v) p1 m = (hedge_success, p2) \<and>
    (\<not> pm_success \<or> \<not> hedge_success)
    \<longrightarrow> execute_opportunity cfg ex strategy v now1 now2 now pid opp st
          = (None, store_position pid (rollback_position (rollback v) p2) st1)
        \<and> (status (rollback_position (rollback v) p2) = CANCELLED
           \<or> status (rollback_position (rollback v) p2) = ERROR))
   \<and>
   (pre_execution_checks cfg funding_rate now1 now2 opp hst = (Inr True, hst1) \<and>
    (if hstrategy = HL_TWAP
     then execute_twap hv opp (create_execution_plan cfg hstrategy now opp)
            (new_position pid now ''hyperliquid'' (asset (polymarket opp) @ ''-USD-PERP'') opp)
     else execute_parallel hv opp
            (new_position pid now ''hyperliquid'' (asset (polymarket opp) @ ''-USD-PERP'') opp))
      = (False, q1)
    \<longrightarrow> hl_execute_opportunity cfg hstrategy hv funding_rate now1 now2 now pid opp hst
          = (Inr None, store_position pid (hl_rollback_position (hl_rollback hv) q1) hst1)
        \<and> (status (hl_rollback_position (hl_rollback hv) q1) = CANCELLED
           \<or> status (hl_rollback_position (hl_rollback hv) q1) = ERROR))"
proof (intro conjI impI)
  assume a: "check_risk_limits now1 now2 st = (True, st1) \<and>
    should_use_market_orders strategy now opp = Inr m \<and>
    execute_polymarket_leg (pm_leg v)
      (new_position pid now (exchange_name ex) (get_symbol ex (asset (polymarket opp))) opp) m
      = (pm_success, p1) \<and>
    execute_hedge_leg ex (hedge_leg v) p1 m = (hedge_success, p2) \<and>
    (\<not> pm_success \<or> \<not> hedge_success)"
  then show "execute_opportunity cfg ex strategy v now1 now2 now pid opp st
          = (None, store_position pid (rollback_position (rollback v) p2) st1)"
    by (simp add: execute_opportunity_def finish_execution_def Let_def)
  show "status (rollback_position (rollback v) p2) = CANCELLED
        \<or> status (rollback_position (rollback v) p2) = ERROR"
    by (rule rollback_position_status)
next
  assume a: "pre_execution_checks cfg funding_rate now1 now2 opp hst = (Inr True, hst1) \<and>
    (if hstrategy = HL_TWAP
     then execute_twap hv opp (create_execution_plan cfg hstrategy now opp)
            (new_position pid now ''hyperliquid'' (asset (polymarket opp) @ ''-USD-PERP'') opp)
     else execute_parallel hv opp
            (new_position pid now ''hyperliquid'' (asset (polymarket opp) @ ''-USD-PERP'') opp))
      = (False, q1)"
  then show "hl_execute_opportunity cfg hstrategy hv funding_rate now1 now2 now pid opp hst
          = (Inr None, store_position pid (hl_rollback_position (hl_rollback hv) q1) hst1)"
    by (simp add: hl_execute_opportunity_def hl_finish_execution_def Let_def)
  show "status (hl_rollback_position (hl_rollback hv) q1) = CANCELLED
        \<or> status (hl_rollback_position (hl_rollback hv) q1) = ERROR"
    by (rule hl_rollback_position_status)
qed

lemma unsuccessful_legs_example:
  "fst (execute_opportunity default_config binance AGGRESSIVE hedge_refused_script
          now0 now0 now0 ''pos-1'' near_opportunity (example_state 20395 0)) = None
   \<and> map_option status
         (positions (snd (execute_opportunity default_config binance AGGRESSIVE
                            hedge_refused_script now0 now0 now0 ''pos-1'' near_opportunity
                            (example_state 20395 0))) ''pos-1'') = Some CANCELLED
   \<and> fst (hl_execute_opportunity default_config HL_AGGRESSIVE hl_hedge_refused_script 0
            now0 now0 now0 ''pos-1'' near_opportunity (example_state 20395 0)) = Inr None
   \<and> map_option status
         (positions (snd (hl_execute_opportunity default_config HL_AGGRESSIVE
                            hl_hedge_refused_script 0 now0 now0 now0 ''pos-1''
                            near_opportunity (example_state 20395 0))) ''pos-1'')
       = Some CANCELLED"
proof -
  let ?np = "new_position ''pos-1'' now0 (exchange_name binance)
               (get_symbol binance (asset (polymarket near_opportunity))) near_opportunity"
  let ?hp = "new_position ''pos-1'' now0 ''hyperliquid''
               (asset (polymarket near_opportunity) @ ''-USD-PERP'') near_opportunity"
  let ?p1 = "?np\<lparr>polymarket_order_id := Some ''order-1'',
                  polymarket_entry_price := Some (1/5),
                  pos_polymarket_quantity := Some 10000, polymarket_fees := 0\<rparr>"
  let ?q1 = "?hp\<lparr>polymarket_order_id := Some ''order-1'',
                  polymarket_entry_price := Some (1/5),
                  pos_polymarket_quantity := Some 10000, polymarket_fees := 0\<rparr>"
  have m: "should_use_market_orders AGGRESSIVE now0 near_opportunity = Inr True"
    by (simp add: should_use_market_orders_def)
  have l1: "execute_polymarket_leg (pm_leg hedge_refused_script) ?np True = (True, ?p1)"
    by (simp add: execute_polymarket_leg_def hedge_refused_script_def filled_leg_def
          filled_status_def wait_for_fill_def poll_filled_def Let_def)
  have l2: "execute_hedge_leg binance (hedge_leg hedge_refused_script) ?p1 True = (False, ?p1)"
    by (simp add: execute_hedge_leg_def hedge_refused_script_def refused_leg_def
          binance_fields)
  have par: "(if HL_AGGRESSIVE = HL_TWAP
              then execute_twap hl_hedge_refused_script near_opportunity
                     (create_execution_plan default_config HL_AGGRESSIVE now0 near_opportunity)
                     ?hp
              else execute_parallel hl_hedge_refused_script near_opportunity ?hp)
             = (False, ?q1)"
    by (simp add: execute_parallel_def hl_execute_polymarket_leg_def
          hl_execute_hyperliquid_leg_def hl_hedge_refused_script_def hl_filled_script_def
          filled_leg_def filled_status_def hl_wait_for_fill_def hl_poll_filled_def Let_def)
  have r1: "status (rollback_position (rollback hedge_refused_script) ?p1) = CANCELLED"
    by (simp add: rollback_position_def hedge_refused_script_def quiet_rollback_def
          new_position_def)
  have r2: "status (hl_rollback_position (hl_rollback hl_hedge_refused_script) ?q1) = CANCELLED"
    by (simp add: hl_rollback_position_def hl_hedge_refused_script_def hl_filled_script_def
          quiet_rollback_def new_position_def)
  note t = unsuccessful_legs_are_rolled_back
             [of now0 now0 "example_state 20395 0" "example_state 20395 0" AGGRESSIVE now0
                 near_opportunity True hedge_refused_script "''pos-1''" binance True ?p1
                 False ?p1 default_config 0 "example_state 20395 0" "example_state 20395 0"
                 HL_AGGRESSIVE hl_hedge_refused_script ?q1]
  have e1: "execute_opportunity default_config binance AGGRESSIVE hedge_refused_script
              now0 now0 now0 ''pos-1'' near_opportunity (example_state 20395 0)
            = (None, store_position ''pos-1''
                       (rollback_position (rollback hedge_refused_script) ?p1)
                       (example_state 20395 0))"
    using t example_check m l1 l2 by blast
  have e2: "hl_execute_opportunity default_config HL_AGGRESSIVE hl_hedge_refused_script 0
              now0 now0 now0 ''pos-1'' near_opportunity (example_state 20395 0)
            = (Inr None, store_position ''pos-1''
                           (hl_rollback_position (hl_rollback hl_hedge_refused_script) ?q1)
                           (example_state 20395 0))"
    using t example_pre_checks par by blast
  show ?thesis
    unfolding e1 e2 by (simp add: r1 r2)
qed

lemma near_parallel:
  "execute_parallel hl_filled_script near_opportunity
     (new_position ''pos-1'' now0 ''hyperliquid'' ''BTC-USD-PERP'' near_opportunity)
   = (True, near_position\<lparr>status := PENDING, stop_loss_price := None,
                          take_profit_price := None\<rparr>)"
  by (simp add: execute_parallel_def hl_execute_polymarket_leg_def
        hl_execute_hyperliquid_leg_def hl_filled_script_def filled_leg_def filled_status_def
        hl_wait_for_fill_def hl_poll_filled_def new_position_def near_opp_fields
        near_position_def hyperliquid_taker_fee_def Let_def)

lemma hedge_leg_success_is_a_fill:
  assumes "execute_hedge_leg ex v pos m = (True, p2)"
  shows "wait_for_fill (polls_r v)"
    and "\<exists>s. order_status_r v = Inr s \<and> pos_hedge_quantity p2 = Some (os_filled s)"
  using assms
  by (auto simp: execute_hedge_leg_def Let_def split: sum.splits if_splits)

lemma open_check:
  "check_risk_limits (now0 + 3600000000) (now0 + 3600000000) open_state = (True, open_state)"
  by (simp add: check_risk_limits_def date_of_def now0_def open_state_def example_state_def)

lemma open_pre_checks:
  "pre_execution_checks default_config 0 (now0 + 3600000000) (now0 + 3600000000)
     near_opportunity open_state = (Inr True, open_state)"
  by (simp add: pre_execution_checks_def open_check config_fields active_values_def
        open_state_fields List.map_filter_simps near_opp_fields)
     (simp add: near_position_def startswith_def config_fields)

lemma resting_parallel:
  "execute_parallel resting_hedge_script near_opportunity
     (new_position ''pos-2'' (now0 + 3600000000) ''hyperliquid'' ''BTC-USD-PERP''
        near_opportunity)
   = (True, near_position\<lparr>position_id := ''pos-2'', hedge_order_id := Some ''order-3'',
                          opened_at := now0 + 3600000000, status := PENDING,
                          stop_loss_price := None, take_profit_price := None\<rparr>)"
  by (simp add: execute_parallel_def hl_execute_polymarket_leg_def
        hl_execute_hyperliquid_leg_def resting_hedge_script_def hl_filled_script_def
        filled_leg_def filled_status_def
        hl_wait_for_fill_def hl_poll_filled_def new_position_def near_opp_fields
        near_position_def hyperliquid_taker_fee_def Let_def)

text \<open>
  C3 fails in the Hyperliquid engine.  \<^verbatim>\<open>_execute_hyperliquid_leg\<close> never reads the state
  of the order it placed: it returns \<^verbatim>\<open>True\<close> as soon as the account shows any position
  in the coin.  Here \<open>near_position\<close> is open with its short of 0.08 BTC, and a second
  execution places a limit order for the hedge that the venue accepts and that fills
  nothing, so that the account still shows the short of 0.08 BTC alone.  No rollback is
  run: \<^verbatim>\<open>execute_opportunity\<close> returns the new position and leaves it in the
  active-position set with status \<^verbatim>\<open>OPEN\<close>, carrying the entry price and the quantity
  of the earlier position.
\<close>

theorem hl_unfilled_hedge_reported_open:
  "hl_get_positions_r resting_hedge_script = hl_get_positions_r hl_filled_script
   \<and> hl_get_positions_r resting_hedge_script
       = Inr [\<lparr>coin = ''BTC'', size_hl = - (8/100), entry_price = 100000\<rparr>]
   \<and> map_option pos_hedge_quantity (positions open_state ''pos-1'') = Some (Some (8/100))
   \<and> \<not> use_market_orders (create_execution_plan default_config HL_PASSIVE
                             (now0 + 3600000000) near_opportunity)
   \<and> fst (hl_execute_opportunity default_config HL_PASSIVE resting_hedge_script 0
            (now0 + 3600000000) (now0 + 3600000000) (now0 + 3600000000) ''pos-2''
            near_opportunity open_state) = Inr (Some ''pos-2'')
   \<and> positions (snd (hl_execute_opportunity default_config HL_PASSIVE resting_hedge_script 0
            (now0 + 3600000000) (now0 + 3600000000) (now0 + 3600000000) ''pos-2''
            near_opportunity open_state)) ''pos-2''
       = Some (near_position\<lparr>position_id := ''pos-2'', hedge_order_id := Some ''order-3'',
                              opened_at := now0 + 3600000000\<rparr>)
   \<and> status (near_position\<lparr>position_id := ''pos-2'', hedge_order_id := Some ''order-3'',
                            opened_at := now0 + 3600000000\<rparr>) = OPEN
   \<and> active_positions (snd (hl_execute_opportunity default_config HL_PASSIVE
            resting_hedge_script 0
            (now0 + 3600000000) (now0 + 3600000000) (now0 + 3600000000) ''pos-2''
            near_opportunity open_state)) = [''pos-1'', ''pos-2'']"
proof -
  let ?p1 = "near_position\<lparr>position_id := ''pos-2'', hedge_order_id := Some ''order-3'',
                           opened_at := now0 + 3600000000, status := PENDING,
                           stop_loss_price := None, take_profit_price := None\<rparr>"
  let ?p2 = "near_position\<lparr>position_id := ''pos-2'', hedge_order_id := Some ''order-3'',
                           opened_at := now0 + 3600000000\<rparr>"
  have rp: "set_risk_parameters default_config near_opportunity ?p1\<lparr>status := OPEN\<rparr> = ?p2"
    by (simp add: set_risk_parameters_def config_fields stop_loss_decimal_def near_opp_fields
          near_position_def Let_def)
  have lg: "log_opened_ok ?p2"
    by (simp add: log_opened_ok_def near_position_def)
  have fin: "hl_finish_execution default_config quiet_rollback ''pos-2'' near_opportunity
               open_state True ?p1
             = (Inr (Some ''pos-2''),
                (register_active ''pos-2'' (store_position ''pos-2'' ?p2 open_state))
                  \<lparr>daily_trade_count := daily_trade_count open_state + 1\<rparr>)"
    unfolding hl_finish_execution_def Let_def rp
    by (simp add: lg)
  have rb: "hl_rollback resting_hedge_script = quiet_rollback"
    by (simp add: resting_hedge_script_def hl_filled_script_def)
  have ex: "hl_execute_opportunity default_config HL_PASSIVE resting_hedge_script 0
              (now0 + 3600000000) (now0 + 3600000000) (now0 + 3600000000) ''pos-2''
              near_opportunity open_state
            = (Inr (Some ''pos-2''),
                (register_active ''pos-2'' (store_position ''pos-2'' ?p2 open_state))
                  \<lparr>daily_trade_count := daily_trade_count open_state + 1\<rparr>)"
    unfolding hl_execute_opportunity_def open_pre_checks
    by (simp add: near_opp_fields resting_parallel Let_def rb fin)
  have plan: "\<not> use_market_orders (create_execution_plan default_config HL_PASSIVE
                             (now0 + 3600000000) near_opportunity)"
    by (simp add: create_execution_plan_def near_opp_fields total_seconds_def Let_def)
  have scr: "hl_get_positions_r resting_hedge_script = hl_get_positions_r hl_filled_script"
    "hl_get_positions_r resting_hedge_script
       = Inr [\<lparr>coin = ''BTC'', size_hl = - (8/100), entry_price = 100000\<rparr>]"
    by (simp_all add: resting_hedge_script_def hl_filled_script_def)
  have q: "map_option pos_hedge_quantity (positions open_state ''pos-1'') = Some (Some (8/100))"
    by (simp add: open_state_fields near_position_def)
  have st: "status ?p2 = OPEN" by (simp add: near_position_def)
  show ?thesis
    unfolding ex using plan scr q st
    by (simp add: open_state_fields register_active_def)
qed

text \<open>
  C4 at a concrete execution.  Both legs fill at the prices \<open>near_opportunity\<close> assumed
  and the Hyperliquid engine returns the position \<open>near_position\<close> with status
  \<^verbatim>\<open>OPEN\<close>: its hedge entry price is 100000, the breakeven price of the opportunity is
  75000, and its take-profit price is 71250, beyond the breakeven price and not between the
  two.
\<close>

theorem hl_take_profit_beyond_breakeven:
  "hl_execute_opportunity default_config HL_ADAPTIVE hl_filled_script 0 now0 now0 now0
     ''pos-1'' near_opportunity (example_state 20395 0)
     = (Inr (Some ''pos-1''), open_state)
   \<and> positions open_state ''pos-1'' = Some near_position
   \<and> status near_position = OPEN
   \<and> hedge_entry_price near_position = Some 100000
   \<and> take_profit_price near_position = Some 71250
   \<and> breakeven_price near_opportunity = 75000
   \<and> \<not> strictly_between 100000 71250 75000"
proof -
  have rp: "set_risk_parameters default_config near_opportunity
              (near_position\<lparr>status := PENDING, stop_loss_price := None,
                             take_profit_price := None\<rparr>)\<lparr>status := OPEN\<rparr> = near_position"
    by (simp add: set_risk_parameters_def config_fields stop_loss_decimal_def near_opp_fields
          near_position_def Let_def)
  have lg: "log_opened_ok near_position"
    by (simp add: log_opened_ok_def near_position_def)
  have fin: "hl_finish_execution default_config quiet_rollback ''pos-1'' near_opportunity
               (example_state 20395 0) True
               (near_position\<lparr>status := PENDING, stop_loss_price := None,
                              take_profit_price := None\<rparr>)
             = (Inr (Some ''pos-1''), open_state)"
    unfolding hl_finish_execution_def Let_def rp
    by (simp add: lg) (simp add: open_state_def example_state_def register_active_def
          store_position_def)
  have ex: "hl_execute_opportunity default_config HL_ADAPTIVE hl_filled_script 0 now0 now0 now0
     ''pos-1'' near_opportunity (example_state 20395 0) = (Inr (Some ''pos-1''), open_state)"
    unfolding hl_execute_opportunity_def example_pre_checks
    by (simp add: near_opp_fields near_parallel Let_def fin)
       (simp add: hl_filled_script_def fin)
  show ?thesis
    using ex
    by (simp add: open_state_def near_position_def near_opp_fields strictly_between_def)
qed

text \<open>
  The exchange engine puts the take profit halfway between entry and breakeven, and the
  stop loss on the losing side of the entry; the Hyperliquid engine takes 95 percent of
  the breakeven price.
\<close>

lemma exchange_take_profit_between:
  assumes ne: "entry \<noteq> breakeven"
    and tp: "calculate_take_profit (Some entry) side breakeven = Inr tp"
  shows "strictly_between entry tp breakeven"
proof -
  from tp have m: "tp = (entry + breakeven) / 2"
    by (auto simp: calculate_take_profit_def field_simps split: if_splits)
  show ?thesis
  proof (cases "entry < breakeven")
    case True
    then have "entry < tp \<and> tp < breakeven" unfolding m by simp
    then show ?thesis by (simp add: strictly_between_def)
  next
    case False
    with ne have "breakeven < entry" by simp
    then have "breakeven < tp \<and> tp < entry" unfolding m by simp
    then show ?thesis by (simp add: strictly_between_def)
  qed
qed

lemma exchange_stop_loss_side:
  assumes "0 < entry" and "0 < stop_loss_decimal cfg"
    and "calculate_stop_loss cfg (Some entry) side = Inr sl"
  shows "if side = LONG then sl < entry else entry < sl"
  using assms by (auto simp: calculate_stop_loss_def split: if_splits)

lemma hl_take_profit_is_scaled_breakeven:
  "take_profit_price (set_risk_parameters cfg opp pos) = Some tp \<Longrightarrow>
   take_profit_price pos = None \<Longrightarrow> tp = breakeven_price opp * (95/100)"
  by (auto simp: set_risk_parameters_def Let_def split: if_splits option.splits)

text \<open>
  C5, as the code has it.  In the adaptive mode of the Hyperliquid engine the plan uses
  market orders if and only if fewer than 4 hours remain to expiry or the expected profit
  percentage exceeds 5.
\<close>

theorem adaptive_plan_market_orders:
  "use_market_orders (create_execution_plan cfg HL_ADAPTIVE now opp)
     \<longleftrightarrow> total_seconds (expires_at opp - now) / 3600 < 4
         \<or> expected_profit_percentage opp > 5"
  by (auto simp: create_execution_plan_def Let_def)

text \<open>
  C5 as stated fails: with 3 hours to expiry and an expected profit of 3 percent the
  adaptive plan uses market orders.
\<close>

theorem adaptive_two_hour_rule_counterexample:
  "use_market_orders
     (create_execution_plan default_config HL_ADAPTIVE (now0 + 248400000000) modest_opportunity)
   \<and> \<not> (total_seconds (expires_at modest_opportunity - (now0 + 248400000000)) / 3600 < 2)
   \<and> \<not> (expected_profit_percentage modest_opportunity > 5)"
  by (simp add: create_execution_plan_def Let_def modest_opportunity_def near_opp_fields
        total_seconds_def)

text \<open>
  The exchange engine in adaptive mode calls \<^verbatim>\<open>total_seconds\<close> on a \<^verbatim>\<open>Decimal\<close>; the
  exception ends every execution before an order is placed.
\<close>

lemma adaptive_exchange_engine_raises:
  "should_use_market_orders ADAPTIVE now opp = Inl AttributeError"
  by (simp add: should_use_market_orders_def decimal_total_seconds_def)

lemma adaptive_exchange_engine_never_trades:
  "fst (execute_opportunity cfg ex ADAPTIVE v now1 now2 now pid opp st) = None"
  by (simp add: execute_opportunity_def adaptive_exchange_engine_raises Let_def
        split: prod.split bool.split)

subsection \<open>Closing a position\<close>

lemma closed_state_eq:
  "closed_state =
     open_state\<lparr>positions := [''pos-1'' \<mapsto> near_position\<lparr>status := CLOSED,
                                   closed_at := Some (now0 + 60000000)\<rparr>],
                active_positions := [], position_history := [''pos-1'']\<rparr>"
  by (simp add: closed_state_def close_position_def close_position_body_def
        open_state_fields near_position_quantity Let_def store_position_def)
     (simp add: open_state_def example_state_def)

lemma close_position_raises_early:
  assumes "positions st pid = Some pos"
    and "pos_hedge_quantity pos = None
         \<or> (\<exists>q. pos_hedge_quantity pos = Some q \<and> 0 < q \<and> isl place_r)"
  shows "isl (fst (close_position_body place_r now pid pos st))"
    and "close_position place_r now pid st = store_position pid (pos\<lparr>status := ERROR\<rparr>) st"
  using assms
  by (auto simp: close_position_def close_position_body_def set_status_def isl_def)

text \<open>
  The operations of the engines leave a held position alone as long as its status is not
  \<^verbatim>\<open>OPEN\<close>: the monitor skips it, a risk check reads the ledger only, and an execution
  works on its own new position.
\<close>

lemma held_store_other: "q \<noteq> pid \<Longrightarrow> held pid p (store_position q x st) = held pid p st"
  by (simp add: held_def)

lemma held_update_other: "q \<noteq> pid \<Longrightarrow> held pid p (update_position q f st) = held pid p st"
  by (simp add: update_position_def held_store_other split: option.split)

lemma held_set_status_other: "q \<noteq> pid \<Longrightarrow> held pid p (set_status q s st) = held pid p st"
  by (simp add: set_status_def held_store_other split: option.split)

lemma held_close_body_other:
  "q \<noteq> pid \<Longrightarrow> held pid p (snd (close_position_body r now q pos st)) = held pid p st"
  by (simp add: close_position_body_def Let_def held_def split: option.split sum.split)

lemma held_close_other:
  "q \<noteq> pid \<Longrightarrow> held pid p (close_position r now q st) = held pid p st"
proof (cases "positions st q")
  case None
  then show ?thesis by (simp add: close_position_def)
next
  case (Some pos)
  assume n: "q \<noteq> pid"
  obtain res st1 where b: "close_position_body r now q pos st = (res, st1)"
    by (cases "close_position_body r now q pos st")
  have h1: "held pid p st1 = held pid p st"
    using held_close_body_other [OF n, of p r now pos st] b by simp
  show ?thesis
    using Some b h1 n
    by (cases res) (simp_all add: close_position_def held_set_status_other)
qed

lemma held_monitor_close_other:
  "q \<noteq> pid \<Longrightarrow> held pid p (monitor_close v reason q st) = held pid p st"
  by (simp add: monitor_close_def held_close_other)

lemma monitor_position_other:
  "q \<noteq> pid \<Longrightarrow> held pid p (snd (monitor_position v q st)) = held pid p st"
  by (simp add: monitor_position_def Let_def held_monitor_close_other held_update_other
        split: option.split sum.split prod.split)

lemma hl_monitor_position_other:
  "q \<noteq> pid \<Longrightarrow> held pid p (snd (hl_monitor_position cfg v q st)) = held pid p st"
  by (simp add: hl_monitor_position_def Let_def held_monitor_close_other held_update_other
        split: option.split sum.split prod.split)

lemma monitor_position_skips:
  "held pid p st \<Longrightarrow> status p \<noteq> OPEN \<Longrightarrow> monitor_position v pid st = (Inr (), st)"
  by (simp add: monitor_position_def held_def)

lemma hl_monitor_position_skips:
  "held pid p st \<Longrightarrow> status p \<noteq> OPEN \<Longrightarrow> hl_monitor_position cfg v pid st = (Inr (), st)"
  by (simp add: hl_monitor_position_def held_def)

lemma monitor_loop_held:
  assumes step: "\<And>q st. held pid p st \<Longrightarrow> held pid p (snd (step q st))"
  shows "held pid p st \<Longrightarrow> held pid p (monitor_loop step pids st)"
proof (induction pids arbitrary: st)
  case Nil
  then show ?case by simp
next
  case (Cons q pids)
  obtain res st1 where s: "step q st = (res, st1)" by (cases "step q st")
  have h1: "held pid p st1" using step [OF Cons.prems, of q] s by simp
  show ?case using s h1 Cons.IH [OF h1] by (cases res) simp_all
qed

lemma monitor_pass_held:
  assumes "held pid p st" and "status p \<noteq> OPEN"
  shows "held pid p (monitor_pass v st)"
  unfolding monitor_pass_def
proof (rule monitor_loop_held [OF _ assms(1)])
  fix q and s :: "'a executor_state_scheme"
  assume h: "held pid p s"
  show "held pid p (snd (monitor_position v q s))"
  proof (cases "q = pid")
    case True
    then show ?thesis using monitor_position_skips [OF h assms(2)] h by simp
  next
    case False
    then show ?thesis using monitor_position_other [of q pid p v s] h by simp
  qed
qed

lemma hl_monitor_pass_held:
  assumes "held pid p st" and "status p \<noteq> OPEN"
  shows "held pid p (hl_monitor_pass cfg v st)"
  unfolding hl_monitor_pass_def
proof (rule monitor_loop_held [OF _ assms(1)])
  fix q and s :: "'a executor_state_scheme"
  assume h: "held pid p s"
  show "held pid p (snd (hl_monitor_position cfg v q s))"
  proof (cases "q = pid")
    case True
    then show ?thesis using hl_monitor_position_skips [OF h assms(2)] h by simp
  next
    case False
    then show ?thesis using hl_monitor_position_other [of q pid p cfg v s] h by simp
  qed
qed

lemma check_risk_limits_held:
  "held pid p (snd (check_risk_limits now1 now2 st)) = held pid p st"
  by (simp add: check_risk_limits_def Let_def held_def)

lemma check_risk_limits_held_result:
  "check_risk_limits now1 now2 st = (ok, st1) \<Longrightarrow> held pid p st1 = held pid p st"
  using check_risk_limits_held [of pid p now1 now2 st] by simp

lemma held_register: "held pid p st \<Longrightarrow> held pid p (register_active q st)"
  by (simp add: held_def)

lemma held_count: "held pid p (st\<lparr>daily_trade_count := n\<rparr>) = held pid p st"
  by (simp add: held_def)

lemma finish_execution_held:
  "q \<noteq> pid \<Longrightarrow> held pid p st1 \<Longrightarrow>
   held pid p (snd (finish_execution cfg rb q opp st1 a b pos))"
  by (simp add: finish_execution_def Let_def held_store_other held_register held_count
        split: sum.split)

lemma hl_finish_execution_held:
  "q \<noteq> pid \<Longrightarrow> held pid p st1 \<Longrightarrow>
   held pid p (snd (hl_finish_execution cfg rb q opp st1 a pos))"
  by (simp add: hl_finish_execution_def Let_def held_store_other held_register held_count)

lemma execute_opportunity_held:
  assumes n: "q \<noteq> pid" and h: "held pid p st"
  shows "held pid p (snd (execute_opportunity cfg ex strategy v now1 now2 now q opp st))"
proof -
  obtain ok st1 where c: "check_risk_limits now1 now2 st = (ok, st1)"
    by (cases "check_risk_limits now1 now2 st")
  have h1: "held pid p st1" using h by (simp add: check_risk_limits_held_result [OF c])
  show ?thesis
  proof (cases ok)
    case False
    then show ?thesis using c h1 by (simp add: execute_opportunity_def)
  next
    case True
    show ?thesis
    proof (cases "should_use_market_orders strategy now opp")
      case (Inl e)
      then show ?thesis using c True h1 n
        by (simp add: execute_opportunity_def Let_def held_store_other)
    next
      case (Inr m)
      then show ?thesis using c True
        by (simp add: execute_opportunity_def Let_def split: prod.split)
           (use finish_execution_held [OF n h1] in blast)
    qed
  qed
qed

lemma hl_execute_opportunity_held:
  assumes n: "q \<noteq> pid" and h: "held pid p st"
  shows "held pid p (snd (hl_execute_opportunity cfg strategy v fr now1 now2 now q opp st))"
proof -
  obtain r st1 where pc: "pre_execution_checks cfg fr now1 now2 opp st = (r, st1)"
    by (cases "pre_execution_checks cfg fr now1 now2 opp st")
  have "st1 = snd (check_risk_limits now1 now2 st)"
    using pre_execution_checks_state [of cfg fr now1 now2 opp st] pc by simp
  then have h1: "held pid p st1" using h by (simp add: check_risk_limits_held)
  show ?thesis
  proof (cases "r = Inr True")
    case False
    then show ?thesis using pc h1
      by (cases r) (auto simp: hl_execute_opportunity_def)
  next
    case True
    then show ?thesis using pc
      by (simp add: hl_execute_opportunity_def Let_def split: prod.split)
         (use hl_finish_execution_held [OF n h1] in blast)
  qed
qed

lemma run_op_held:
  assumes "held pid p st" and "status p \<noteq> OPEN" and "\<not> creates op pid"
  shows "held pid p (run_op op st)"
proof (cases op)
  case (RiskCheck now1 now2)
  then show ?thesis using assms(1) by (simp add: check_risk_limits_held)
next
  case (ExchangeExecute cfg ex strategy v now1 now2 now new_id opp)
  then show ?thesis using assms execute_opportunity_held [of new_id pid p st] by simp
next
  case (HyperliquidExecute cfg strategy v fr now1 now2 now new_id opp)
  then show ?thesis using assms hl_execute_opportunity_held [of new_id pid p st] by simp
next
  case (ExchangeMonitor v)
  then show ?thesis using assms by (simp add: monitor_pass_held)
next
  case (HyperliquidMonitor cfg v)
  then show ?thesis using assms by (simp add: hl_monitor_pass_held)
qed

lemma run_ops_held:
  assumes "status p \<noteq> OPEN"
  shows "held pid p st \<Longrightarrow> \<forall>op\<in>set ops. \<not> creates op pid \<Longrightarrow> held pid p (run_ops ops st)"
proof (induction ops arbitrary: st)
  case Nil
  then show ?case by simp
next
  case (Cons op ops)
  have "held pid p (run_op op st)" using run_op_held [OF Cons.prems(1) assms] Cons.prems(2) by simp
  then show ?case using Cons.IH Cons.prems(2) by simp
qed

text \<open>
  A closing request that raised would end \<^verbatim>\<open>close_position\<close> before the status update,
  as the test of a missing hedge quantity does: the status of an active position becomes
  \<^verbatim>\<open>ERROR\<close> and nothing else changes, and through any further risk checks, executions
  and monitor passes the position stays in the active-position set with status
  \<^verbatim>\<open>ERROR\<close>.  The clients under src/exchanges never raise.
\<close>

lemma raising_close_keeps_position_active:
  assumes "positions st pid = Some pos" and "pid \<in> set (active_positions st)"
    and "pos_hedge_quantity pos = None
         \<or> (\<exists>q. pos_hedge_quantity pos = Some q \<and> 0 < q \<and> isl place_r)"
    and "\<forall>op\<in>set ops. \<not> creates op pid"
  shows "isl (fst (close_position_body place_r now pid pos st))
       \<and> positions (close_position place_r now pid st) pid = Some (pos\<lparr>status := ERROR\<rparr>)
       \<and> closed_at (pos\<lparr>status := ERROR\<rparr>) = closed_at pos
       \<and> position_history (close_position place_r now pid st) = position_history st
       \<and> active_positions (close_position place_r now pid st) = active_positions st
       \<and> (max_concurrent st \<le> int (length (active_positions st))
            \<longrightarrow> \<not> fst (check_risk_limits now1 now2 (close_position place_r now pid st)))
       \<and> held pid (pos\<lparr>status := ERROR\<rparr>) (run_ops ops (close_position place_r now pid st))"
proof -
  note early = close_position_raises_early [OF assms(1) assms(3), of now]
  have h: "held pid (pos\<lparr>status := ERROR\<rparr>) (close_position place_r now pid st)"
    using early(2) assms(2) by (simp add: held_def)
  have "held pid (pos\<lparr>status := ERROR\<rparr>) (run_ops ops (close_position place_r now pid st))"
    by (rule run_ops_held [OF _ h assms(4)]) simp
  then show ?thesis
    using early by (simp add: check_risk_limits_def Let_def)
qed

lemma raising_close_example:
  "positions open_state ''pos-1'' = Some near_position
   \<and> isl (fst (close_position_body (Inl VenueError) (now0 + 60000000) ''pos-1''
                 near_position open_state))
   \<and> positions (close_position (Inl VenueError) (now0 + 60000000) ''pos-1'' open_state)
         ''pos-1'' = Some (near_position\<lparr>status := ERROR\<rparr>)
   \<and> active_positions (close_position (Inl VenueError) (now0 + 60000000) ''pos-1'' open_state)
       = [''pos-1'']
   \<and> position_history (close_position (Inl VenueError) (now0 + 60000000) ''pos-1''
                          open_state) = []
   \<and> held ''pos-1'' (near_position\<lparr>status := ERROR\<rparr>)
        (run_ops [HyperliquidMonitor default_config example_monitor_script,
                  RiskCheck (now0 + 3600000001) (now0 + 3600000001),
                  HyperliquidExecute default_config HL_ADAPTIVE hl_filled_script 0
                    (now0 + 3600000002) (now0 + 3600000002) (now0 + 3600000002) ''pos-2''
                    near_opportunity]
           (close_position (Inl VenueError) (now0 + 60000000) ''pos-1'' open_state))"
proof -
  have p: "positions open_state ''pos-1'' = Some near_position"
    by (rule open_state_fields)
  have a: "''pos-1'' \<in> set (active_positions open_state)"
    by (simp add: open_state_fields)
  have q: "pos_hedge_quantity near_position = None
           \<or> (\<exists>q. pos_hedge_quantity near_position = Some q \<and> 0 < q
                  \<and> isl (Inl VenueError :: py_error + unit))"
    by (intro disjI2 exI [of _ "2/25"]) (simp add: near_position_quantity)
  have f: "\<forall>op\<in>set [HyperliquidMonitor default_config example_monitor_script,
                      RiskCheck (now0 + 3600000001) (now0 + 3600000001),
                      HyperliquidExecute default_config HL_ADAPTIVE hl_filled_script 0
                        (now0 + 3600000002) (now0 + 3600000002) (now0 + 3600000002) ''pos-2''
                        near_opportunity]. \<not> creates op ''pos-1''"
    by simp
  from raising_close_keeps_position_active [OF p a q f, of "now0 + 60000000" now0 now0] p
  show ?thesis by (simp add: open_state_fields)
qed

text \<open>
  A later call of \<^verbatim>\<open>close_position\<close> that completes (the shutdown of src/main.py closes
  every active position) does remove such a position.
\<close>

lemma error_position_closed_later:
  "active_positions
     (close_position (Inr ()) (now0 + 120000000) ''pos-1''
        (close_position (Inl VenueError) (now0 + 60000000) ''pos-1'' open_state)) = []
   \<and> map_option status
       (positions
          (close_position (Inr ()) (now0 + 120000000) ''pos-1''
             (close_position (Inl VenueError) (now0 + 60000000) ''pos-1'' open_state))
          ''pos-1'') = Some CLOSED"
  by (simp add: close_position_def close_position_body_def open_state_fields
        near_position_quantity set_status_def store_position_def Let_def)

text \<open>
  A position enters the active-position set only after its hedge leg has written a hedge
  quantity to it, and no operation of the engines takes the quantity away: every active
  position has one.
\<close>

lemma qk_store_other:
  "pid \<notin> set (active_positions st) \<Longrightarrow> quantities_known st \<Longrightarrow>
   quantities_known (store_position pid x st)"
  by (auto simp: quantities_known_def quantity_known_def list_all_iff)

lemma qk_store_known:
  "pos_hedge_quantity x \<noteq> None \<Longrightarrow> quantities_known st \<Longrightarrow>
   quantities_known (store_position pid x st)"
  by (auto simp: quantities_known_def quantity_known_def list_all_iff)

lemma qk_register:
  "pos_hedge_quantity x \<noteq> None \<Longrightarrow> quantities_known st \<Longrightarrow>
   quantities_known
     ((register_active pid (store_position pid x st))\<lparr>daily_trade_count := n\<rparr>)"
  by (auto simp: quantities_known_def quantity_known_def list_all_iff register_active_def)

lemma qk_check:
  "quantities_known (snd (check_risk_limits now1 now2 st)) = quantities_known st"
  by (auto simp: check_risk_limits_def Let_def quantities_known_def quantity_known_def
        list_all_iff)

lemma active_check:
  "active_positions (snd (check_risk_limits now1 now2 st)) = active_positions st"
  by (simp add: check_risk_limits_def Let_def)

lemma rollback_quantity [simp]:
  "pos_hedge_quantity (rollback_position rb p) = pos_hedge_quantity p"
  "pos_hedge_quantity (hl_rollback_position rb p) = pos_hedge_quantity p"
  by (simp_all add: rollback_position_def hl_rollback_position_def split: sum.split)

lemma opened_quantity:
  "opened_position cfg opp p = Inr p3 \<Longrightarrow> pos_hedge_quantity p3 = pos_hedge_quantity p"
  by (auto simp: opened_position_def split: sum.splits)

lemma risk_parameters_quantity [simp]:
  "pos_hedge_quantity (set_risk_parameters cfg opp p) = pos_hedge_quantity p"
  by (simp add: set_risk_parameters_def Let_def split: option.split)

lemma hedge_leg_quantity:
  "execute_hedge_leg ex v p m = (ok, p2) \<Longrightarrow> ok \<longrightarrow> pos_hedge_quantity p2 \<noteq> None"
  by (auto simp: execute_hedge_leg_def Let_def split: sum.splits if_splits)

lemma parallel_quantity:
  "execute_parallel v opp p = (ok, p2) \<Longrightarrow> ok \<longrightarrow> pos_hedge_quantity p2 \<noteq> None"
  by (auto simp: execute_parallel_def hl_execute_hyperliquid_leg_def Let_def
        split: sum.splits if_splits prod.splits option.splits)

lemma twap_quantity:
  "execute_twap v opp plan p = (ok, p2) \<Longrightarrow> ok \<longrightarrow> pos_hedge_quantity p2 \<noteq> None"
  by (auto simp: execute_twap_def Let_def split: sum.splits if_splits)

lemma qk_finish_execution:
  assumes "pid \<notin> set (active_positions st1)" and "quantities_known st1"
    and "hedge_success \<longrightarrow> pos_hedge_quantity p2 \<noteq> None"
  shows "quantities_known (snd (finish_execution cfg rb pid opp st1 pm_success hedge_success p2))"
proof (cases "\<not> pm_success \<or> \<not> hedge_success")
  case True
  then show ?thesis using assms by (simp add: finish_execution_def qk_store_other)
next
  case False
  then have q: "pos_hedge_quantity p2 \<noteq> None" using assms(3) by simp
  show ?thesis
  proof (cases "opened_position cfg opp p2")
    case (Inl e)
    then show ?thesis using False assms by (simp add: finish_execution_def qk_store_other)
  next
    case (Inr p3)
    have q3: "pos_hedge_quantity p3 \<noteq> None" using opened_quantity [OF Inr] q by simp
    show ?thesis
      using False Inr q3 assms(2)
      by (simp add: finish_execution_def Let_def qk_register qk_store_known)
  qed
qed

lemma qk_hl_finish_execution:
  assumes "pid \<notin> set (active_positions st1)" and "quantities_known st1"
    and "success \<longrightarrow> pos_hedge_quantity p1 \<noteq> None"
  shows "quantities_known (snd (hl_finish_execution cfg rb pid opp st1 success p1))"
proof (cases success)
  case False
  then show ?thesis using assms by (simp add: hl_finish_execution_def qk_store_other)
next
  case True
  then have q: "pos_hedge_quantity p1 \<noteq> None" using assms(3) by simp
  show ?thesis
    using True q assms(2)
    by (simp add: hl_finish_execution_def Let_def qk_register qk_store_known)
qed

lemma qk_execute_opportunity:
  assumes n: "new_id \<notin> set (active_positions st)" and h: "quantities_known st"
  shows "quantities_known
           (snd (execute_opportunity cfg ex strategy v now1 now2 now new_id opp st))"
proof -
  obtain ok st1 where c: "check_risk_limits now1 now2 st = (ok, st1)"
    by (cases "check_risk_limits now1 now2 st")
  have h1: "quantities_known st1" using h qk_check [of now1 now2 st] c by simp
  have n1: "new_id \<notin> set (active_positions st1)"
    using n active_check [of now1 now2 st] c by simp
  show ?thesis
  proof (cases ok)
    case False
    then show ?thesis using c h1 by (simp add: execute_opportunity_def)
  next
    case True
    show ?thesis
    proof (cases "should_use_market_orders strategy now opp")
      case (Inl e)
      then show ?thesis using c True h1 n1
        by (simp add: execute_opportunity_def Let_def qk_store_other)
    next
      case (Inr m)
      obtain a p1 where l1:
        "execute_polymarket_leg (pm_leg v)
           (new_position new_id now (exchange_name ex) (get_symbol ex (asset (polymarket opp)))
              opp) m = (a, p1)"
        by (cases "execute_polymarket_leg (pm_leg v)
                     (new_position new_id now (exchange_name ex)
                        (get_symbol ex (asset (polymarket opp))) opp) m")
      obtain b p2 where l2: "execute_hedge_leg ex (hedge_leg v) p1 m = (b, p2)"
        by (cases "execute_hedge_leg ex (hedge_leg v) p1 m")
      have q: "b \<longrightarrow> pos_hedge_quantity p2 \<noteq> None" by (rule hedge_leg_quantity [OF l2])
      show ?thesis
        using c True Inr l1 l2 qk_finish_execution [OF n1 h1 q]
        by (simp add: execute_opportunity_def Let_def)
    qed
  qed
qed

lemma qk_hl_execute_opportunity:
  assumes n: "new_id \<notin> set (active_positions st)" and h: "quantities_known st"
  shows "quantities_known
           (snd (hl_execute_opportunity cfg strategy v fr now1 now2 now new_id opp st))"
proof -
  obtain r st1 where pc: "pre_execution_checks cfg fr now1 now2 opp st = (r, st1)"
    by (cases "pre_execution_checks cfg fr now1 now2 opp st")
  have s1: "st1 = snd (check_risk_limits now1 now2 st)"
    using pre_execution_checks_state [of cfg fr now1 now2 opp st] pc by simp
  have h1: "quantities_known st1" using h by (simp add: s1 qk_check)
  have n1: "new_id \<notin> set (active_positions st1)" using n by (simp add: s1 active_check)
  show ?thesis
  proof (cases "r = Inr True")
    case False
    then show ?thesis using pc h1
      by (cases r) (auto simp: hl_execute_opportunity_def)
  next
    case True
    let ?np = "new_position new_id now ''hyperliquid'' (asset (polymarket opp) @ ''-USD-PERP'')
                 opp"
    obtain s p1 where e:
      "(if strategy = HL_TWAP
        then execute_twap v opp (create_execution_plan cfg strategy now opp) ?np
        else execute_parallel v opp ?np) = (s, p1)"
      by (cases "if strategy = HL_TWAP
                 then execute_twap v opp (create_execution_plan cfg strategy now opp) ?np
                 else execute_parallel v opp ?np")
    have q: "s \<longrightarrow> pos_hedge_quantity p1 \<noteq> None"
    proof (cases "strategy = HL_TWAP")
      case True
      then show ?thesis using e twap_quantity by simp
    next
      case False
      then show ?thesis using e parallel_quantity by simp
    qed
    show ?thesis
      using pc True e qk_hl_finish_execution [OF n1 h1 q]
      by (simp add: hl_execute_opportunity_def Let_def)
  qed
qed

lemma qk_update:
  "quantities_known st \<Longrightarrow>
   quantities_known (update_position pid (\<lambda>p. p\<lparr>unrealized_pnl := x\<rparr>) st)"
  by (auto simp: update_position_def quantities_known_def quantity_known_def list_all_iff
        split: option.splits)

lemma qk_set_status:
  "quantities_known st \<Longrightarrow> quantities_known (set_status pid s st)"
  by (auto simp: set_status_def quantities_known_def quantity_known_def list_all_iff
        split: option.splits)

lemma qk_close_body:
  "quantities_known st \<Longrightarrow> quantities_known (snd (close_position_body r now pid pos st))"
  by (auto simp: close_position_body_def Let_def quantities_known_def quantity_known_def
        list_all_iff split: option.splits sum.splits if_splits)

lemma qk_close:
  assumes "quantities_known st"
  shows "quantities_known (close_position r now pid st)"
proof (cases "positions st pid")
  case None
  then show ?thesis using assms by (simp add: close_position_def)
next
  case (Some pos)
  obtain res st1 where b: "close_position_body r now pid pos st = (res, st1)"
    by (cases "close_position_body r now pid pos st")
  have h1: "quantities_known st1" using qk_close_body [OF assms, of r now pid pos] b by simp
  show ?thesis
    using Some b h1 by (cases res) (simp_all add: close_position_def qk_set_status)
qed

lemma qk_monitor_close:
  "quantities_known st \<Longrightarrow> quantities_known (monitor_close v reason pid st)"
  by (simp add: monitor_close_def qk_close)

lemma qk_monitor_position:
  "quantities_known st \<Longrightarrow> quantities_known (snd (monitor_position v pid st))"
  by (simp add: monitor_position_def Let_def qk_monitor_close qk_update
        split: option.split sum.split prod.split)

lemma qk_hl_monitor_position:
  "quantities_known st \<Longrightarrow> quantities_known (snd (hl_monitor_position cfg v pid st))"
  by (simp add: hl_monitor_position_def Let_def qk_monitor_close qk_update
        split: option.split sum.split prod.split)

lemma qk_monitor_loop:
  assumes step: "\<And>q st. quantities_known st \<Longrightarrow> quantities_known (snd (step q st))"
  shows "quantities_known st \<Longrightarrow> quantities_known (monitor_loop step pids st)"
proof (induction pids arbitrary: st)
  case Nil
  then show ?case by simp
next
  case (Cons q pids)
  obtain res st1 where s: "step q st = (res, st1)" by (cases "step q st")
  have h1: "quantities_known st1" using step [OF Cons.prems, of q] s by simp
  show ?case using s h1 Cons.IH [OF h1] by (cases res) simp_all
qed

lemma qk_run_op:
  assumes "quantities_known st" and "list_all (\<lambda>pid. \<not> creates op pid) (active_positions st)"
  shows "quantities_known (run_op op st)"
proof (cases op)
  case (RiskCheck now1 now2)
  then show ?thesis using assms(1) by (simp add: qk_check)
next
  case (ExchangeExecute cfg ex strategy v now1 now2 now new_id opp)
  then have "new_id \<notin> set (active_positions st)" using assms(2) by (auto simp: list_all_iff)
  then show ?thesis using ExchangeExecute assms(1) by (simp add: qk_execute_opportunity)
next
  case (HyperliquidExecute cfg strategy v fr now1 now2 now new_id opp)
  then have "new_id \<notin> set (active_positions st)" using assms(2) by (auto simp: list_all_iff)
  then show ?thesis using HyperliquidExecute assms(1) by (simp add: qk_hl_execute_opportunity)
next
  case (ExchangeMonitor v)
  then show ?thesis using assms(1)
    by (simp add: monitor_pass_def qk_monitor_loop qk_monitor_position)
next
  case (HyperliquidMonitor cfg v)
  then show ?thesis using assms(1)
    by (simp add: hl_monitor_pass_def qk_monitor_loop qk_hl_monitor_position)
qed

lemma run_ops_quantities_known:
  "quantities_known st \<Longrightarrow> fresh_ids ops st \<Longrightarrow> quantities_known (run_ops ops st)"
proof (induction ops arbitrary: st)
  case Nil
  then show ?case by simp
next
  case (Cons op ops)
  then show ?case using qk_run_op [of st op] by simp
qed

lemma registered_position_has_quantity:
  assumes "active_positions st0 = []" and "fresh_ids ops st0"
    and "pid \<in> set (active_positions (run_ops ops st0))"
  shows "\<exists>pos. positions (run_ops ops st0) pid = Some pos \<and> pos_hedge_quantity pos \<noteq> None"
proof -
  have "quantities_known st0"
    using assms(1) by (simp add: quantities_known_def)
  then have "quantities_known (run_ops ops st0)"
    using assms(2) by (rule run_ops_quantities_known)
  then show ?thesis
    using assms(3)
    by (auto simp: quantities_known_def quantity_known_def list_all_iff split: option.splits)
qed

lemma close_requests_return:
  "exchange_close_request sent = Inr ()" "hyperliquid_close_request account orders a = Inr ()"
  by (simp_all add: exchange_close_request_def hyperliquid_close_request_def
        split: option.split)

lemma close_position_returns:
  assumes "positions st pid = Some pos" and "pos_hedge_quantity pos \<noteq> None"
    and "pid \<in> set (active_positions st)"
  shows "fst (close_position_body (Inr ()) now pid pos st) = Inr ()"
    and "close_position (Inr ()) now pid st
         = (store_position pid (pos\<lparr>status := CLOSED, closed_at := Some now\<rparr>) st)
             \<lparr>position_history := position_history st @ [pid],
              active_positions := removeAll pid (active_positions st)\<rparr>"
  using assms
  by (auto simp: close_position_def close_position_body_def Let_def store_position_def)

lemma close_position_key_error:
  assumes "positions st pid = Some pos" and "pos_hedge_quantity pos \<noteq> None"
    and "pid \<notin> set (active_positions st)"
  shows "fst (close_position_body (Inr ()) now pid pos st) = Inl KeyError"
    and "positions (close_position (Inr ()) now pid st) pid
         = Some (pos\<lparr>status := ERROR, closed_at := Some now\<rparr>)"
    and "position_history (close_position (Inr ()) now pid st) = position_history st @ [pid]"
    and "active_positions (close_position (Inr ()) now pid st) = active_positions st"
  using assms
  by (auto simp: close_position_def close_position_body_def Let_def store_position_def
        set_status_def)

text \<open>
  So in a run of the engines that starts with no active position, closing an active
  position raises nothing and removes it, whatever the venue answers to the closing
  request.
\<close>

lemma registered_position_is_closed:
  assumes "active_positions st0 = []" and "fresh_ids ops st0"
    and "pid \<in> set (active_positions (run_ops ops st0))"
    and "r = exchange_close_request sent \<or> r = hyperliquid_close_request account orders a"
  shows "\<exists>pos. positions (run_ops ops st0) pid = Some pos
           \<and> fst (close_position_body r now pid pos (run_ops ops st0)) = Inr ()
           \<and> positions (close_position r now pid (run_ops ops st0)) pid
               = Some (pos\<lparr>status := CLOSED, closed_at := Some now\<rparr>)
           \<and> pid \<notin> set (active_positions (close_position r now pid (run_ops ops st0)))"
proof -
  obtain pos where p: "positions (run_ops ops st0) pid = Some pos"
    and q: "pos_hedge_quantity pos \<noteq> None"
    using registered_position_has_quantity [OF assms(1-3)] by blast
  have r: "r = Inr ()" using assms(4) close_requests_return by metis
  show ?thesis
    using p close_position_returns [OF p q assms(3), of now]
    by (simp add: r)
qed

text \<open>
  C10, as the code has it.  The closing request raises nothing: the clients catch every
  exception and return \<^verbatim>\<open>None\<close> or \<^verbatim>\<open>False\<close>, which \<^verbatim>\<open>close_position\<close> does not
  read.  So whatever the venue answers, a rejected closing order included, the outcome of
  \<^verbatim>\<open>close_position\<close> is fixed by the ledger.  For an active position with a hedge
  quantity nothing raises: the position ends with status \<^verbatim>\<open>CLOSED\<close> and a closed
  timestamp, in the history and out of the active-position set.  For a position with a
  hedge quantity that is not in the active-position set, deleting its key raises
  \<^verbatim>\<open>KeyError\<close> after the status update: the status becomes \<^verbatim>\<open>ERROR\<close>, and the position
  has a closed timestamp, is in the history and is not in the active-position set.  For a
  position without a hedge quantity the comparison raises \<^verbatim>\<open>TypeError\<close> before the
  status update: the status becomes \<^verbatim>\<open>ERROR\<close> and nothing else changes.
\<close>

theorem close_position_outcomes:
  assumes "positions st pid = Some pos"
    and "r = exchange_close_request sent \<or> r = hyperliquid_close_request account orders a"
  shows "(pos_hedge_quantity pos \<noteq> None \<and> pid \<in> set (active_positions st) \<longrightarrow>
            fst (close_position_body r now pid pos st) = Inr ()
          \<and> positions (close_position r now pid st) pid
              = Some (pos\<lparr>status := CLOSED, closed_at := Some now\<rparr>)
          \<and> position_history (close_position r now pid st) = position_history st @ [pid]
          \<and> active_positions (close_position r now pid st)
              = removeAll pid (active_positions st)
          \<and> pid \<notin> set (active_positions (close_position r now pid st)))
       \<and> (pos_hedge_quantity pos \<noteq> None \<and> pid \<notin> set (active_positions st) \<longrightarrow>
            fst (close_position_body r now pid pos st) = Inl KeyError
          \<and> positions (close_position r now pid st) pid
              = Some (pos\<lparr>status := ERROR, closed_at := Some now\<rparr>)
          \<and> position_history (close_position r now pid st) = position_history st @ [pid]
          \<and> active_positions (close_position r now pid st) = active_positions st)
       \<and> (pos_hedge_quantity pos = None \<longrightarrow>
            fst (close_position_body r now pid pos st) = Inl TypeError
          \<and> positions (close_position r now pid st) pid = Some (pos\<lparr>status := ERROR\<rparr>)
          \<and> closed_at (pos\<lparr>status := ERROR\<rparr>) = closed_at pos
          \<and> position_history (close_position r now pid st) = position_history st
          \<and> active_positions (close_position r now pid st) = active_positions st)"
proof -
  have r: "r = Inr ()" using assms(2) close_requests_return by metis
  show ?thesis
  proof (cases "pos_hedge_quantity pos")
    case None
    then show ?thesis
      using assms(1)
      by (simp add: r close_position_def close_position_body_def set_status_def)
  next
    case (Some q)
    then have q: "pos_hedge_quantity pos \<noteq> None" by simp
    show ?thesis
    proof (cases "pid \<in> set (active_positions st)")
      case True
      show ?thesis
        using close_position_returns [OF assms(1) q True, of now] True q
        by (simp add: r)
    next
      case False
      show ?thesis
        using close_position_key_error [OF assms(1) q False, of now] False q
        by (simp add: r)
    qed
  qed
qed

theorem close_position_outcomes_witness:
  "\<not> client_close_position (Inr example_account) (\<lambda>p. Inl VenueError) ''BTC''
   \<and> positions (close_position
                  (hyperliquid_close_request (Inr example_account) (\<lambda>p. Inl VenueError)
                     ''BTC'')
                  (now0 + 60000000) ''pos-1'' open_state) ''pos-1''
       = Some (near_position\<lparr>status := CLOSED, closed_at := Some (now0 + 60000000)\<rparr>)
   \<and> position_history (close_position
                  (hyperliquid_close_request (Inr example_account) (\<lambda>p. Inl VenueError)
                     ''BTC'')
                  (now0 + 60000000) ''pos-1'' open_state) = [''pos-1'']
   \<and> active_positions (close_position
                  (hyperliquid_close_request (Inr example_account) (\<lambda>p. Inl VenueError)
                     ''BTC'')
                  (now0 + 60000000) ''pos-1'' open_state) = []
   \<and> fst (close_position_body (exchange_close_request (Inl VenueError)) (now0 + 120000000)
            ''pos-1'' (near_position\<lparr>status := CLOSED, closed_at := Some (now0 + 60000000)\<rparr>)
            closed_state) = Inl KeyError
   \<and> positions (close_position (exchange_close_request (Inl VenueError)) (now0 + 120000000)
                  ''pos-1'' closed_state) ''pos-1''
       = Some (near_position\<lparr>status := ERROR, closed_at := Some (now0 + 120000000)\<rparr>)
   \<and> active_positions (close_position (exchange_close_request (Inl VenueError))
                         (now0 + 120000000) ''pos-1'' closed_state) = []
   \<and> fst (close_position_body (exchange_close_request (Inl VenueError)) (now0 + 60000000)
            ''pos-0'' rolled_back_position rolled_back_state) = Inl TypeError
   \<and> positions (close_position (exchange_close_request (Inl VenueError)) (now0 + 60000000)
                  ''pos-0'' rolled_back_state) ''pos-0''
       = Some (rolled_back_position\<lparr>status := ERROR\<rparr>)
   \<and> position_history (close_position (exchange_close_request (Inl VenueError))
                         (now0 + 60000000) ''pos-0'' rolled_back_state) = []
   \<and> active_positions (close_position (exchange_close_request (Inl VenueError))
                         (now0 + 60000000) ''pos-0'' rolled_back_state) = [''pos-1'']"
proof -
  let ?closed = "near_position\<lparr>status := CLOSED, closed_at := Some (now0 + 60000000)\<rparr>"
  let ?r1 = "hyperliquid_close_request (Inr example_account) (\<lambda>p. Inl VenueError) ''BTC''"
  let ?r2 = "exchange_close_request (Inl VenueError)"
  have c: "\<not> client_close_position (Inr example_account) (\<lambda>p. Inl VenueError) ''BTC''"
    by (simp add: client_close_position_def client_get_positions_def client_place_order_def
          example_account_def)
  have p1: "positions open_state ''pos-1'' = Some near_position"
    by (rule open_state_fields)
  have p2: "positions closed_state ''pos-1'' = Some ?closed"
    by (simp add: closed_state_eq)
  have p3: "positions rolled_back_state ''pos-0'' = Some rolled_back_position"
    by (simp add: rolled_back_state_def)
  have a1: "pos_hedge_quantity near_position \<noteq> None"
    "''pos-1'' \<in> set (active_positions open_state)"
    "removeAll ''pos-1'' (active_positions open_state) = []"
    "position_history open_state = []"
    by (simp_all add: near_position_quantity open_state_fields)
  have a2: "pos_hedge_quantity ?closed \<noteq> None"
    "''pos-1'' \<notin> set (active_positions closed_state)"
    "active_positions closed_state = []"
    by (simp_all add: near_position_quantity closed_state_eq)
  have a3: "pos_hedge_quantity rolled_back_position = None"
    "active_positions rolled_back_state = [''pos-1'']"
    "position_history rolled_back_state = []"
    by (simp_all add: rolled_back_position_def rolled_back_state_def open_state_fields)
  have u: "?closed\<lparr>status := ERROR, closed_at := Some (now0 + 120000000)\<rparr>
           = near_position\<lparr>status := ERROR, closed_at := Some (now0 + 120000000)\<rparr>"
    by simp
  note t1 = close_position_outcomes
              [where r = ?r1 and account = "Inr example_account"
                 and orders = "\<lambda>p. Inl VenueError" and a = "''BTC''"
                 and now = "now0 + 60000000", OF p1 disjI2 [OF refl]]
  note t2 = close_position_outcomes
              [where r = ?r2 and sent = "Inl VenueError" and now = "now0 + 120000000",
               OF p2 disjI1 [OF refl]]
  note t3 = close_position_outcomes
              [where r = ?r2 and sent = "Inl VenueError" and now = "now0 + 60000000",
               OF p3 disjI1 [OF refl]]
  show ?thesis
    using t1 t2 t3 c a1 a2 a3 u by simp
qed

text \<open>
  C10 as stated fails for an exception raised after the status update.  Closing
  \<open>near_position\<close> a second time raises \<^verbatim>\<open>KeyError\<close> when the key is deleted from the
  active-position set: the status becomes \<^verbatim>\<open>ERROR\<close>, but the position has a closed
  timestamp, is in the history (twice) and is not in the active-position set.
\<close>

theorem close_after_update_counterexample:
  "fst (close_position_body (Inr ()) (now0 + 120000000) ''pos-1''
          (near_position\<lparr>status := CLOSED, closed_at := Some (now0 + 60000000)\<rparr>)
          closed_state) = Inl KeyError
   \<and> positions closed_state ''pos-1''
       = Some (near_position\<lparr>status := CLOSED, closed_at := Some (now0 + 60000000)\<rparr>)
   \<and> closed_twice_state = close_position (Inr ()) (now0 + 120000000) ''pos-1'' closed_state
   \<and> map_option status (positions closed_twice_state ''pos-1'') = Some ERROR
   \<and> map_option closed_at (positions closed_twice_state ''pos-1'')
       = Some (Some (now0 + 120000000))
   \<and> position_history closed_twice_state = [''pos-1'', ''pos-1'']
   \<and> active_positions closed_twice_state = []"
  by (simp add: closed_twice_state_def closed_state_eq close_position_def
        close_position_body_def near_position_quantity Let_def store_position_def
        set_status_def open_state_fields)

end
